theory Spec2Isabelle
  imports Main
begin

section \<open>The host engine's graph IR, as the plugin reads it\<close>

text \<open>
  The plugin reads the host graph only through accessor calls of the host's C++ API
  (\<open>node.GetInputs()\<close>, \<open>value_info.TypeInfo()\<close>, ...). Such a call either returns
  a value or throws. A host object is therefore modelled as the record of the outcomes
  of its accessors: \<open>Inr v\<close> when the call returns \<open>v\<close>, \<open>Inl e\<close> when it throws
  \<open>e\<close>. The 64-bit integers of the source (\<open>int64_t\<close> attribute values, dimensions,
  UIDs, workspace size) are \<open>int\<close>; the only arithmetic on them that the theorems
  below depend on is the increment of the UID counter, whose values are shown to stay
  between 1 and the number of tensors.
\<close>

datatype OrtErrorCode = ORT_FAIL | ORT_EP_FAIL | ORT_OTHER_CODE nat

text \<open>An \<open>OrtStatus*\<close>: \<open>nullptr\<close> is success, otherwise an error code and a message.\<close>

datatype OrtStatus = nullptr | Status OrtErrorCode string

text \<open>
  The exceptions of the source: \<open>Ort::Exception\<close> (derived from \<open>std::exception\<close>,
  carrying an error code) and any other \<open>std::exception\<close>.
\<close>

datatype exn = OrtException OrtErrorCode string | StdException string

fun what :: "exn \<Rightarrow> string" where
  "what (OrtException c m) = m"
| "what (StdException m) = m"

type_synonym 'a ort = "exn + 'a"

definition bind_ort :: "'a ort \<Rightarrow> ('a \<Rightarrow> 'b ort) \<Rightarrow> 'b ort" where
  "bind_ort m f = (case m of Inl e \<Rightarrow> Inl e | Inr v \<Rightarrow> f v)"

datatype ONNXType = ONNX_TYPE_UNKNOWN | ONNX_TYPE_TENSOR | ONNX_TYPE_OTHER nat

datatype ONNXTensorElementDataType =
    ONNX_TENSOR_ELEMENT_DATA_TYPE_UNDEFINED
  | ONNX_TENSOR_ELEMENT_DATA_TYPE_FLOAT
  | ONNX_TENSOR_ELEMENT_DATA_TYPE_FLOAT16
  | ONNX_TENSOR_ELEMENT_DATA_TYPE_OTHER nat

text \<open>
  \<open>GetElementType\<close> and \<open>GetShape\<close> stand for
  \<open>GetTensorTypeAndShapeInfo().GetElementType()\<close> and
  \<open>GetTensorTypeAndShapeInfo().GetShape()\<close>.
\<close>

record TypeInfo =
  GetONNXType :: "ONNXType ort"
  GetElementType :: "ONNXTensorElementDataType ort"
  GetShape :: "int list ort"

record ValueInfo =
  vi_GetName :: "string ort"
  vi_TypeInfo :: "TypeInfo ort"

text \<open>
  An operator attribute, as the three typed reads see it: \<open>None\<close> when the returned
  status is not OK, \<open>Some v\<close> when the read succeeds with \<open>v\<close>.
\<close>

record OpAttr =
  GetValue_string :: "string option"
  GetValue_int64 :: "int option"
  GetValueArray_int64 :: "int list option"

text \<open>
  \<open>nd_GetAttributeByName node name\<close> is the outcome of
  \<open>node.GetAttributeByName(name, attr)\<close>: whether the returned status is OK, and the
  attribute handle written to \<open>attr\<close> (\<open>None\<close> for a null handle).
\<close>

record Node =
  nd_GetOperatorType :: "string ort"
  nd_GetName :: "string ort"
  nd_GetInputs :: "ValueInfo list ort"
  nd_GetOutputs :: "ValueInfo list ort"
  nd_GetAttributeByName :: "string \<Rightarrow> bool \<times> OpAttr option"

record Graph =
  gr_GetInputs :: "ValueInfo list ort"
  gr_GetOutputs :: "ValueInfo list ort"
  gr_GetNodes :: "Node list ort"

section \<open>ep\_utils: tensor descriptor readers and attribute readers\<close>

definition GetTensorShape :: "ValueInfo \<Rightarrow> int list option ort" where
  "GetTensorShape value_info =
     bind_ort (vi_TypeInfo value_info) (\<lambda>type_info.
     bind_ort (GetONNXType type_info) (\<lambda>onnx_type.
       if onnx_type \<noteq> ONNX_TYPE_TENSOR then Inr None
       else bind_ort (GetShape type_info) (\<lambda>shape. Inr (Some shape))))"

definition GetTensorElementType :: "ValueInfo \<Rightarrow> ONNXTensorElementDataType ort" where
  "GetTensorElementType value_info =
     bind_ort (vi_TypeInfo value_info) (\<lambda>type_info.
     bind_ort (GetONNXType type_info) (\<lambda>onnx_type.
       if onnx_type \<noteq> ONNX_TYPE_TENSOR then Inr ONNX_TENSOR_ELEMENT_DATA_TYPE_UNDEFINED
       else GetElementType type_info))"

definition GetStringAttrOrDefault :: "Node \<Rightarrow> string \<Rightarrow> string \<Rightarrow> string" where
  "GetStringAttrOrDefault node name default_val =
     (case nd_GetAttributeByName node name of
        (status_ok, attr) \<Rightarrow>
          if \<not> status_ok \<or> attr = None then default_val
          else (case GetValue_string (the attr) of
                  None \<Rightarrow> default_val
                | Some v \<Rightarrow> v))"

definition GetIntAttrOrDefault :: "Node \<Rightarrow> string \<Rightarrow> int \<Rightarrow> int" where
  "GetIntAttrOrDefault node name default_val =
     (case nd_GetAttributeByName node name of
        (status_ok, attr) \<Rightarrow>
          if \<not> status_ok \<or> attr = None then default_val
          else (case GetValue_int64 (the attr) of
                  None \<Rightarrow> default_val
                | Some v \<Rightarrow> v))"

definition GetIntsAttrOrDefault :: "Node \<Rightarrow> string \<Rightarrow> int list \<Rightarrow> int list" where
  "GetIntsAttrOrDefault node name default_val =
     (case nd_GetAttributeByName node name of
        (status_ok, attr) \<Rightarrow>
          if \<not> status_ok \<or> attr = None then default_val
          else (case GetValueArray_int64 (the attr) of
                  None \<Rightarrow> default_val
                | Some v \<Rightarrow> v))"

section \<open>ep.cc: the capability matcher\<close>

text \<open>
  The body of the \<open>try\<close> block of \<open>IsSupportedConv\<close>: \<open>Inl e\<close> when an accessor
  throws \<open>e\<close>, \<open>Inr b\<close> when the block returns \<open>b\<close>.
\<close>

definition IsSupportedConv_try :: "Node \<Rightarrow> bool ort" where
  "IsSupportedConv_try node =
     bind_ort (nd_GetInputs node) (\<lambda>inputs.
     bind_ort (nd_GetOutputs node) (\<lambda>outputs.
       if length inputs < 2 \<or> length outputs \<noteq> 1 then Inr False
       else
     bind_ort (GetTensorElementType (inputs ! 0)) (\<lambda>x_type.
     bind_ort (GetTensorElementType (inputs ! 1)) (\<lambda>w_type.
     bind_ort (GetTensorElementType (outputs ! 0)) (\<lambda>y_type.
       let supported_type =
             ((x_type = ONNX_TENSOR_ELEMENT_DATA_TYPE_FLOAT \<or>
               x_type = ONNX_TENSOR_ELEMENT_DATA_TYPE_FLOAT16) \<and>
              x_type = w_type \<and> x_type = y_type)
       in if \<not> supported_type then Inr False
       else
     bind_ort (GetTensorShape (inputs ! 0)) (\<lambda>x_shape.
     bind_ort (GetTensorShape (inputs ! 1)) (\<lambda>w_shape.
       if x_shape = None \<or> w_shape = None then Inr False
       else if length (the x_shape) \<noteq> 4 \<or> length (the w_shape) \<noteq> 4 then Inr False
       else
         let auto_pad = GetStringAttrOrDefault node ''auto_pad'' ''NOTSET'' in
         if auto_pad \<noteq> ''NOTSET'' then Inr False
         else
         let group = GetIntAttrOrDefault node ''group'' 1 in
         if group \<noteq> 1 then Inr False
         else
         let dilations = GetIntsAttrOrDefault node ''dilations'' [1, 1] in
         if length dilations \<noteq> 2 \<or> dilations ! 0 \<noteq> 1 \<or> dilations ! 1 \<noteq> 1 then Inr False
         else Inr True)))))))"

text \<open>\<open>catch (...)\<close>: every exception of the block becomes the verdict \<open>false\<close>.\<close>

definition IsSupportedConv :: "Node \<Rightarrow> bool" where
  "IsSupportedConv node =
     (case IsSupportedConv_try node of Inl e \<Rightarrow> False | Inr b \<Rightarrow> b)"

text \<open>
  \<open>IsSupportedOp\<close> reads the operator type outside any \<open>try\<close> block, so an exception
  of \<open>GetOperatorType\<close> leaves the function.
\<close>

definition IsSupportedOp :: "Node \<Rightarrow> bool ort" where
  "IsSupportedOp node =
     bind_ort (nd_GetOperatorType node) (\<lambda>op_type.
       if op_type = ''Conv'' then Inr (IsSupportedConv node)
       else Inr False)"

section \<open>kernel.cc: translation of a subgraph into the vendor graph\<close>

text \<open>
  How a call of the translator can end without its normal result: it returns a non-null
  \<open>OrtStatus*\<close> (\<open>RETURN_ERROR\<close>), a C++ exception leaves it, or it reads a
  \<open>std::vector\<close> out of range, which is undefined behaviour. Fields of the source
  that end in an underscore (\<open>next_uid_\<close>) lose it here.
\<close>

datatype failure = Error OrtErrorCode string | Thrown exn | Undefined

type_synonym 'a res = "failure + 'a"

definition call :: "'a ort \<Rightarrow> 'a res" where
  "call m = (case m of Inl e \<Rightarrow> Inl (Thrown e) | Inr v \<Rightarrow> Inr v)"

definition bind_res :: "'a res \<Rightarrow> ('a \<Rightarrow> 'b res) \<Rightarrow> 'b res" where
  "bind_res m f = (case m of Inl e \<Rightarrow> Inl e | Inr v \<Rightarrow> f v)"

text \<open>\<open>operator<<\<close> of an unsigned size: its decimal digits.\<close>

fun show_nat :: "nat \<Rightarrow> string" where
  "show_nat n =
     (if n < 10 then [char_of (48 + n)]
      else show_nat (n div 10) @ [char_of (48 + n mod 10)])"

subsection \<open>The vendor library, as the plugin sees it\<close>

datatype DataType = DataType_FLOAT | DataType_HALF | DataType_NOT_SET | DataType_OTHER nat

record TensorAttributes =
  ta_uid :: int
  ta_name :: string
  ta_data_type :: DataType
  ta_dim :: "int list"
  ta_stride :: "int list"
  ta_is_virtual :: bool

datatype ConvolutionMode = CROSS_CORRELATION | CONVOLUTION

record ConvFpropAttributes =
  cv_padding :: "int list"
  cv_stride :: "int list"
  cv_dilation :: "int list"
  cv_convolution_mode :: ConvolutionMode
  cv_compute_data_type :: DataType

text \<open>
  Tensor attribute objects are shared (\<open>std::shared_ptr\<close>) between the symbol table
  and the vendor graph, and the translator mutates them through the symbol table. They
  live in a store, a list indexed by address; a \<open>TensorAttrPtr\<close> is an address.
\<close>

type_synonym TensorAttrPtr = nat

datatype Operation = ConvFprop TensorAttrPtr TensorAttrPtr ConvFpropAttributes TensorAttrPtr

datatype HeuristicMode = FALLBACK | HEURISTIC_OTHER nat

datatype void_ptr = NullPtr | TensorData nat | WorkspaceData

type_synonym variant_pack = "int \<rightharpoonup> void_ptr"

text \<open>The calls made on a vendor graph object after its operations are added.\<close>

datatype VendorCall =
    validate
  | build_operation_graph nat
  | create_execution_plans "HeuristicMode list"
  | check_support
  | build_plans
  | get_workspace_size
  | execute nat variant_pack void_ptr

text \<open>
  The vendor graph object: the operations appended to it and the calls made on it,
  oldest first.
\<close>

record HipGraph =
  g_ops :: "Operation list"
  g_calls :: "VendorCall list"

record error_t =
  is_bad :: bool
  get_message :: string

text \<open>
  The vendor library is not part of the repository; its answers are parameters. Each
  build stage answers from the operations of the graph and the tensor attributes they
  refer to. \<open>vn_TensorAttributes\<close> is a default-constructed attribute object,
  \<open>vn_conv_fprop\<close> the output attribute object that \<open>conv_fprop\<close> creates.

  The last field is an answer of the C++ runtime, not of the vendor: what happens when
  the workspace vector is grown to \<open>n\<close> bytes. \<open>None\<close> means that the memory is
  there, \<open>Some e\<close> that the allocation throws \<open>e\<close> (\<open>std::bad_alloc\<close>, or
  \<open>std::length_error\<close> beyond \<open>max_size()\<close>). It is the one allocation whose
  size comes from outside the program.
\<close>

record Vendor =
  vn_TensorAttributes :: TensorAttributes
  vn_conv_fprop :: "TensorAttributes \<Rightarrow> TensorAttributes \<Rightarrow> ConvFpropAttributes \<Rightarrow> TensorAttributes"
  vn_validate :: "Operation list \<Rightarrow> TensorAttributes list \<Rightarrow> error_t"
  vn_build_operation_graph :: "Operation list \<Rightarrow> TensorAttributes list \<Rightarrow> nat \<Rightarrow> error_t"
  vn_create_execution_plans :: "Operation list \<Rightarrow> TensorAttributes list \<Rightarrow> HeuristicMode list \<Rightarrow> error_t"
  vn_check_support :: "Operation list \<Rightarrow> TensorAttributes list \<Rightarrow> error_t"
  vn_build_plans :: "Operation list \<Rightarrow> TensorAttributes list \<Rightarrow> error_t"
  vn_get_workspace_size :: "Operation list \<Rightarrow> TensorAttributes list \<Rightarrow> error_t \<times> int"
  vn_execute :: "Operation list \<Rightarrow> TensorAttributes list \<Rightarrow> nat \<Rightarrow> variant_pack \<Rightarrow> void_ptr \<Rightarrow> error_t"
  rt_allocate :: "nat \<Rightarrow> exn option"

subsection \<open>The Kernel\<close>

record Kernel =
  handle :: nat
  graph :: "HipGraph option"
  workspace :: "char list"
  input_uids :: "int list"
  output_uids :: "int list"
  output_shapes :: "int list list"
  symbol_table :: "string \<rightharpoonup> TensorAttrPtr"
  next_uid :: int
  store :: "TensorAttributes list"

text \<open>The constructor: every member default-initialised, \<open>next_uid_{1}\<close>.\<close>

definition Kernel_new :: "nat \<Rightarrow> Kernel" where
  "Kernel_new h =
     \<lparr>handle = h, graph = None, workspace = [], input_uids = [], output_uids = [],
      output_shapes = [], symbol_table = Map.empty, next_uid = 1, store = []\<rparr>"

subsection \<open>Helpers of the anonymous namespace\<close>

text \<open>
  A product of two \<open>int64_t\<close>: the value that fits 64 bits in two's complement. (A
  product out of range is undefined behaviour in C++; the wrapped value is what the
  multiplication instruction leaves.)
\<close>

definition mul_int64 :: "int \<Rightarrow> int \<Rightarrow> int" where
  "mul_int64 a b = (a * b + 2 ^ 63) mod 2 ^ 64 - 2 ^ 63"

text \<open>
  The loop of \<open>ComputeStrides\<close> runs \<open>i\<close> from \<open>size - 1\<close> down to 0; the second
  argument of the loop function is \<open>i + 1\<close>.
\<close>

fun ComputeStrides_loop :: "int list \<Rightarrow> nat \<Rightarrow> int \<Rightarrow> int list \<Rightarrow> int list" where
  "ComputeStrides_loop shape 0 stride strides = strides"
| "ComputeStrides_loop shape (Suc i) stride strides =
     ComputeStrides_loop shape i (mul_int64 stride (shape ! i)) (strides[i := stride])"

definition ComputeStrides :: "int list \<Rightarrow> int list" where
  "ComputeStrides shape =
     ComputeStrides_loop shape (length shape) 1 (replicate (length shape) 0)"

fun ToHipDNNDataType :: "ONNXTensorElementDataType \<Rightarrow> DataType option" where
  "ToHipDNNDataType ONNX_TENSOR_ELEMENT_DATA_TYPE_FLOAT = Some DataType_FLOAT"
| "ToHipDNNDataType ONNX_TENSOR_ELEMENT_DATA_TYPE_FLOAT16 = Some DataType_HALF"
| "ToHipDNNDataType t = None"

definition GetComputeDataType :: "DataType \<Rightarrow> DataType \<Rightarrow> DataType option" where
  "GetComputeDataType x_dtype w_dtype =
     (let x_is_float = (x_dtype = DataType_FLOAT \<or> x_dtype = DataType_HALF);
          w_is_float = (w_dtype = DataType_FLOAT \<or> w_dtype = DataType_HALF)
      in if x_is_float \<and> w_is_float then Some DataType_FLOAT else None)"

definition CreateTensorAttr :: "Vendor \<Rightarrow> ValueInfo \<Rightarrow> int \<Rightarrow> TensorAttributes res" where
  "CreateTensorAttr vendor value_info uid =
     bind_res (call (vi_GetName value_info)) (\<lambda>name.
     bind_res (call (GetTensorShape value_info)) (\<lambda>shape.
       if shape = None
       then Inl (Error ORT_EP_FAIL (''Value must have static shape: '' @ name))
       else
     bind_res (call (GetTensorElementType value_info)) (\<lambda>elem_type.
       let dtype = ToHipDNNDataType elem_type in
       if dtype = None
       then Inl (Error ORT_EP_FAIL (''Unsupported data type for value: '' @ name))
       else Inr ((vn_TensorAttributes vendor)
                   \<lparr>ta_uid := uid, ta_name := name, ta_data_type := the dtype,
                    ta_dim := the shape, ta_stride := ComputeStrides (the shape)\<rparr>))))"

text \<open>
  The padding normalisation of \<open>AddConvNode\<close> (the \<open>if\<close>/\<open>else if\<close> after the
  attributes are read): \<open>None\<close> is the \<open>RETURN_ERROR\<close> branch.
\<close>

definition normalize_pads :: "int list \<Rightarrow> int list option" where
  "normalize_pads pads =
     (if length pads = 2 then Some [pads ! 0, pads ! 1, pads ! 0, pads ! 1]
      else if length pads \<noteq> 4 then None
      else Some pads)"

text \<open>
  \<open>AddConvNode\<close> returns the address of the output attribute object. \<open>strides[0]\<close>,
  \<open>strides[1]\<close>, \<open>dilations[0]\<close> and \<open>dilations[1]\<close> are unchecked vector reads.
\<close>

definition AddConvNode ::
    "Vendor \<Rightarrow> Node \<Rightarrow> TensorAttrPtr list \<Rightarrow> Kernel \<Rightarrow> TensorAttrPtr res \<times> Kernel" where
  "AddConvNode vendor node input_attrs k =
     (if length input_attrs < 2
      then (Inl (Error ORT_EP_FAIL ''Conv requires at least 2 input tensor attributes''), k)
      else
        (let x_attr = input_attrs ! 0;
             w_attr = input_attrs ! 1;
             pads = GetIntsAttrOrDefault node ''pads'' [0, 0, 0, 0];
             strides = GetIntsAttrOrDefault node ''strides'' [1, 1];
             dilations = GetIntsAttrOrDefault node ''dilations'' [1, 1]
         in (case normalize_pads pads of
               None \<Rightarrow> (Inl (Error ORT_EP_FAIL ''Conv pads must have 2 or 4 elements''), k)
             | Some pads4 \<Rightarrow>
                (case GetComputeDataType (ta_data_type (store k ! x_attr))
                                         (ta_data_type (store k ! w_attr)) of
                   None \<Rightarrow>
                     (Inl (Error ORT_EP_FAIL
                             ''Unsupported data type combination for Conv compute''), k)
                 | Some compute_dtype \<Rightarrow>
                     (if length strides < 2 \<or> length dilations < 2 then (Inl Undefined, k)
                      else
                        (let conv_attrs =
                               \<lparr>cv_padding = [pads4 ! 0, pads4 ! 1],
                                cv_stride = [strides ! 0, strides ! 1],
                                cv_dilation = [dilations ! 0, dilations ! 1],
                                cv_convolution_mode = CROSS_CORRELATION,
                                cv_compute_data_type = compute_dtype\<rparr>
                         in (case graph k of
                               None \<Rightarrow> (Inl Undefined, k)
                             | Some g \<Rightarrow>
                                 (let y_attr = length (store k);
                                      y = vn_conv_fprop vendor (store k ! x_attr)
                                            (store k ! w_attr) conv_attrs
                                  in (Inr y_attr,
                                      k\<lparr>graph := Some (g\<lparr>g_ops := g_ops g @
                                             [ConvFprop x_attr w_attr conv_attrs y_attr]\<rparr>),
                                        store := store k @ [y]\<rparr>)))))))))"

text \<open>\<open>AddNode\<close> returns the output attributes it pushed to \<open>output_attrs\<close>.\<close>

definition AddNode ::
    "Vendor \<Rightarrow> Node \<Rightarrow> TensorAttrPtr list \<Rightarrow> Kernel \<Rightarrow> TensorAttrPtr list res \<times> Kernel" where
  "AddNode vendor node input_attrs k =
     (case nd_GetOperatorType node of
        Inl e \<Rightarrow> (Inl (Thrown e), k)
      | Inr op_type \<Rightarrow>
          if op_type = ''Conv''
          then (case AddConvNode vendor node input_attrs k of
                  (Inl f, k') \<Rightarrow> (Inl f, k')
                | (Inr y_attr, k') \<Rightarrow> (Inr [y_attr], k'))
          else (Inl (Error ORT_EP_FAIL (''Unsupported op type: '' @ op_type)), k))"

subsection \<open>Kernel::BuildAndCompile\<close>

text \<open>
  The loop over the graph inputs. \<open>next_uid_++\<close> is evaluated before
  \<open>CreateTensorAttr\<close> runs; the attribute object enters the store when the symbol
  table takes it.
\<close>

fun graph_inputs_loop :: "Vendor \<Rightarrow> ValueInfo list \<Rightarrow> Kernel \<Rightarrow> unit res \<times> Kernel" where
  "graph_inputs_loop vendor [] k = (Inr (), k)"
| "graph_inputs_loop vendor (input # rest) k =
     (let uid = next_uid k;
          k1 = k\<lparr>next_uid := next_uid k + 1\<rparr>
      in (case CreateTensorAttr vendor input uid of
            Inl f \<Rightarrow> (Inl f, k1)
          | Inr attr \<Rightarrow>
              (case vi_GetName input of
                 Inl e \<Rightarrow> (Inl (Thrown e), k1)
               | Inr name \<Rightarrow>
                   graph_inputs_loop vendor rest
                     (k1\<lparr>store := store k1 @ [attr\<lparr>ta_is_virtual := False\<rparr>],
                         symbol_table := (symbol_table k1)(name \<mapsto> length (store k1)),
                         input_uids := input_uids k1 @ [ta_uid attr]\<rparr>))))"

text \<open>The inner loop of a node: its inputs are looked up in the symbol table.\<close>

fun lookup_inputs ::
    "(string \<rightharpoonup> TensorAttrPtr) \<Rightarrow> ValueInfo list \<Rightarrow> TensorAttrPtr list \<Rightarrow> TensorAttrPtr list res" where
  "lookup_inputs table [] input_attrs = Inr input_attrs"
| "lookup_inputs table (input # rest) input_attrs =
     (case vi_GetName input of
        Inl e \<Rightarrow> Inl (Thrown e)
      | Inr name \<Rightarrow>
          (case table name of
             None \<Rightarrow> Inl (Error ORT_EP_FAIL (''Input not found in symbol table: '' @ name))
           | Some attr \<Rightarrow> lookup_inputs table rest (input_attrs @ [attr])))"

text \<open>
  The loop that tags the output attributes of a node; it runs over the indices of
  \<open>output_attrs\<close>, whose length equals that of \<open>node_outputs\<close> when it starts.
\<close>

fun node_outputs_loop ::
    "TensorAttrPtr list \<Rightarrow> ValueInfo list \<Rightarrow> Kernel \<Rightarrow> unit res \<times> Kernel" where
  "node_outputs_loop [] node_outputs k = (Inr (), k)"
| "node_outputs_loop (out_attr # output_attrs) [] k = (Inl Undefined, k)"
| "node_outputs_loop (out_attr # output_attrs) (node_output # node_outputs) k =
     (case vi_GetName node_output of
        Inl e \<Rightarrow> (Inl (Thrown e), k)
      | Inr name \<Rightarrow>
     (case GetTensorElementType node_output of
        Inl e \<Rightarrow> (Inl (Thrown e), k)
      | Inr elem_type \<Rightarrow>
     (case ToHipDNNDataType elem_type of
        None \<Rightarrow> (Inl (Error ORT_EP_FAIL (''Unsupported data type for output: '' @ name)), k)
      | Some dtype \<Rightarrow>
     (case GetTensorShape node_output of
        Inl e \<Rightarrow> (Inl (Thrown e), k)
      | Inr None \<Rightarrow> (Inl (Error ORT_EP_FAIL (''Output must have static shape: '' @ name)), k)
      | Inr (Some shape) \<Rightarrow>
          node_outputs_loop output_attrs node_outputs
            (k\<lparr>store := (store k)[out_attr := (store k ! out_attr)
                              \<lparr>ta_uid := next_uid k, ta_name := name, ta_data_type := dtype,
                               ta_dim := shape, ta_stride := ComputeStrides shape\<rparr>],
               next_uid := next_uid k + 1,
               symbol_table := (symbol_table k)(name \<mapsto> out_attr)\<rparr>)))))"

text \<open>The body of the loop over the nodes, and the loop, in graph order.\<close>

definition node_body :: "Vendor \<Rightarrow> Node \<Rightarrow> Kernel \<Rightarrow> unit res \<times> Kernel" where
  "node_body vendor node k =
     (case nd_GetInputs node of
        Inl e \<Rightarrow> (Inl (Thrown e), k)
      | Inr node_inputs \<Rightarrow>
     (case lookup_inputs (symbol_table k) node_inputs [] of
        Inl f \<Rightarrow> (Inl f, k)
      | Inr input_attrs \<Rightarrow>
     (case AddNode vendor node input_attrs k of
        (Inl f, k1) \<Rightarrow> (Inl f, k1)
      | (Inr output_attrs, k1) \<Rightarrow>
     (case nd_GetOutputs node of
        Inl e \<Rightarrow> (Inl (Thrown e), k1)
      | Inr node_outputs \<Rightarrow>
          if length output_attrs \<noteq> length node_outputs
          then (case nd_GetName node of
                  Inl e \<Rightarrow> (Inl (Thrown e), k1)
                | Inr node_name \<Rightarrow>
                    (Inl (Error ORT_EP_FAIL
                       (''Output count mismatch for node '' @ node_name @
                        '': expected '' @ show_nat (length node_outputs) @
                        '', got '' @ show_nat (length output_attrs))), k1))
          else node_outputs_loop output_attrs node_outputs k1))))"

fun nodes_loop :: "Vendor \<Rightarrow> Node list \<Rightarrow> Kernel \<Rightarrow> unit res \<times> Kernel" where
  "nodes_loop vendor [] k = (Inr (), k)"
| "nodes_loop vendor (node # nodes) k =
     (case node_body vendor node k of
        (Inl f, k') \<Rightarrow> (Inl f, k')
      | (Inr u, k') \<Rightarrow> nodes_loop vendor nodes k')"

text \<open>The loop over the graph outputs.\<close>

fun graph_outputs_loop :: "ValueInfo list \<Rightarrow> Kernel \<Rightarrow> unit res \<times> Kernel" where
  "graph_outputs_loop [] k = (Inr (), k)"
| "graph_outputs_loop (output # rest) k =
     (case vi_GetName output of
        Inl e \<Rightarrow> (Inl (Thrown e), k)
      | Inr name \<Rightarrow>
     (case symbol_table k name of
        None \<Rightarrow>
          (Inl (Error ORT_EP_FAIL (''Graph output not found in symbol table: '' @ name)), k)
      | Some attr \<Rightarrow>
          (let k1 = k\<lparr>store := (store k)[attr := (store k ! attr)\<lparr>ta_is_virtual := False\<rparr>],
                      output_uids := output_uids k @ [ta_uid (store k ! attr)]\<rparr>
           in (case GetTensorShape output of
                 Inl e \<Rightarrow> (Inl (Thrown e), k1)
               | Inr None \<Rightarrow>
                   (Inl (Error ORT_EP_FAIL
                      (''Graph output must have static shape: '' @ name)), k1)
               | Inr (Some shape) \<Rightarrow>
                   graph_outputs_loop rest
                     (k1\<lparr>output_shapes := output_shapes k1 @ [shape]\<rparr>)))))"

subsection \<open>Kernel::CompileGraph\<close>

definition record_call :: "VendorCall \<Rightarrow> Kernel \<Rightarrow> Kernel" where
  "record_call c k =
     k\<lparr>graph := map_option (\<lambda>g. g\<lparr>g_calls := g_calls g @ [c]\<rparr>) (graph k)\<rparr>"

text \<open>
  \<open>std::vector<char>::resize\<close>: truncates, or appends value-initialised bytes. Growing
  allocates, and the allocation may throw; the vector is then as it was.
\<close>

definition resize :: "Vendor \<Rightarrow> nat \<Rightarrow> char list \<Rightarrow> char list res" where
  "resize vendor n xs =
     (if n \<le> length xs then Inr (take n xs)
      else (case rt_allocate vendor n of
              Some e \<Rightarrow> Inl (Thrown e)
            | None \<Rightarrow> Inr (xs @ replicate (n - length xs) (CHR 0x00))))"

definition CompileGraph :: "Vendor \<Rightarrow> Kernel \<Rightarrow> unit res \<times> Kernel" where
  "CompileGraph vendor k =
     (case graph k of
        None \<Rightarrow> (Inl Undefined, k)
      | Some g \<Rightarrow>
     (let k1 = record_call validate k;
          error = vn_validate vendor (g_ops g) (store k)
      in if is_bad error
         then (Inl (Error ORT_EP_FAIL
                 (''hipDNN graph validation failed: '' @ get_message error)), k1)
         else
     (let k2 = record_call (build_operation_graph (handle k)) k1;
          error = vn_build_operation_graph vendor (g_ops g) (store k) (handle k)
      in if is_bad error
         then (Inl (Error ORT_EP_FAIL
                 (''hipDNN build_operation_graph failed: '' @ get_message error)), k2)
         else
     (let k3 = record_call (create_execution_plans [FALLBACK]) k2;
          error = vn_create_execution_plans vendor (g_ops g) (store k) [FALLBACK]
      in if is_bad error
         then (Inl (Error ORT_EP_FAIL
                 (''hipDNN create_execution_plans failed: '' @ get_message error)), k3)
         else
     (let k4 = record_call check_support k3;
          error = vn_check_support vendor (g_ops g) (store k)
      in if is_bad error
         then (Inl (Error ORT_EP_FAIL
                 (''hipDNN check_support failed: '' @ get_message error)), k4)
         else
     (let k5 = record_call build_plans k4;
          error = vn_build_plans vendor (g_ops g) (store k)
      in if is_bad error
         then (Inl (Error ORT_EP_FAIL
                 (''hipDNN build_plans failed: '' @ get_message error)), k5)
         else
     (let k6 = record_call get_workspace_size k5;
          error = fst (vn_get_workspace_size vendor (g_ops g) (store k));
          workspace_size = snd (vn_get_workspace_size vendor (g_ops g) (store k))
      in if is_bad error
         then (Inl (Error ORT_EP_FAIL
                 (''hipDNN get_workspace_size failed: '' @ get_message error)), k6)
         else if workspace_size > 0
         then (case resize vendor (nat workspace_size) (workspace k6) of
                 Inl f \<Rightarrow> (Inl f, k6)
               | Inr resized \<Rightarrow> (Inr (), k6\<lparr>workspace := resized\<rparr>))
         else (Inr (), k6))))))))"

text \<open>
  The body of the \<open>try\<close> block of \<open>BuildAndCompile\<close>, and the function with its
  \<open>catch (const std::exception&)\<close>.
\<close>

definition BuildAndCompile_try :: "Vendor \<Rightarrow> Graph \<Rightarrow> Kernel \<Rightarrow> unit res \<times> Kernel" where
  "BuildAndCompile_try vendor g k =
     (let k0 = k\<lparr>graph := Some \<lparr>g_ops = [], g_calls = []\<rparr>\<rparr>
      in (case gr_GetInputs g of
            Inl e \<Rightarrow> (Inl (Thrown e), k0)
          | Inr graph_inputs \<Rightarrow>
         (case gr_GetOutputs g of
            Inl e \<Rightarrow> (Inl (Thrown e), k0)
          | Inr graph_outputs \<Rightarrow>
         (case graph_inputs_loop vendor graph_inputs k0 of
            (Inl f, k1) \<Rightarrow> (Inl f, k1)
          | (Inr u, k1) \<Rightarrow>
         (case gr_GetNodes g of
            Inl e \<Rightarrow> (Inl (Thrown e), k1)
          | Inr nodes \<Rightarrow>
         (case nodes_loop vendor nodes k1 of
            (Inl f, k2) \<Rightarrow> (Inl f, k2)
          | (Inr u, k2) \<Rightarrow>
         (case graph_outputs_loop graph_outputs k2 of
            (Inl f, k3) \<Rightarrow> (Inl f, k3)
          | (Inr u, k3) \<Rightarrow> CompileGraph vendor k3)))))))"

definition BuildAndCompile :: "Vendor \<Rightarrow> Graph \<Rightarrow> Kernel \<Rightarrow> unit res \<times> Kernel" where
  "BuildAndCompile vendor g k =
     (case BuildAndCompile_try vendor g k of
        (Inl (Thrown e), k') \<Rightarrow>
          (Inl (Error ORT_EP_FAIL (''Exception building hipDNN graph: '' @ what e)), k')
      | (r, k') \<Rightarrow> (r, k'))"

subsection \<open>Kernel::Execute\<close>

text \<open>
  The kernel context of the host: \<open>kc_GetInput i\<close> is the outcome of
  \<open>context.GetInput(i).GetTensorRawData()\<close>, \<open>kc_GetOutput i shape\<close> that of
  \<open>context.GetOutput(i, shape).GetTensorMutableRawData()\<close>.
\<close>

record KernelContext =
  kc_GetInputCount :: "nat ort"
  kc_GetOutputCount :: "nat ort"
  kc_GetInput :: "nat \<Rightarrow> void_ptr ort"
  kc_GetOutput :: "nat \<Rightarrow> int list \<Rightarrow> void_ptr ort"

text \<open>The two loops that fill the variant pack; the third argument is the index \<open>i\<close>.\<close>

fun bind_inputs_loop ::
    "KernelContext \<Rightarrow> int list \<Rightarrow> nat \<Rightarrow> variant_pack \<Rightarrow> variant_pack res" where
  "bind_inputs_loop ctx [] i pack = Inr pack"
| "bind_inputs_loop ctx (uid # uids) i pack =
     (case kc_GetInput ctx i of
        Inl e \<Rightarrow> Inl (Thrown e)
      | Inr p \<Rightarrow> bind_inputs_loop ctx uids (Suc i) (pack(uid \<mapsto> p)))"

text \<open>\<open>output_shapes_[i]\<close> is an unchecked vector read.\<close>

fun bind_outputs_loop ::
    "KernelContext \<Rightarrow> int list \<Rightarrow> int list list \<Rightarrow> nat \<Rightarrow> variant_pack \<Rightarrow> variant_pack res" where
  "bind_outputs_loop ctx [] shapes i pack = Inr pack"
| "bind_outputs_loop ctx (uid # uids) [] i pack = Inl Undefined"
| "bind_outputs_loop ctx (uid # uids) (shape # shapes) i pack =
     (case kc_GetOutput ctx i shape of
        Inl e \<Rightarrow> Inl (Thrown e)
      | Inr p \<Rightarrow> bind_outputs_loop ctx uids shapes (Suc i) (pack(uid \<mapsto> p)))"

definition Execute_try :: "Vendor \<Rightarrow> KernelContext \<Rightarrow> Kernel \<Rightarrow> unit res \<times> Kernel" where
  "Execute_try vendor ctx k =
     (case kc_GetInputCount ctx of
        Inl e \<Rightarrow> (Inl (Thrown e), k)
      | Inr input_count \<Rightarrow>
          if input_count \<noteq> length (input_uids k)
          then (Inl (Error ORT_EP_FAIL
                  (''Input count mismatch: expected '' @ show_nat (length (input_uids k)) @
                   '', got '' @ show_nat input_count)), k)
          else
     (case kc_GetOutputCount ctx of
        Inl e \<Rightarrow> (Inl (Thrown e), k)
      | Inr output_count \<Rightarrow>
          if output_count \<noteq> length (output_uids k)
          then (Inl (Error ORT_EP_FAIL
                  (''Output count mismatch: expected '' @ show_nat (length (output_uids k)) @
                   '', got '' @ show_nat output_count)), k)
          else
     (case bind_inputs_loop ctx (input_uids k) 0 Map.empty of
        Inl f \<Rightarrow> (Inl f, k)
      | Inr pack_in \<Rightarrow>
     (case bind_outputs_loop ctx (output_uids k) (output_shapes k) 0 pack_in of
        Inl f \<Rightarrow> (Inl f, k)
      | Inr pack \<Rightarrow>
          (let workspace_ptr = (if workspace k = [] then NullPtr else WorkspaceData)
           in (case graph k of
                 None \<Rightarrow> (Inl Undefined, k)
               | Some g \<Rightarrow>
                   (let k1 = record_call (execute (handle k) pack workspace_ptr) k;
                        error = vn_execute vendor (g_ops g) (store k) (handle k) pack
                                  workspace_ptr
                    in if is_bad error
                       then (Inl (Error ORT_EP_FAIL
                               (''hipDNN execute failed: '' @ get_message error)), k1)
                       else (Inr (), k1))))))))"

definition Execute :: "Vendor \<Rightarrow> KernelContext \<Rightarrow> Kernel \<Rightarrow> unit res \<times> Kernel" where
  "Execute vendor ctx k =
     (case Execute_try vendor ctx k of
        (Inl (Thrown (OrtException c m)), k') \<Rightarrow> (Inl (Error c m), k')
      | (Inl (Thrown (StdException m)), k') \<Rightarrow>
          (Inl (Error ORT_EP_FAIL (''Exception in Kernel::Execute: '' @ m)), k')
      | (r, k') \<Rightarrow> (r, k'))"

section \<open>ep.cc: the execution-provider facade\<close>

record HipDNNEp =
  hipdnn_handle :: nat
  kernels :: "string \<rightharpoonup> Kernel"

text \<open>The compute-callback adapter holds nothing but a reference to the provider.\<close>

datatype NodeComputeInfo = NodeComputeInfo

definition GetKernel :: "HipDNNEp \<Rightarrow> string \<Rightarrow> Kernel option" where
  "GetKernel ep name = kernels ep name"

text \<open>\<open>std::unordered_map::emplace\<close> inserts only when the key is not yet present.\<close>

definition emplace :: "string \<Rightarrow> Kernel \<Rightarrow> (string \<rightharpoonup> Kernel) \<Rightarrow> (string \<rightharpoonup> Kernel)" where
  "emplace name new_kernel table =
     (case table name of None \<Rightarrow> table(name \<mapsto> new_kernel) | Some old \<Rightarrow> table)"

text \<open>
  The body of the loop of \<open>CompileImpl\<close> for the pair
  \<open>(ort_graphs[i], fused_nodes[i])\<close>, up to the point where the loop changes the
  provider: it yields the name and the Kernel to register. Then the loop; its last
  argument holds the entries of \<open>node_compute_infos\<close> written so far.
\<close>

definition CompileImpl_body :: "Vendor \<Rightarrow> nat \<Rightarrow> Graph \<times> Node \<Rightarrow> (string \<times> Kernel) res" where
  "CompileImpl_body vendor hipdnn_handle_of_ep subgraph =
     (case subgraph of (g, fused_node) \<Rightarrow>
     (case gr_GetNodes g of
        Inl e \<Rightarrow> Inl (Thrown e)
      | Inr nodes \<Rightarrow>
          if nodes = []
          then Inl (Error ORT_EP_FAIL ''Empty graph provided for compilation'')
          else
            (case BuildAndCompile vendor g (Kernel_new hipdnn_handle_of_ep) of
               (Inl f, new_kernel) \<Rightarrow> Inl f
             | (Inr u, new_kernel) \<Rightarrow>
                 (case nd_GetName fused_node of
                    Inl e \<Rightarrow> Inl (Thrown e)
                  | Inr fused_node_name \<Rightarrow> Inr (fused_node_name, new_kernel)))))"

fun CompileImpl_loop ::
    "Vendor \<Rightarrow> (Graph \<times> Node) list \<Rightarrow> HipDNNEp \<Rightarrow> NodeComputeInfo list \<Rightarrow>
     unit res \<times> HipDNNEp \<times> NodeComputeInfo list" where
  "CompileImpl_loop vendor [] ep infos = (Inr (), ep, infos)"
| "CompileImpl_loop vendor (subgraph # rest) ep infos =
     (case CompileImpl_body vendor (hipdnn_handle ep) subgraph of
        Inl f \<Rightarrow> (Inl f, ep, infos)
      | Inr (fused_node_name, new_kernel) \<Rightarrow>
          CompileImpl_loop vendor rest
            (ep\<lparr>kernels := emplace fused_node_name new_kernel (kernels ep)\<rparr>)
            (infos @ [NodeComputeInfo]))"

text \<open>
  The two handlers shared by \<open>CompileImpl\<close> and \<open>GetCapabilityImpl\<close>:
  \<open>catch (const Ort::Exception&)\<close> and \<open>catch (const std::exception&)\<close>.
\<close>

fun status_of_exception :: "failure \<Rightarrow> failure" where
  "status_of_exception (Thrown (OrtException c m)) = Error c m"
| "status_of_exception (Thrown (StdException m)) = Error ORT_EP_FAIL m"
| "status_of_exception f = f"

definition CompileImpl ::
    "Vendor \<Rightarrow> (Graph \<times> Node) list \<Rightarrow> HipDNNEp \<Rightarrow> unit res \<times> HipDNNEp \<times> NodeComputeInfo list" where
  "CompileImpl vendor subgraphs ep =
     (case CompileImpl_loop vendor subgraphs ep [] of
        (Inl f, ep', infos) \<Rightarrow> (Inl (status_of_exception f), ep', infos)
      | (Inr u, ep', infos) \<Rightarrow> (Inr (), ep', infos))"

text \<open>The first loop of \<open>GetCapabilityImpl\<close>: the nodes that \<open>IsSupportedOp\<close> accepts.\<close>

fun supported_nodes_loop :: "Node list \<Rightarrow> Node list \<Rightarrow> Node list ort" where
  "supported_nodes_loop [] supported_nodes = Inr supported_nodes"
| "supported_nodes_loop (node # nodes) supported_nodes =
     (case IsSupportedOp node of
        Inl e \<Rightarrow> Inl e
      | Inr b \<Rightarrow>
          supported_nodes_loop nodes
            (if b then supported_nodes @ [node] else supported_nodes))"

text \<open>
  The second loop: each supported node is handed to the host's
  \<open>EpGraphSupportInfo_AddNodesToFuse\<close>, whose returned status is the parameter
  \<open>add_nodes_to_fuse\<close>. The last argument holds the nodes handed over so far.
\<close>

fun fuse_loop :: "(Node \<Rightarrow> OrtStatus) \<Rightarrow> Node list \<Rightarrow> Node list \<Rightarrow> unit res \<times> Node list" where
  "fuse_loop add_nodes_to_fuse [] fused = (Inr (), fused)"
| "fuse_loop add_nodes_to_fuse (node # nodes) fused =
     (case add_nodes_to_fuse node of
        Status c m \<Rightarrow> (Inl (Error c m), fused)
      | nullptr \<Rightarrow> fuse_loop add_nodes_to_fuse nodes (fused @ [node]))"

definition GetCapabilityImpl :: "(Node \<Rightarrow> OrtStatus) \<Rightarrow> Graph \<Rightarrow> unit res \<times> Node list" where
  "GetCapabilityImpl add_nodes_to_fuse g =
     (case gr_GetNodes g of
        Inl e \<Rightarrow> (Inl (status_of_exception (Thrown e)), [])
      | Inr nodes \<Rightarrow>
          if nodes = [] then (Inr (), [])
          else
            (case supported_nodes_loop nodes [] of
               Inl e \<Rightarrow> (Inl (status_of_exception (Thrown e)), [])
             | Inr supported_nodes \<Rightarrow>
                 if supported_nodes = [] then (Inr (), [])
                 else fuse_loop add_nodes_to_fuse supported_nodes []))"

section \<open>Example host objects\<close>

text \<open>
  Host objects all of whose accessors return normally, for the concrete instances of
  the theorems below. The dimensions are those of the repository's convolution test:
  an 8 by 8 single-channel input and a 3 by 3 kernel.
\<close>

definition tensor_type_info :: "ONNXTensorElementDataType \<Rightarrow> int list \<Rightarrow> TypeInfo" where
  "tensor_type_info elem_type shape =
     \<lparr>GetONNXType = Inr ONNX_TYPE_TENSOR, GetElementType = Inr elem_type,
      GetShape = Inr shape\<rparr>"

definition tensor_value_info :: "string \<Rightarrow> ONNXTensorElementDataType \<Rightarrow> int list \<Rightarrow> ValueInfo" where
  "tensor_value_info name elem_type shape =
     \<lparr>vi_GetName = Inr name, vi_TypeInfo = Inr (tensor_type_info elem_type shape)\<rparr>"

definition string_attr :: "string \<Rightarrow> OpAttr" where
  "string_attr s = \<lparr>GetValue_string = Some s, GetValue_int64 = None, GetValueArray_int64 = None\<rparr>"

definition ints_attr :: "int list \<Rightarrow> OpAttr" where
  "ints_attr is = \<lparr>GetValue_string = None, GetValue_int64 = None, GetValueArray_int64 = Some is\<rparr>"

definition attribute_table :: "(string \<times> OpAttr) list \<Rightarrow> string \<Rightarrow> bool \<times> OpAttr option" where
  "attribute_table attrs name = (True, map_of attrs name)"

definition conv_node ::
    "string \<Rightarrow> ValueInfo list \<Rightarrow> ValueInfo list \<Rightarrow> (string \<times> OpAttr) list \<Rightarrow> Node" where
  "conv_node name inputs outputs attrs =
     \<lparr>nd_GetOperatorType = Inr ''Conv'', nd_GetName = Inr name, nd_GetInputs = Inr inputs,
      nd_GetOutputs = Inr outputs, nd_GetAttributeByName = attribute_table attrs\<rparr>"

definition ex_X :: ValueInfo where
  "ex_X = tensor_value_info ''X'' ONNX_TENSOR_ELEMENT_DATA_TYPE_FLOAT [1, 1, 8, 8]"

definition ex_W :: ValueInfo where
  "ex_W = tensor_value_info ''W'' ONNX_TENSOR_ELEMENT_DATA_TYPE_FLOAT [1, 1, 3, 3]"

definition ex_Y :: ValueInfo where
  "ex_Y = tensor_value_info ''Y'' ONNX_TENSOR_ELEMENT_DATA_TYPE_FLOAT [1, 1, 6, 6]"

definition ex_conv :: Node where
  "ex_conv = conv_node ''conv0'' [ex_X, ex_W] [ex_Y] []"

text \<open>The same node with a three-element, all-ones dilations attribute.\<close>

definition ex_conv_dilations3 :: Node where
  "ex_conv_dilations3 =
     conv_node ''conv0'' [ex_X, ex_W] [ex_Y] [(''dilations'', ints_attr [1, 1, 1])]"

text \<open>The same node with an input whose batch dimension is dynamic.\<close>

definition ex_conv_dynamic :: Node where
  "ex_conv_dynamic =
     conv_node ''conv0''
       [tensor_value_info ''X'' ONNX_TENSOR_ELEMENT_DATA_TYPE_FLOAT [- 1, 1, 8, 8], ex_W]
       [ex_Y] []"

text \<open>The same node with a \<open>group\<close> attribute that holds a string.\<close>

definition ex_conv_group_string :: Node where
  "ex_conv_group_string =
     conv_node ''conv0'' [ex_X, ex_W] [ex_Y] [(''group'', string_attr ''two'')]"

text \<open>A value whose type information cannot be read, and a Conv node that uses it.\<close>

definition ex_unreadable :: ValueInfo where
  "ex_unreadable =
     \<lparr>vi_GetName = Inr ''X'', vi_TypeInfo = Inl (OrtException ORT_FAIL ''no type info'')\<rparr>"

definition ex_conv_unreadable :: Node where
  "ex_conv_unreadable = conv_node ''conv1'' [ex_unreadable, ex_W] [ex_Y] []"

definition ex_relu :: Node where
  "ex_relu = (conv_node ''relu0'' [ex_Y] [ex_Y] [])\<lparr>nd_GetOperatorType := Inr ''Relu''\<rparr>"

text \<open>Conv nodes with a padding attribute of two, of three and of four elements.\<close>

definition ex_conv_pads2 :: Node where
  "ex_conv_pads2 = conv_node ''conv0'' [ex_X, ex_W] [ex_Y] [(''pads'', ints_attr [1, 2])]"

definition ex_conv_pads3 :: Node where
  "ex_conv_pads3 = conv_node ''conv0'' [ex_X, ex_W] [ex_Y] [(''pads'', ints_attr [1, 2, 3])]"

definition ex_conv_pads4 :: Node where
  "ex_conv_pads4 = conv_node ''conv0'' [ex_X, ex_W] [ex_Y] [(''pads'', ints_attr [1, 2, 3, 4])]"

text \<open>
  A vendor library in which every stage succeeds and the workspace size is the given
  number; every allocation succeeds.
\<close>

definition no_error :: error_t where
  "no_error = \<lparr>is_bad = False, get_message = []\<rparr>"

definition ex_default_attr :: TensorAttributes where
  "ex_default_attr =
     \<lparr>ta_uid = 0, ta_name = [], ta_data_type = DataType_NOT_SET, ta_dim = [], ta_stride = [],
      ta_is_virtual = False\<rparr>"

definition ex_vendor :: "int \<Rightarrow> Vendor" where
  "ex_vendor workspace_size =
     \<lparr>vn_TensorAttributes = ex_default_attr,
      vn_conv_fprop = (\<lambda>x w c. ex_default_attr\<lparr>ta_is_virtual := True\<rparr>),
      vn_validate = (\<lambda>ops tensors. no_error),
      vn_build_operation_graph = (\<lambda>ops tensors h. no_error),
      vn_create_execution_plans = (\<lambda>ops tensors modes. no_error),
      vn_check_support = (\<lambda>ops tensors. no_error),
      vn_build_plans = (\<lambda>ops tensors. no_error),
      vn_get_workspace_size = (\<lambda>ops tensors. (no_error, workspace_size)),
      vn_execute = (\<lambda>ops tensors h pack p. no_error),
      rt_allocate = (\<lambda>n. None)\<rparr>"

text \<open>The same vendor library, except that the support check fails.\<close>

definition ex_vendor_unsupported :: Vendor where
  "ex_vendor_unsupported =
     (ex_vendor 64)\<lparr>vn_check_support :=
        (\<lambda>ops tensors. \<lparr>is_bad = True, get_message = ''no engine''\<rparr>)\<rparr>"

text \<open>The same vendor library on a host that has no memory left for a workspace.\<close>

definition ex_vendor_no_memory :: Vendor where
  "ex_vendor_no_memory = (ex_vendor 64)\<lparr>rt_allocate := (\<lambda>n. Some (StdException ''std::bad_alloc''))\<rparr>"

text \<open>A Kernel in translation, after the graph inputs X and W have been entered.\<close>

definition ex_input_attr :: "int \<Rightarrow> string \<Rightarrow> int list \<Rightarrow> TensorAttributes" where
  "ex_input_attr uid name shape =
     \<lparr>ta_uid = uid, ta_name = name, ta_data_type = DataType_FLOAT, ta_dim = shape,
      ta_stride = ComputeStrides shape, ta_is_virtual = False\<rparr>"

definition ex_kernel_inputs :: Kernel where
  "ex_kernel_inputs =
     \<lparr>handle = 7, graph = Some \<lparr>g_ops = [], g_calls = []\<rparr>, workspace = [],
      input_uids = [1, 2], output_uids = [], output_shapes = [],
      symbol_table = [''X'' \<mapsto> 0, ''W'' \<mapsto> 1], next_uid = 3,
      store = [ex_input_attr 1 ''X'' [1, 1, 8, 8], ex_input_attr 2 ''W'' [1, 1, 3, 3]]\<rparr>"

text \<open>A kernel context with the given numbers of inputs and outputs.\<close>

definition ex_ctx :: "nat \<Rightarrow> nat \<Rightarrow> KernelContext" where
  "ex_ctx input_count output_count =
     \<lparr>kc_GetInputCount = Inr input_count, kc_GetOutputCount = Inr output_count,
      kc_GetInput = (\<lambda>i. Inr (TensorData i)),
      kc_GetOutput = (\<lambda>i shape. Inr (TensorData (100 + i)))\<rparr>"

text \<open>The Kernel \<open>ex_kernel_inputs\<close> after a successful \<open>CompileGraph\<close>.\<close>

definition ex_kernel_compiled :: "int \<Rightarrow> Kernel" where
  "ex_kernel_compiled workspace_size =
     ex_kernel_inputs\<lparr>graph := Some \<lparr>g_ops = [], g_calls =
         [validate, build_operation_graph 7, create_execution_plans [FALLBACK], check_support,
          build_plans, get_workspace_size]\<rparr>,
       workspace := replicate (nat workspace_size) (CHR 0x00)\<rparr>"

text \<open>
  The graph of the repository's convolution test, Y = Conv(X, W), and the states of the
  Kernel that \<open>BuildAndCompile\<close> makes of it.
\<close>

definition ex_graph :: Graph where
  "ex_graph =
     \<lparr>gr_GetInputs = Inr [ex_X, ex_W], gr_GetOutputs = Inr [ex_Y], gr_GetNodes = Inr [ex_conv]\<rparr>"

definition ex_conv_attrs :: ConvFpropAttributes where
  "ex_conv_attrs =
     \<lparr>cv_padding = [0, 0], cv_stride = [1, 1], cv_dilation = [1, 1],
      cv_convolution_mode = CROSS_CORRELATION, cv_compute_data_type = DataType_FLOAT\<rparr>"

text \<open>After the node is translated, after the graph output is marked, after compilation.\<close>

definition ex_kernel_node :: Kernel where
  "ex_kernel_node =
     ex_kernel_inputs
       \<lparr>graph := Some \<lparr>g_ops = [ConvFprop 0 1 ex_conv_attrs 2], g_calls = []\<rparr>,
        store := [ex_input_attr 1 ''X'' [1, 1, 8, 8], ex_input_attr 2 ''W'' [1, 1, 3, 3],
                  (ex_input_attr 3 ''Y'' [1, 1, 6, 6])\<lparr>ta_is_virtual := True\<rparr>],
        next_uid := 4,
        symbol_table := [''X'' \<mapsto> 0, ''W'' \<mapsto> 1, ''Y'' \<mapsto> 2]\<rparr>"

definition ex_kernel_translated :: Kernel where
  "ex_kernel_translated =
     ex_kernel_node
       \<lparr>store := [ex_input_attr 1 ''X'' [1, 1, 8, 8], ex_input_attr 2 ''W'' [1, 1, 3, 3],
                  ex_input_attr 3 ''Y'' [1, 1, 6, 6]],
        output_uids := [3], output_shapes := [[1, 1, 6, 6]]\<rparr>"

definition ex_kernel_built :: "int \<Rightarrow> Kernel" where
  "ex_kernel_built workspace_size =
     ex_kernel_translated
       \<lparr>graph := Some \<lparr>g_ops = [ConvFprop 0 1 ex_conv_attrs 2],
                            g_calls = [validate, build_operation_graph 7,
                                       create_execution_plans [FALLBACK], check_support,
                                       build_plans, get_workspace_size]\<rparr>,
        workspace := replicate (nat workspace_size) (CHR 0x00)\<rparr>"

text \<open>The same graph without the declared input W, a graph without nodes, a fused node.\<close>

definition ex_graph_missing :: Graph where
  "ex_graph_missing =
     \<lparr>gr_GetInputs = Inr [ex_X], gr_GetOutputs = Inr [ex_Y], gr_GetNodes = Inr [ex_conv]\<rparr>"

definition ex_graph_empty :: Graph where
  "ex_graph_empty = \<lparr>gr_GetInputs = Inr [], gr_GetOutputs = Inr [], gr_GetNodes = Inr []\<rparr>"

definition ex_fused :: "string \<Rightarrow> Node" where
  "ex_fused name = conv_node name [ex_X, ex_W] [ex_Y] []"

definition ex_ep :: HipDNNEp where
  "ex_ep = \<lparr>hipdnn_handle = 7, kernels = Map.empty\<rparr>"

text \<open>A provider in which the name conv0 is taken by a Kernel of an earlier request.\<close>

definition ex_ep_registered :: HipDNNEp where
  "ex_ep_registered = \<lparr>hipdnn_handle = 7, kernels = [''conv0'' \<mapsto> ex_kernel_built 0]\<rparr>"

section \<open>The rules of the capability matcher, as the specification words them\<close>

text \<open>
  Rule 2 of the specification: the primary operand, the weight and the output share one
  element type, 32-bit or 16-bit float.
\<close>

definition same_float_type :: "ValueInfo \<Rightarrow> ValueInfo \<Rightarrow> ValueInfo \<Rightarrow> bool" where
  "same_float_type x w y =
     (case GetTensorElementType x of
        Inl e \<Rightarrow> False
      | Inr t \<Rightarrow>
          (t = ONNX_TENSOR_ELEMENT_DATA_TYPE_FLOAT \<or>
           t = ONNX_TENSOR_ELEMENT_DATA_TYPE_FLOAT16) \<and>
          GetTensorElementType w = Inr t \<and> GetTensorElementType y = Inr t)"

text \<open>
  Rule 3: a static 4-dimensional shape. Shape information is present, it has rank 4, and
  no dimension is dynamic (the host reports a dynamic dimension as a negative number,
  -1). \<open>rank_4d\<close> is the part of the rule that the specification spells out as
  "absent shape info or wrong rank".
\<close>

definition rank_4d :: "ValueInfo \<Rightarrow> bool" where
  "rank_4d v =
     (case GetTensorShape v of
        Inl e \<Rightarrow> False
      | Inr None \<Rightarrow> False
      | Inr (Some shape) \<Rightarrow> length shape = 4)"

definition static_4d :: "ValueInfo \<Rightarrow> bool" where
  "static_4d v =
     (case GetTensorShape v of
        Inl e \<Rightarrow> False
      | Inr None \<Rightarrow> False
      | Inr (Some shape) \<Rightarrow> length shape = 4 \<and> list_all (\<lambda>d. 0 \<le> d) shape)"

text \<open>
  The six rules together; the rule on a shape and the rule on the dilations attribute
  are parameters.
\<close>

definition conv_rules :: "(ValueInfo \<Rightarrow> bool) \<Rightarrow> (int list \<Rightarrow> bool) \<Rightarrow> Node \<Rightarrow> bool" where
  "conv_rules shape_rule dilations_rule node =
     (case nd_GetInputs node of
        Inl e \<Rightarrow> False
      | Inr inputs \<Rightarrow>
         (case nd_GetOutputs node of
            Inl e \<Rightarrow> False
          | Inr outputs \<Rightarrow>
              2 \<le> length inputs \<and> length outputs = 1 \<and>
              same_float_type (inputs ! 0) (inputs ! 1) (outputs ! 0) \<and>
              shape_rule (inputs ! 0) \<and> shape_rule (inputs ! 1) \<and>
              GetStringAttrOrDefault node ''auto_pad'' ''NOTSET'' = ''NOTSET'' \<and>
              GetIntAttrOrDefault node ''group'' 1 = 1 \<and>
              dilations_rule (GetIntsAttrOrDefault node ''dilations'' [1, 1])))"

text \<open>Rule 6 as the specification words it, and as a list of exactly two ones.\<close>

definition all_ones :: "int list \<Rightarrow> bool" where
  "all_ones dilations = list_all (\<lambda>d. d = 1) dilations"

definition two_ones :: "int list \<Rightarrow> bool" where
  "two_ones dilations = (dilations = [1, 1])"

section \<open>Padding attributes\<close>

text \<open>
  A node with its \<open>pads\<close> attribute replaced by the given list; every other attribute
  reads as before.
\<close>

definition with_pads :: "int list \<Rightarrow> Node \<Rightarrow> Node" where
  "with_pads pads node =
     node\<lparr>nd_GetAttributeByName :=
       (\<lambda>name. if name = ''pads'' then (True, Some (ints_attr pads))
               else nd_GetAttributeByName node name)\<rparr>"

section \<open>The build stages, as the specification lists them\<close>

definition build_stages :: "nat \<Rightarrow> VendorCall list" where
  "build_stages h =
     [validate, build_operation_graph h, create_execution_plans [FALLBACK], check_support,
      build_plans, get_workspace_size]"

text \<open>The answer of the vendor library to a call, and the text that names the call.\<close>

fun stage_answer :: "Vendor \<Rightarrow> Operation list \<Rightarrow> TensorAttributes list \<Rightarrow> VendorCall \<Rightarrow> error_t" where
  "stage_answer vendor ops tensors validate = vn_validate vendor ops tensors"
| "stage_answer vendor ops tensors (build_operation_graph h) =
     vn_build_operation_graph vendor ops tensors h"
| "stage_answer vendor ops tensors (create_execution_plans modes) =
     vn_create_execution_plans vendor ops tensors modes"
| "stage_answer vendor ops tensors check_support = vn_check_support vendor ops tensors"
| "stage_answer vendor ops tensors build_plans = vn_build_plans vendor ops tensors"
| "stage_answer vendor ops tensors get_workspace_size =
     fst (vn_get_workspace_size vendor ops tensors)"
| "stage_answer vendor ops tensors (execute h pack p) = vn_execute vendor ops tensors h pack p"

fun stage_message :: "VendorCall \<Rightarrow> string" where
  "stage_message validate = ''hipDNN graph validation failed: ''"
| "stage_message (build_operation_graph h) = ''hipDNN build_operation_graph failed: ''"
| "stage_message (create_execution_plans modes) = ''hipDNN create_execution_plans failed: ''"
| "stage_message check_support = ''hipDNN check_support failed: ''"
| "stage_message build_plans = ''hipDNN build_plans failed: ''"
| "stage_message get_workspace_size = ''hipDNN get_workspace_size failed: ''"
| "stage_message (execute h pack p) = ''hipDNN execute failed: ''"

text \<open>The calls made so far on the vendor graph of a Kernel.\<close>

definition calls_of :: "Kernel \<Rightarrow> VendorCall list" where
  "calls_of k = (case graph k of None \<Rightarrow> [] | Some g \<Rightarrow> g_calls g)"

section \<open>What a compile request registers\<close>

text \<open>
  The Kernel that a list of compiled subgraphs brings under a name: the Kernel built
  from the first subgraph of the list whose fused node has that name.
\<close>

fun registered_by :: "Vendor \<Rightarrow> nat \<Rightarrow> (Graph \<times> Node) list \<Rightarrow> string \<Rightarrow> Kernel option" where
  "registered_by vendor h [] name = None"
| "registered_by vendor h ((g, fused_node) # rest) name =
     (if nd_GetName fused_node = Inr name
      then Some (snd (BuildAndCompile vendor g (Kernel_new h)))
      else registered_by vendor h rest name)"

section \<open>What the specification counts\<close>

text \<open>
  The number of tensor values of a subgraph: its graph inputs plus the outputs of its
  nodes.
\<close>

definition node_output_count :: "Node \<Rightarrow> nat" where
  "node_output_count node = (case nd_GetOutputs node of Inl e \<Rightarrow> 0 | Inr outputs \<Rightarrow> length outputs)"

definition tensor_count :: "Graph \<Rightarrow> nat" where
  "tensor_count g =
     (case gr_GetInputs g of Inl e \<Rightarrow> 0 | Inr inputs \<Rightarrow> length inputs) +
     (case gr_GetNodes g of Inl e \<Rightarrow> 0 | Inr nodes \<Rightarrow> sum_list (map node_output_count nodes))"

text \<open>
  The UIDs of the tensor attribute objects of a Kernel, in the order in which the objects
  were created.
\<close>

definition assigned_uids :: "Kernel \<Rightarrow> int list" where
  "assigned_uids k = map ta_uid (store k)"

section \<open>Definition before use\<close>

text \<open>
  The names a list of tensor descriptors declares, and the input and output names of a
  node.
\<close>

definition names_of :: "ValueInfo list \<Rightarrow> string list" where
  "names_of values =
     concat (map (\<lambda>v. case vi_GetName v of Inl e \<Rightarrow> [] | Inr name \<Rightarrow> [name]) values)"

definition node_input_names :: "Node \<Rightarrow> string list" where
  "node_input_names node =
     (case nd_GetInputs node of Inl e \<Rightarrow> [] | Inr inputs \<Rightarrow> names_of inputs)"

definition node_output_names :: "Node \<Rightarrow> string list" where
  "node_output_names node =
     (case nd_GetOutputs node of Inl e \<Rightarrow> [] | Inr outputs \<Rightarrow> names_of outputs)"

text \<open>
  Some node, in graph order, declares an input name that is neither among the names
  defined so far (at the start: the declared graph inputs) nor the output of an earlier
  node.
\<close>

fun uses_undefined_name :: "string list \<Rightarrow> Node list \<Rightarrow> bool" where
  "uses_undefined_name defined [] = False"
| "uses_undefined_name defined (node # nodes) =
     (list_ex (\<lambda>name. name \<notin> set defined) (node_input_names node) \<or>
      uses_undefined_name (defined @ node_output_names node) nodes)"

section \<open>Order contracts\<close>

text \<open>
  Binding, in list order, the i-th pointer to the i-th UID; a later binding of a UID
  replaces an earlier one, as assignment to an \<open>unordered_map\<close> entry does.
\<close>

definition bindings :: "int list \<Rightarrow> void_ptr list \<Rightarrow> variant_pack \<Rightarrow> variant_pack" where
  "bindings uids ptrs pack = fold (\<lambda>(uid, p) m. m(uid \<mapsto> p)) (zip uids ptrs) pack"

text \<open>
  Every entry of the symbol table is the address of an attribute object of the store
  that carries the entry's name.
\<close>

definition table_wf :: "Kernel \<Rightarrow> bool" where
  "table_wf k =
     (\<forall>name a. symbol_table k name = Some a \<longrightarrow>
        a < length (store k) \<and> ta_name (store k ! a) = name)"

section \<open>Attribute readers\<close>

text \<open>
  C9. Each typed attribute reader returns the caller's default when the attribute is
  absent (the lookup fails or yields a null handle) and also when the attribute exists
  but the read as the requested type fails; otherwise it returns the value read. The
  readers are total functions into plain values: no status and no exception leaves
  them.
\<close>

theorem attr_readers_default_on_absent_or_failed_read:
  assumes "nd_GetAttributeByName node name = (status_ok, attr)"
  shows "(\<not> status_ok \<or> attr = None \<longrightarrow>
            GetStringAttrOrDefault node name ds = ds \<and>
            GetIntAttrOrDefault node name di = di \<and>
            GetIntsAttrOrDefault node name dl = dl) \<and>
         (status_ok \<and> attr = Some a \<longrightarrow>
            GetStringAttrOrDefault node name ds =
              (case GetValue_string a of None \<Rightarrow> ds | Some v \<Rightarrow> v) \<and>
            GetIntAttrOrDefault node name di =
              (case GetValue_int64 a of None \<Rightarrow> di | Some v \<Rightarrow> v) \<and>
            GetIntsAttrOrDefault node name dl =
              (case GetValueArray_int64 a of None \<Rightarrow> dl | Some v \<Rightarrow> v))"
  using assms
  by (simp add: GetStringAttrOrDefault_def GetIntAttrOrDefault_def GetIntsAttrOrDefault_def)

theorem attr_readers_default_witness:
  "GetIntAttrOrDefault ex_conv_group_string ''group'' 1 = 1 \<and>
   GetIntsAttrOrDefault ex_conv_group_string ''group'' [7] = [7] \<and>
   GetStringAttrOrDefault ex_conv_group_string ''group'' ''none'' = ''two'' \<and>
   GetIntAttrOrDefault ex_conv_group_string ''pads'' 5 = 5"
proof -
  have present: "nd_GetAttributeByName ex_conv_group_string ''group'' =
      (True, Some (string_attr ''two''))"
    by (simp add: ex_conv_group_string_def conv_node_def attribute_table_def)
  have absent: "nd_GetAttributeByName ex_conv_group_string ''pads'' = (True, None)"
    by (simp add: ex_conv_group_string_def conv_node_def attribute_table_def)
  show ?thesis
    using attr_readers_default_on_absent_or_failed_read
        [OF present, where a = "string_attr ''two''" and ds = "''none''" and di = 1 and dl = "[7]"]
      attr_readers_default_on_absent_or_failed_read
        [OF absent, where ds = "''none''" and di = 5 and dl = "[7]"]
    by (simp add: string_attr_def)
qed

section \<open>Capability matcher\<close>

lemma two_onesI:
  "length ds = 2 \<Longrightarrow> ds ! 0 = 1 \<Longrightarrow> ds ! Suc 0 = (1::int) \<Longrightarrow> ds = [1, 1]"
  by (cases ds; cases "tl ds"; cases "tl (tl ds)") auto

text \<open>What \<open>IsSupportedConv\<close> tests, test by test.\<close>

lemma IsSupportedConv_tests:
  "IsSupportedConv node = conv_rules rank_4d two_ones node"
proof (cases "nd_GetInputs node")
  case (Inl e)
  then show ?thesis
    by (simp add: IsSupportedConv_def IsSupportedConv_try_def conv_rules_def bind_ort_def)
next
  case ins: (Inr inputs)
  show ?thesis
  proof (cases "nd_GetOutputs node")
    case (Inl e)
    with ins show ?thesis
      by (simp add: IsSupportedConv_def IsSupportedConv_try_def conv_rules_def bind_ort_def)
  next
    case outs: (Inr outputs)
    show ?thesis
    proof (cases "length inputs < 2 \<or> length outputs \<noteq> 1")
      case True
      with ins outs show ?thesis
        by (auto simp add: IsSupportedConv_def IsSupportedConv_try_def conv_rules_def
            bind_ort_def)
    next
      case False
      with ins outs show ?thesis
        unfolding IsSupportedConv_def IsSupportedConv_try_def conv_rules_def
          same_float_type_def rank_4d_def two_ones_def
        by (cases "GetTensorElementType (inputs ! 0)"; cases "GetTensorElementType (inputs ! 1)";
            cases "GetTensorElementType (outputs ! 0)"; cases "GetTensorShape (inputs ! 0)";
            cases "GetTensorShape (inputs ! 1)")
          (auto simp add: bind_ort_def Let_def split: option.splits intro: two_onesI)
    qed
  qed
qed

lemma static_4d_rank_4d: "static_4d v \<Longrightarrow> rank_4d v"
  by (auto simp add: static_4d_def rank_4d_def split: sum.splits option.splits)

text \<open>
  C2, as the code has it. A Conv node that meets all of the six rules is supported: at
  least two inputs and exactly one output; input, weight and output have one element
  type, float32 or float16; input and weight have static 4-dimensional shapes;
  \<open>auto_pad\<close> (default NOTSET) is NOTSET; \<open>group\<close> (default 1) is 1; and
  \<open>dilations\<close> (default [1, 1]) is exactly the two-element list [1, 1]. A Conv node
  that is supported meets all of them, where for the shape rule this is shown of what
  the specification spells out, shape information that is present and of rank 4.
\<close>

theorem IsSupportedConv_rules:
  "(conv_rules static_4d two_ones node \<longrightarrow> IsSupportedConv node) \<and>
   (IsSupportedConv node \<longrightarrow> conv_rules rank_4d two_ones node)"
proof -
  have "conv_rules rank_4d two_ones node" if "conv_rules static_4d two_ones node"
    using that
    by (auto simp add: conv_rules_def static_4d_rank_4d split: sum.splits)
  then show ?thesis
    by (simp add: IsSupportedConv_tests)
qed

lemma ex_tensor_reads:
  "GetTensorElementType (tensor_value_info n t s) = Inr t"
  "GetTensorShape (tensor_value_info n t s) = Inr (Some s)"
  by (simp_all add: GetTensorElementType_def GetTensorShape_def tensor_value_info_def
      tensor_type_info_def bind_ort_def)

theorem IsSupportedConv_rules_witness:
  "conv_rules static_4d two_ones ex_conv \<and> IsSupportedConv ex_conv \<and>
   conv_rules rank_4d two_ones ex_conv"
proof -
  have "conv_rules static_4d two_ones ex_conv"
    by (simp add: conv_rules_def ex_conv_def conv_node_def same_float_type_def static_4d_def
        two_ones_def ex_tensor_reads ex_X_def ex_W_def ex_Y_def GetStringAttrOrDefault_def
        GetIntAttrOrDefault_def GetIntsAttrOrDefault_def attribute_table_def)
  with IsSupportedConv_rules [of ex_conv] show ?thesis
    by blast
qed

text \<open>
  The wording of the specification for C2 (dilations all-ones) does not hold of the code:
  a node that meets every rule and whose dilations attribute is [1, 1, 1] is rejected.
\<close>

theorem all_ones_dilations_counterexample:
  "conv_rules static_4d all_ones ex_conv_dilations3 \<and> \<not> IsSupportedConv ex_conv_dilations3"
proof -
  have rules: "conv_rules static_4d all_ones ex_conv_dilations3"
    by (simp add: conv_rules_def ex_conv_dilations3_def conv_node_def same_float_type_def
        static_4d_def ex_tensor_reads ex_X_def ex_W_def ex_Y_def GetStringAttrOrDefault_def
        GetIntAttrOrDefault_def GetIntsAttrOrDefault_def attribute_table_def all_ones_def
        ints_attr_def)
  have "\<not> IsSupportedConv ex_conv_dilations3"
    by (simp add: IsSupportedConv_def IsSupportedConv_try_def ex_conv_dilations3_def
        conv_node_def bind_ort_def ex_tensor_reads ex_X_def ex_W_def ex_Y_def
        GetStringAttrOrDefault_def GetIntAttrOrDefault_def GetIntsAttrOrDefault_def
        attribute_table_def ints_attr_def)
  with rules show ?thesis by simp
qed

text \<open>
  The test on the shapes looks at the presence of the shape and at its rank, not at the
  dimensions: the node whose input has the shape [-1, 1, 8, 8] passes it, although the
  comment at the test says that dynamic shapes are not supported.
\<close>

lemma dynamic_dimension_passes:
  "IsSupportedConv ex_conv_dynamic \<and> \<not> conv_rules static_4d two_ones ex_conv_dynamic"
proof -
  have "IsSupportedConv ex_conv_dynamic"
    by (simp add: IsSupportedConv_def IsSupportedConv_try_def ex_conv_dynamic_def
        conv_node_def bind_ort_def ex_tensor_reads ex_W_def ex_Y_def
        GetStringAttrOrDefault_def GetIntAttrOrDefault_def GetIntsAttrOrDefault_def
        attribute_table_def)
  moreover have "\<not> conv_rules static_4d two_ones ex_conv_dynamic"
    by (simp add: conv_rules_def ex_conv_dynamic_def conv_node_def static_4d_def
        ex_tensor_reads)
  ultimately show ?thesis by simp
qed

lemma supported_nodes_loop_skip:
  assumes "IsSupportedOp node = Inr False"
  shows "supported_nodes_loop (before @ node # after) acc =
         supported_nodes_loop (before @ after) acc"
  using assms
  by (induction before arbitrary: acc) (auto split: sum.splits)

text \<open>
  C8. The capability predicate fails closed. A node whose operator type is not Conv is
  unsupported. When a read of a tensor descriptor throws inside \<open>IsSupportedConv\<close>,
  the exception is caught there: the verdict is unsupported and \<open>IsSupportedOp\<close>
  returns normally. Such a node does not fail the capability query: the query over a
  graph that contains it gives the result of the query over the graph without it.
  (Attribute reads cannot throw: the readers return plain values.)
\<close>

theorem capability_fails_closed:
  "(nd_GetOperatorType node = Inr op_type \<and> op_type \<noteq> ''Conv'' \<longrightarrow>
      IsSupportedOp node = Inr False) \<and>
   (IsSupportedConv_try node = Inl e \<longrightarrow> IsSupportedConv node = False) \<and>
   (nd_GetOperatorType node = Inr ''Conv'' \<and> IsSupportedConv_try node = Inl e \<longrightarrow>
      IsSupportedOp node = Inr False \<and>
      GetCapabilityImpl add_nodes_to_fuse (g\<lparr>gr_GetNodes := Inr (before @ node # after)\<rparr>) =
      GetCapabilityImpl add_nodes_to_fuse (g\<lparr>gr_GetNodes := Inr (before @ after)\<rparr>))"
proof -
  have skip: "GetCapabilityImpl add_nodes_to_fuse (g\<lparr>gr_GetNodes := Inr (before @ node # after)\<rparr>) =
      GetCapabilityImpl add_nodes_to_fuse (g\<lparr>gr_GetNodes := Inr (before @ after)\<rparr>)"
    if unsupported: "IsSupportedOp node = Inr False"
  proof (cases "before @ after = []")
    case True
    with unsupported show ?thesis
      by (simp add: GetCapabilityImpl_def)
  next
    case False
    with supported_nodes_loop_skip [OF unsupported, of before after "[]"] show ?thesis
      by (simp add: GetCapabilityImpl_def)
  qed
  show ?thesis
    using skip
    by (auto simp add: IsSupportedOp_def IsSupportedConv_def bind_ort_def)
qed

theorem capability_fails_closed_witness:
  "IsSupportedOp ex_relu = Inr False \<and>
   IsSupportedConv_try ex_conv_unreadable = Inl (OrtException ORT_FAIL ''no type info'') \<and>
   IsSupportedConv ex_conv_unreadable = False \<and>
   IsSupportedOp ex_conv_unreadable = Inr False \<and>
   GetCapabilityImpl (\<lambda>n. nullptr)
     \<lparr>gr_GetInputs = Inr [], gr_GetOutputs = Inr [],
      gr_GetNodes = Inr ([ex_conv] @ ex_conv_unreadable # [ex_relu])\<rparr> =
   GetCapabilityImpl (\<lambda>n. nullptr)
     \<lparr>gr_GetInputs = Inr [], gr_GetOutputs = Inr [],
      gr_GetNodes = Inr ([ex_conv] @ [ex_relu])\<rparr>"
proof -
  have relu: "nd_GetOperatorType ex_relu = Inr ''Relu''"
    by (simp add: ex_relu_def)
  have conv: "nd_GetOperatorType ex_conv_unreadable = Inr ''Conv''"
    by (simp add: ex_conv_unreadable_def conv_node_def)
  have throws: "IsSupportedConv_try ex_conv_unreadable =
      Inl (OrtException ORT_FAIL ''no type info'')"
    by (simp add: IsSupportedConv_try_def ex_conv_unreadable_def conv_node_def bind_ort_def
        GetTensorElementType_def ex_unreadable_def)
  show ?thesis
    using capability_fails_closed [of ex_relu "''Relu''" "OrtException ORT_FAIL ''no type info''"]
      capability_fails_closed [where node = ex_conv_unreadable and op_type = "''Conv''"
        and e = "OrtException ORT_FAIL ''no type info''" and add_nodes_to_fuse = "\<lambda>n. nullptr"
        and g = "\<lparr>gr_GetInputs = Inr [], gr_GetOutputs = Inr [], gr_GetNodes = Inr []\<rparr>"
        and before = "[ex_conv]" and after = "[ex_relu]"]
      relu conv throws
    by simp
qed

section \<open>Padding normalisation\<close>

lemma with_pads_reads:
  "GetIntsAttrOrDefault (with_pads pads node) ''pads'' default_val = pads"
  "GetIntsAttrOrDefault (with_pads pads node) ''strides'' default_val =
     GetIntsAttrOrDefault node ''strides'' default_val"
  "GetIntsAttrOrDefault (with_pads pads node) ''dilations'' default_val =
     GetIntsAttrOrDefault node ''dilations'' default_val"
  by (simp_all add: with_pads_def GetIntsAttrOrDefault_def ints_attr_def)

lemma AddConvNode_two_pads:
  assumes "GetIntsAttrOrDefault node ''pads'' [0, 0, 0, 0] = [h, w]"
  shows "AddConvNode vendor node input_attrs k =
         AddConvNode vendor (with_pads [h, w, h, w] node) input_attrs k"
  using assms by (simp add: AddConvNode_def with_pads_reads normalize_pads_def Let_def)

lemma AddConvNode_normalised:
  assumes "normalize_pads pads1 = normalize_pads pads2"
  shows "AddConvNode vendor (with_pads pads1 node) input_attrs k =
         AddConvNode vendor (with_pads pads2 node) input_attrs k"
  using assms by (simp add: AddConvNode_def with_pads_reads Let_def)

lemma AddConvNode_runs:
  assumes "GetIntsAttrOrDefault node ''pads'' [0, 0, 0, 0] = [h, w] \<or>
           GetIntsAttrOrDefault node ''pads'' [0, 0, 0, 0] = [h, w, end_h, end_w]"
    and "2 \<le> length input_attrs"
    and "GetComputeDataType (ta_data_type (store k ! (input_attrs ! 0)))
           (ta_data_type (store k ! (input_attrs ! 1))) = Some compute_dtype"
    and "2 \<le> length (GetIntsAttrOrDefault node ''strides'' [1, 1])"
    and "2 \<le> length (GetIntsAttrOrDefault node ''dilations'' [1, 1])"
    and "graph k = Some g"
  shows "AddConvNode vendor node input_attrs k =
     (Inr (length (store k)),
      k\<lparr>graph := Some (g\<lparr>g_ops := g_ops g @
           [ConvFprop (input_attrs ! 0) (input_attrs ! 1)
              \<lparr>cv_padding = [h, w],
               cv_stride = [GetIntsAttrOrDefault node ''strides'' [1, 1] ! 0,
                            GetIntsAttrOrDefault node ''strides'' [1, 1] ! 1],
               cv_dilation = [GetIntsAttrOrDefault node ''dilations'' [1, 1] ! 0,
                              GetIntsAttrOrDefault node ''dilations'' [1, 1] ! 1],
               cv_convolution_mode = CROSS_CORRELATION,
               cv_compute_data_type = compute_dtype\<rparr>
              (length (store k))]\<rparr>),
        store := store k @
          [vn_conv_fprop vendor (store k ! (input_attrs ! 0)) (store k ! (input_attrs ! 1))
             \<lparr>cv_padding = [h, w],
              cv_stride = [GetIntsAttrOrDefault node ''strides'' [1, 1] ! 0,
                           GetIntsAttrOrDefault node ''strides'' [1, 1] ! 1],
              cv_dilation = [GetIntsAttrOrDefault node ''dilations'' [1, 1] ! 0,
                             GetIntsAttrOrDefault node ''dilations'' [1, 1] ! 1],
              cv_convolution_mode = CROSS_CORRELATION,
              cv_compute_data_type = compute_dtype\<rparr>]\<rparr>)"
  using assms(1)
proof
  assume "GetIntsAttrOrDefault node ''pads'' [0, 0, 0, 0] = [h, w]"
  with assms(2-) show ?thesis
    by (simp add: AddConvNode_def normalize_pads_def Let_def)
next
  assume "GetIntsAttrOrDefault node ''pads'' [0, 0, 0, 0] = [h, w, end_h, end_w]"
  with assms(2-) show ?thesis
    by (simp add: AddConvNode_def normalize_pads_def Let_def)
qed

lemma AddConvNode_padding:
  assumes ok: "AddConvNode vendor node input_attrs k = (Inr y_attr, k')"
  shows "\<exists>g g' x_attr w_attr conv_attrs begin_h begin_w.
           graph k = Some g \<and> graph k' = Some g' \<and>
           g_ops g' = g_ops g @ [ConvFprop x_attr w_attr conv_attrs y_attr] \<and>
           cv_padding conv_attrs = [begin_h, begin_w] \<and>
           (GetIntsAttrOrDefault node ''pads'' [0, 0, 0, 0] = [begin_h, begin_w] \<or>
            (\<exists>end_h end_w.
               GetIntsAttrOrDefault node ''pads'' [0, 0, 0, 0] =
                 [begin_h, begin_w, end_h, end_w]))"
proof -
  define pads where "pads = GetIntsAttrOrDefault node ''pads'' [0, 0, 0, 0]"
  from ok have "length pads = 2 \<or> length pads = 4"
    by (auto simp add: AddConvNode_def Let_def normalize_pads_def pads_def
        split: if_splits option.splits)
  then consider a b where "pads = [a, b]" | a b c d where "pads = [a, b, c, d]"
    by (cases pads; cases "tl pads"; cases "tl (tl pads)"; cases "tl (tl (tl pads))";
        cases "tl (tl (tl (tl pads)))") auto
  then show ?thesis
  proof cases
    case 1
    with ok show ?thesis
      unfolding pads_def
      by (fastforce simp add: AddConvNode_def Let_def normalize_pads_def
          split: if_splits option.splits)
  next
    case 2
    with ok show ?thesis
      unfolding pads_def
      by (fastforce simp add: AddConvNode_def Let_def normalize_pads_def
          split: if_splits option.splits)
  qed
qed

text \<open>
  C5. In the translation of a Conv node a two-element padding attribute [h, w] is
  normalised to [h, w, h, w]: that is the normal form, \<open>AddConvNode\<close> sees a padding
  attribute only through its normal form, and so it does with the node exactly what it
  does with the same node carrying the padding [h, w, h, w]. A padding attribute whose length
  is neither 2 nor 4 makes \<open>AddConvNode\<close> return an error, "Conv pads must have 2 or 4
  elements" when the node has its two input attributes, and leave the Kernel as it was.
  With a padding of two or of four elements, \<open>AddConvNode\<close> appends to the vendor graph
  a convolution whose padding is the first two elements, whatever the last two of the
  four are; and it never appends anything else.
\<close>

theorem padding_normalization:
  "normalize_pads [h, w] = Some [h, w, h, w] \<and>
   (normalize_pads pads1 = normalize_pads pads2 \<longrightarrow>
      AddConvNode vendor (with_pads pads1 node) input_attrs k =
      AddConvNode vendor (with_pads pads2 node) input_attrs k) \<and>
   (GetIntsAttrOrDefault node ''pads'' [0, 0, 0, 0] = [h, w] \<longrightarrow>
      AddConvNode vendor node input_attrs k =
      AddConvNode vendor (with_pads [h, w, h, w] node) input_attrs k) \<and>
   (length (GetIntsAttrOrDefault node ''pads'' [0, 0, 0, 0]) \<noteq> 2 \<and>
    length (GetIntsAttrOrDefault node ''pads'' [0, 0, 0, 0]) \<noteq> 4 \<longrightarrow>
      (\<exists>m. AddConvNode vendor node input_attrs k = (Inl (Error ORT_EP_FAIL m), k)) \<and>
      (2 \<le> length input_attrs \<longrightarrow>
         AddConvNode vendor node input_attrs k =
           (Inl (Error ORT_EP_FAIL ''Conv pads must have 2 or 4 elements''), k))) \<and>
   ((GetIntsAttrOrDefault node ''pads'' [0, 0, 0, 0] = [h, w] \<or>
     GetIntsAttrOrDefault node ''pads'' [0, 0, 0, 0] = [h, w, end_h, end_w]) \<and>
    2 \<le> length input_attrs \<and>
    GetComputeDataType (ta_data_type (store k ! (input_attrs ! 0)))
      (ta_data_type (store k ! (input_attrs ! 1))) = Some compute_dtype \<and>
    2 \<le> length (GetIntsAttrOrDefault node ''strides'' [1, 1]) \<and>
    2 \<le> length (GetIntsAttrOrDefault node ''dilations'' [1, 1]) \<and>
    graph k = Some g \<longrightarrow>
      (\<exists>conv_attrs.
         cv_padding conv_attrs = [h, w] \<and>
         AddConvNode vendor node input_attrs k =
           (Inr (length (store k)),
            k\<lparr>graph := Some (g\<lparr>g_ops := g_ops g @
                 [ConvFprop (input_attrs ! 0) (input_attrs ! 1) conv_attrs
                    (length (store k))]\<rparr>),
              store := store k @
                [vn_conv_fprop vendor (store k ! (input_attrs ! 0))
                   (store k ! (input_attrs ! 1)) conv_attrs]\<rparr>))) \<and>
   (AddConvNode vendor node input_attrs k = (Inr y_attr, k') \<longrightarrow>
      (\<exists>g g' x_attr w_attr conv_attrs begin_h begin_w.
         graph k = Some g \<and> graph k' = Some g' \<and>
         g_ops g' = g_ops g @ [ConvFprop x_attr w_attr conv_attrs y_attr] \<and>
         cv_padding conv_attrs = [begin_h, begin_w] \<and>
         (GetIntsAttrOrDefault node ''pads'' [0, 0, 0, 0] = [begin_h, begin_w] \<or>
          (\<exists>end_h end_w.
             GetIntsAttrOrDefault node ''pads'' [0, 0, 0, 0] =
               [begin_h, begin_w, end_h, end_w]))))"
proof (intro conjI impI)
  show "normalize_pads [h, w] = Some [h, w, h, w]"
    by (simp add: normalize_pads_def)
next
  assume "normalize_pads pads1 = normalize_pads pads2"
  then show "AddConvNode vendor (with_pads pads1 node) input_attrs k =
      AddConvNode vendor (with_pads pads2 node) input_attrs k"
    by (rule AddConvNode_normalised)
next
  assume "GetIntsAttrOrDefault node ''pads'' [0, 0, 0, 0] = [h, w]"
  then show "AddConvNode vendor node input_attrs k =
      AddConvNode vendor (with_pads [h, w, h, w] node) input_attrs k"
    by (rule AddConvNode_two_pads)
next
  assume "length (GetIntsAttrOrDefault node ''pads'' [0, 0, 0, 0]) \<noteq> 2 \<and>
      length (GetIntsAttrOrDefault node ''pads'' [0, 0, 0, 0]) \<noteq> 4"
  then show "\<exists>m. AddConvNode vendor node input_attrs k = (Inl (Error ORT_EP_FAIL m), k)"
    by (simp add: AddConvNode_def normalize_pads_def)
next
  assume "length (GetIntsAttrOrDefault node ''pads'' [0, 0, 0, 0]) \<noteq> 2 \<and>
      length (GetIntsAttrOrDefault node ''pads'' [0, 0, 0, 0]) \<noteq> 4"
    and "2 \<le> length input_attrs"
  then show "AddConvNode vendor node input_attrs k =
      (Inl (Error ORT_EP_FAIL ''Conv pads must have 2 or 4 elements''), k)"
    by (simp add: AddConvNode_def normalize_pads_def)
next
  assume a: "(GetIntsAttrOrDefault node ''pads'' [0, 0, 0, 0] = [h, w] \<or>
       GetIntsAttrOrDefault node ''pads'' [0, 0, 0, 0] = [h, w, end_h, end_w]) \<and>
      2 \<le> length input_attrs \<and>
      GetComputeDataType (ta_data_type (store k ! (input_attrs ! 0)))
        (ta_data_type (store k ! (input_attrs ! 1))) = Some compute_dtype \<and>
      2 \<le> length (GetIntsAttrOrDefault node ''strides'' [1, 1]) \<and>
      2 \<le> length (GetIntsAttrOrDefault node ''dilations'' [1, 1]) \<and>
      graph k = Some g"
  have "cv_padding
      \<lparr>cv_padding = [h, w],
       cv_stride = [GetIntsAttrOrDefault node ''strides'' [1, 1] ! 0,
                    GetIntsAttrOrDefault node ''strides'' [1, 1] ! 1],
       cv_dilation = [GetIntsAttrOrDefault node ''dilations'' [1, 1] ! 0,
                      GetIntsAttrOrDefault node ''dilations'' [1, 1] ! 1],
       cv_convolution_mode = CROSS_CORRELATION,
       cv_compute_data_type = compute_dtype\<rparr> = [h, w]"
    by simp
  with AddConvNode_runs [of node h w end_h end_w input_attrs k compute_dtype g vendor] a
  show "\<exists>conv_attrs.
      cv_padding conv_attrs = [h, w] \<and>
      AddConvNode vendor node input_attrs k =
        (Inr (length (store k)),
         k\<lparr>graph := Some (g\<lparr>g_ops := g_ops g @
              [ConvFprop (input_attrs ! 0) (input_attrs ! 1) conv_attrs (length (store k))]\<rparr>),
           store := store k @
             [vn_conv_fprop vendor (store k ! (input_attrs ! 0))
                (store k ! (input_attrs ! 1)) conv_attrs]\<rparr>)"
    by blast
next
  assume "AddConvNode vendor node input_attrs k = (Inr y_attr, k')"
  then show "\<exists>g g' x_attr w_attr conv_attrs begin_h begin_w.
      graph k = Some g \<and> graph k' = Some g' \<and>
      g_ops g' = g_ops g @ [ConvFprop x_attr w_attr conv_attrs y_attr] \<and>
      cv_padding conv_attrs = [begin_h, begin_w] \<and>
      (GetIntsAttrOrDefault node ''pads'' [0, 0, 0, 0] = [begin_h, begin_w] \<or>
       (\<exists>end_h end_w.
          GetIntsAttrOrDefault node ''pads'' [0, 0, 0, 0] = [begin_h, begin_w, end_h, end_w]))"
    by (rule AddConvNode_padding)
qed

theorem padding_normalization_witness:
  "normalize_pads [1, 2] = Some [1, 2, 1, 2] \<and>
   AddConvNode (ex_vendor 64) ex_conv_pads2 [0, 1] ex_kernel_inputs =
     AddConvNode (ex_vendor 64) (with_pads [1, 2, 1, 2] ex_conv_pads2) [0, 1] ex_kernel_inputs \<and>
   (\<exists>conv_attrs.
      cv_padding conv_attrs = [1, 2] \<and>
      AddConvNode (ex_vendor 64) ex_conv_pads2 [0, 1] ex_kernel_inputs =
        (Inr 2,
         ex_kernel_inputs
           \<lparr>graph := Some \<lparr>g_ops = [ConvFprop 0 1 conv_attrs 2], g_calls = []\<rparr>,
            store := store ex_kernel_inputs @ [ex_default_attr\<lparr>ta_is_virtual := True\<rparr>]\<rparr>)) \<and>
   AddConvNode (ex_vendor 64) ex_conv_pads3 [0, 1] ex_kernel_inputs =
     (Inl (Error ORT_EP_FAIL ''Conv pads must have 2 or 4 elements''), ex_kernel_inputs) \<and>
   (\<exists>conv_attrs.
      cv_padding conv_attrs = [1, 2] \<and>
      AddConvNode (ex_vendor 64) ex_conv_pads4 [0, 1] ex_kernel_inputs =
        (Inr 2,
         ex_kernel_inputs
           \<lparr>graph := Some \<lparr>g_ops = [ConvFprop 0 1 conv_attrs 2], g_calls = []\<rparr>,
            store := store ex_kernel_inputs @ [ex_default_attr\<lparr>ta_is_virtual := True\<rparr>]\<rparr>))"
proof -
  have pads:
      "GetIntsAttrOrDefault ex_conv_pads2 ''pads'' [0, 0, 0, 0] = [1, 2]"
      "GetIntsAttrOrDefault ex_conv_pads3 ''pads'' [0, 0, 0, 0] = [1, 2, 3]"
      "GetIntsAttrOrDefault ex_conv_pads4 ''pads'' [0, 0, 0, 0] = [1, 2, 3, 4]"
    by (simp_all add: GetIntsAttrOrDefault_def ex_conv_pads2_def ex_conv_pads3_def
        ex_conv_pads4_def conv_node_def attribute_table_def ints_attr_def)
  have others:
      "GetIntsAttrOrDefault ex_conv_pads2 ''strides'' [1, 1] = [1, 1]"
      "GetIntsAttrOrDefault ex_conv_pads2 ''dilations'' [1, 1] = [1, 1]"
      "GetIntsAttrOrDefault ex_conv_pads4 ''strides'' [1, 1] = [1, 1]"
      "GetIntsAttrOrDefault ex_conv_pads4 ''dilations'' [1, 1] = [1, 1]"
    by (simp_all add: GetIntsAttrOrDefault_def ex_conv_pads2_def ex_conv_pads4_def
        conv_node_def attribute_table_def)
  have kernel:
      "graph ex_kernel_inputs = Some \<lparr>g_ops = [], g_calls = []\<rparr>"
      "length (store ex_kernel_inputs) = 2"
      "GetComputeDataType (ta_data_type (store ex_kernel_inputs ! ([0, 1] ! 0)))
         (ta_data_type (store ex_kernel_inputs ! ([0, 1] ! 1))) = Some DataType_FLOAT"
      "vn_conv_fprop (ex_vendor 64) x w c = ex_default_attr\<lparr>ta_is_virtual := True\<rparr>"
    for x w c
    by (simp_all add: ex_kernel_inputs_def ex_input_attr_def GetComputeDataType_def
        ex_vendor_def)
  note two = padding_normalization [where node = ex_conv_pads2 and h = 1 and w = 2
      and end_h = 1 and end_w = 2 and vendor = "ex_vendor 64" and input_attrs = "[0, 1]"
      and k = ex_kernel_inputs and compute_dtype = DataType_FLOAT
      and g = "\<lparr>g_ops = [], g_calls = []\<rparr>" and ?pads1.0 = "[1, 2]"
      and ?pads2.0 = "[1, 2, 1, 2]"]
  note three = padding_normalization [where node = ex_conv_pads3 and h = 1 and w = 2
      and vendor = "ex_vendor 64" and input_attrs = "[0, 1]" and k = ex_kernel_inputs]
  note four = padding_normalization [where node = ex_conv_pads4 and h = 1 and w = 2
      and end_h = 3 and end_w = 4 and vendor = "ex_vendor 64" and input_attrs = "[0, 1]"
      and k = ex_kernel_inputs and compute_dtype = DataType_FLOAT
      and g = "\<lparr>g_ops = [], g_calls = []\<rparr>"]
  have c1: "normalize_pads [1, 2] = Some [1, 2, 1, 2]"
    by (rule two [THEN conjunct1])
  have c2: "AddConvNode (ex_vendor 64) ex_conv_pads2 [0, 1] ex_kernel_inputs =
      AddConvNode (ex_vendor 64) (with_pads [1, 2, 1, 2] ex_conv_pads2) [0, 1] ex_kernel_inputs"
    using two [THEN conjunct2, THEN conjunct2, THEN conjunct1] pads(1) by simp
  have c3: "\<exists>conv_attrs.
      cv_padding conv_attrs = [1, 2] \<and>
      AddConvNode (ex_vendor 64) ex_conv_pads2 [0, 1] ex_kernel_inputs =
        (Inr 2,
         ex_kernel_inputs
           \<lparr>graph := Some \<lparr>g_ops = [ConvFprop 0 1 conv_attrs 2], g_calls = []\<rparr>,
            store := store ex_kernel_inputs @ [ex_default_attr\<lparr>ta_is_virtual := True\<rparr>]\<rparr>)"
    using two [THEN conjunct2, THEN conjunct2, THEN conjunct2, THEN conjunct2, THEN conjunct1]
      pads(1) others(1,2) kernel
    by simp
  have c4: "AddConvNode (ex_vendor 64) ex_conv_pads3 [0, 1] ex_kernel_inputs =
      (Inl (Error ORT_EP_FAIL ''Conv pads must have 2 or 4 elements''), ex_kernel_inputs)"
    using three [THEN conjunct2, THEN conjunct2, THEN conjunct2, THEN conjunct1] pads(2)
    by simp
  have c5: "\<exists>conv_attrs.
      cv_padding conv_attrs = [1, 2] \<and>
      AddConvNode (ex_vendor 64) ex_conv_pads4 [0, 1] ex_kernel_inputs =
        (Inr 2,
         ex_kernel_inputs
           \<lparr>graph := Some \<lparr>g_ops = [ConvFprop 0 1 conv_attrs 2], g_calls = []\<rparr>,
            store := store ex_kernel_inputs @ [ex_default_attr\<lparr>ta_is_virtual := True\<rparr>]\<rparr>)"
    using four [THEN conjunct2, THEN conjunct2, THEN conjunct2, THEN conjunct2, THEN conjunct1]
      pads(3) others(3,4) kernel
    by simp
  from c1 c2 c3 c4 c5 show ?thesis
    by blast
qed

section \<open>The graph compiler\<close>

lemma record_call_fields [simp]:
  "store (record_call c k) = store k"
  "workspace (record_call c k) = workspace k"
  "handle (record_call c k) = handle k"
  "input_uids (record_call c k) = input_uids k"
  "output_uids (record_call c k) = output_uids k"
  "output_shapes (record_call c k) = output_shapes k"
  "symbol_table (record_call c k) = symbol_table k"
  "next_uid (record_call c k) = next_uid k"
  by (simp_all add: record_call_def)

lemma calls_of_record_call [simp]:
  "graph k = Some g \<Longrightarrow> calls_of (record_call c k) = calls_of k @ [c]"
  by (simp add: calls_of_def record_call_def)

lemma graph_record_call [simp]:
  "graph k = Some g \<Longrightarrow> graph (record_call c k) = Some (g\<lparr>g_calls := g_calls g @ [c]\<rparr>)"
  by (simp add: record_call_def)

lemma calls_of_workspace_update [simp]:
  "calls_of (k\<lparr>workspace := w\<rparr>) = calls_of k"
  by (simp add: calls_of_def)

lemma resize_Inr: "resize vendor n xs = Inr ys \<Longrightarrow> length ys = n"
  by (auto simp add: resize_def split: if_splits option.splits)

lemma resize_cases:
  "(n \<le> length xs \<or> rt_allocate vendor n = None) \<and> (\<exists>ys. resize vendor n xs = Inr ys) \<or>
   length xs < n \<and> (\<exists>e. rt_allocate vendor n = Some e \<and> resize vendor n xs = Inl (Thrown e))"
  by (auto simp add: resize_def split: option.splits)

lemma CompileGraph_stages:
  assumes "graph k = Some g" and "CompileGraph vendor k = (r, k')"
  shows "calls_of k' =
           calls_of k @
           take (Suc (length (takeWhile (\<lambda>c. \<not> is_bad (stage_answer vendor (g_ops g) (store k) c))
                          (build_stages (handle k)))))
             (build_stages (handle k))"
  using assms
  by (auto simp add: CompileGraph_def Let_def build_stages_def split: if_splits sum.splits)

lemma CompileGraph_failing_stage:
  assumes "graph k = Some g" and "CompileGraph vendor k = (r, k')"
    and "length (takeWhile (\<lambda>c. \<not> is_bad (stage_answer vendor (g_ops g) (store k) c))
                    (build_stages (handle k))) < length (build_stages (handle k))"
  shows "r = Inl (Error ORT_EP_FAIL
                  (stage_message (build_stages (handle k) !
                      length (takeWhile (\<lambda>c. \<not> is_bad (stage_answer vendor (g_ops g) (store k) c))
                               (build_stages (handle k)))) @
                   get_message (stage_answer vendor (g_ops g) (store k)
                     (build_stages (handle k) !
                      length (takeWhile (\<lambda>c. \<not> is_bad (stage_answer vendor (g_ops g) (store k) c))
                               (build_stages (handle k))))))) \<and>
         workspace k' = workspace k"
  using assms
  by (auto simp add: CompileGraph_def Let_def build_stages_def split: if_splits sum.splits)

lemma CompileGraph_all_stages:
  assumes "graph k = Some g" and "CompileGraph vendor k = (r, k')"
    and "length (takeWhile (\<lambda>c. \<not> is_bad (stage_answer vendor (g_ops g) (store k) c))
                    (build_stages (handle k))) = length (build_stages (handle k))"
  shows "(if 0 < snd (vn_get_workspace_size vendor (g_ops g) (store k))
          then (case resize vendor (nat (snd (vn_get_workspace_size vendor (g_ops g) (store k))))
                       (workspace k) of
                  Inl f \<Rightarrow> r = Inl f \<and> workspace k' = workspace k
                | Inr resized \<Rightarrow> r = Inr () \<and> workspace k' = resized)
          else r = Inr () \<and> workspace k' = workspace k)"
  using assms
  by (auto simp add: CompileGraph_def Let_def build_stages_def split: if_splits sum.splits)

lemma CompileGraph_keeps:
  assumes "CompileGraph vendor k = (r, k')"
  shows "store k' = store k \<and> handle k' = handle k \<and> input_uids k' = input_uids k \<and>
         output_uids k' = output_uids k \<and> output_shapes k' = output_shapes k \<and>
         symbol_table k' = symbol_table k \<and> next_uid k' = next_uid k"
  using assms
  by (auto simp add: CompileGraph_def Let_def split: option.splits if_splits sum.splits)

lemma Execute_try_calls:
  assumes "Execute_try vendor ctx k = (r, k2)"
  shows "calls_of k2 = calls_of k \<or>
         (\<exists>pack. calls_of k2 = calls_of k @
            [execute (handle k) pack (if workspace k = [] then NullPtr else WorkspaceData)])"
  using assms
  by (auto simp add: Execute_try_def Let_def split: sum.splits if_splits option.splits)

lemma Execute_state: "snd (Execute vendor ctx k) = snd (Execute_try vendor ctx k)"
  by (auto simp add: Execute_def split: prod.splits sum.splits failure.splits exn.splits)

lemma Execute_calls:
  assumes "Execute vendor ctx k = (r, k2)"
  shows "calls_of k2 = calls_of k \<or>
         (\<exists>pack. calls_of k2 = calls_of k @
            [execute (handle k) pack (if workspace k = [] then NullPtr else WorkspaceData)])"
proof -
  from assms have "k2 = snd (Execute_try vendor ctx k)"
    using Execute_state [of vendor ctx k] by simp
  then have "Execute_try vendor ctx k = (fst (Execute_try vendor ctx k), k2)"
    by simp
  then show ?thesis
    by (rule Execute_try_calls)
qed

text \<open>
  C6. \<open>CompileGraph\<close> calls the vendor build stages in the order validate, build
  operation graph, create execution plans (fallback heuristic), check support, build
  plans, query workspace size: the calls it makes are that list up to and including the
  first stage that fails. When a stage fails, the error message is the text that names
  that stage followed by the vendor's message (the six texts differ), and the workspace
  is untouched. When all succeed and the reported workspace size, a byte count, is not
  zero, the workspace is resized once to exactly that many bytes; should the host have no
  memory for it, the exception of the allocation leaves \<open>CompileGraph\<close> and the
  workspace is as it was. When the reported size is zero the call succeeds and the
  workspace is as it was, so the Kernel that \<open>BuildAndCompile\<close> builds has an empty
  one. A later \<open>Execute\<close> hands the vendor a null workspace pointer exactly when the
  workspace is empty, which for a Kernel built from an empty workspace is exactly when
  the reported size was zero.
\<close>

theorem CompileGraph_stages_in_order:
  assumes "graph k = Some g" and "CompileGraph vendor k = (r, k')"
    and "0 \<le> snd (vn_get_workspace_size vendor (g_ops g) (store k))"
  shows
    "let stages = build_stages (handle k);
         answer = stage_answer vendor (g_ops g) (store k);
         passed = length (takeWhile (\<lambda>c. \<not> is_bad (answer c)) stages);
         workspace_size = snd (vn_get_workspace_size vendor (g_ops g) (store k))
     in calls_of k' = calls_of k @ take (Suc passed) stages \<and>
        distinct (map stage_message stages) \<and>
        (passed < length stages \<longrightarrow>
           r = Inl (Error ORT_EP_FAIL
                 (stage_message (stages ! passed) @ get_message (answer (stages ! passed)))) \<and>
           workspace k' = workspace k) \<and>
        (passed = length stages \<and> workspace_size \<noteq> 0 \<longrightarrow>
           ((nat workspace_size \<le> length (workspace k) \<or>
             rt_allocate vendor (nat workspace_size) = None) \<and>
            r = Inr () \<and> int (length (workspace k')) = workspace_size \<and>
            (workspace k = [] \<longrightarrow>
               workspace k' = replicate (nat workspace_size) (CHR 0x00))) \<or>
           (length (workspace k) < nat workspace_size \<and>
            (\<exists>e. rt_allocate vendor (nat workspace_size) = Some e \<and> r = Inl (Thrown e)) \<and>
            workspace k' = workspace k)) \<and>
        (passed = length stages \<and> workspace_size = 0 \<longrightarrow>
           r = Inr () \<and> workspace k' = workspace k) \<and>
        (r = Inr () \<and> workspace k = [] \<longrightarrow> (workspace k' = []) = (workspace_size = 0)) \<and>
        (\<forall>ctx vendor2 r2 k2.
           Execute vendor2 ctx k' = (r2, k2) \<longrightarrow>
             calls_of k2 = calls_of k' \<or>
             (\<exists>pack. calls_of k2 = calls_of k' @
                [execute (handle k) pack
                   (if workspace k' = [] then NullPtr else WorkspaceData)]))"
proof -
  define stages where "stages = build_stages (handle k)"
  define answer where "answer = stage_answer vendor (g_ops g) (store k)"
  define passed where "passed = length (takeWhile (\<lambda>c. \<not> is_bad (answer c)) stages)"
  define workspace_size where
    "workspace_size = snd (vn_get_workspace_size vendor (g_ops g) (store k))"
  note defs = stages_def answer_def passed_def workspace_size_def
  have calls: "calls_of k' = calls_of k @ take (Suc passed) stages"
    unfolding defs by (rule CompileGraph_stages [OF assms(1,2)])
  have texts: "distinct (map stage_message stages)"
    by (simp add: stages_def build_stages_def)
  have le: "passed \<le> length stages"
    unfolding passed_def by (rule length_takeWhile_le)
  have failing: "r = Inl (Error ORT_EP_FAIL
        (stage_message (stages ! passed) @ get_message (answer (stages ! passed)))) \<and>
      workspace k' = workspace k" if "passed < length stages"
    using CompileGraph_failing_stage [OF assms(1,2)] that unfolding defs by simp
  have all_stages: "if 0 < workspace_size
      then (case resize vendor (nat workspace_size) (workspace k) of
              Inl f \<Rightarrow> r = Inl f \<and> workspace k' = workspace k
            | Inr resized \<Rightarrow> r = Inr () \<and> workspace k' = resized)
      else r = Inr () \<and> workspace k' = workspace k" if "passed = length stages"
    using CompileGraph_all_stages [OF assms(1,2)] that unfolding defs by simp
  have nonzero:
      "(nat workspace_size \<le> length (workspace k) \<or>
        rt_allocate vendor (nat workspace_size) = None) \<and>
       r = Inr () \<and> int (length (workspace k')) = workspace_size \<and>
       (workspace k = [] \<longrightarrow> workspace k' = replicate (nat workspace_size) (CHR 0x00)) \<or>
       length (workspace k) < nat workspace_size \<and>
       (\<exists>e. rt_allocate vendor (nat workspace_size) = Some e \<and> r = Inl (Thrown e)) \<and>
       workspace k' = workspace k"
    if "passed = length stages" and "workspace_size \<noteq> 0"
  proof -
    from that(2) assms(3) have pos: "0 < workspace_size"
      by (simp add: workspace_size_def)
    with all_stages [OF that(1)]
    have run: "case resize vendor (nat workspace_size) (workspace k) of
              Inl f \<Rightarrow> r = Inl f \<and> workspace k' = workspace k
            | Inr resized \<Rightarrow> r = Inr () \<and> workspace k' = resized"
      by simp
    from resize_cases [of "nat workspace_size" "workspace k" vendor]
    consider ys where "nat workspace_size \<le> length (workspace k) \<or>
          rt_allocate vendor (nat workspace_size) = None"
        and "resize vendor (nat workspace_size) (workspace k) = Inr ys"
      | e where "length (workspace k) < nat workspace_size"
        and "rt_allocate vendor (nat workspace_size) = Some e"
        and "resize vendor (nat workspace_size) (workspace k) = Inl (Thrown e)"
      by blast
    then show ?thesis
    proof cases
      case 1
      from run 1(2) have r: "r = Inr ()" and w: "workspace k' = ys"
        by simp_all
      from resize_Inr [OF 1(2)] pos w have "int (length (workspace k')) = workspace_size"
        by simp
      moreover have "workspace k' = replicate (nat workspace_size) (CHR 0x00)"
        if "workspace k = []"
        using 1(2) w that pos by (auto simp add: resize_def split: if_splits option.splits)
      ultimately show ?thesis
        using 1(1) r by blast
    next
      case 2
      with run show ?thesis
        by auto
    qed
  qed
  have zero: "r = Inr () \<and> workspace k' = workspace k"
    if "passed = length stages" and "workspace_size = 0"
    using all_stages [OF that(1)] that(2) by simp
  have empty: "(workspace k' = []) = (workspace_size = 0)" if "r = Inr ()" and "workspace k = []"
  proof (cases "passed = length stages")
    case False
    with le failing that(1) show ?thesis
      by auto
  next
    case True
    show ?thesis
    proof (cases "workspace_size = 0")
      case True
      with zero [OF \<open>passed = length stages\<close>] that(2) show ?thesis
        by simp
    next
      case False
      from assms(3) False have "0 < nat workspace_size"
        by (simp add: workspace_size_def)
      with nonzero [OF True False] that False show ?thesis
        by auto
    qed
  qed
  have "handle k' = handle k"
    using CompileGraph_keeps [OF assms(2)] by simp
  then have later: "\<forall>ctx vendor2 r2 k2.
      Execute vendor2 ctx k' = (r2, k2) \<longrightarrow>
        calls_of k2 = calls_of k' \<or>
        (\<exists>pack. calls_of k2 = calls_of k' @
           [execute (handle k) pack (if workspace k' = [] then NullPtr else WorkspaceData)])"
    using Execute_calls by metis
  show ?thesis
    unfolding Let_def defs [symmetric]
  proof (intro conjI)
    show "calls_of k' = calls_of k @ take (Suc passed) stages"
      by (rule calls)
    show "distinct (map stage_message stages)"
      by (rule texts)
    show "passed < length stages \<longrightarrow>
        r = Inl (Error ORT_EP_FAIL
              (stage_message (stages ! passed) @ get_message (answer (stages ! passed)))) \<and>
        workspace k' = workspace k"
      using failing by (intro impI)
    show "passed = length stages \<and> workspace_size \<noteq> 0 \<longrightarrow>
        (nat workspace_size \<le> length (workspace k) \<or>
         rt_allocate vendor (nat workspace_size) = None) \<and>
        r = Inr () \<and> int (length (workspace k')) = workspace_size \<and>
        (workspace k = [] \<longrightarrow> workspace k' = replicate (nat workspace_size) (CHR 0x00)) \<or>
        length (workspace k) < nat workspace_size \<and>
        (\<exists>e. rt_allocate vendor (nat workspace_size) = Some e \<and> r = Inl (Thrown e)) \<and>
        workspace k' = workspace k"
      using nonzero by (intro impI) (elim conjE)
    show "passed = length stages \<and> workspace_size = 0 \<longrightarrow>
        r = Inr () \<and> workspace k' = workspace k"
      using zero by (intro impI) (elim conjE)
    show "r = Inr () \<and> workspace k = [] \<longrightarrow> (workspace k' = []) = (workspace_size = 0)"
      using empty by (intro impI) (elim conjE)
    show "\<forall>ctx vendor2 r2 k2.
        Execute vendor2 ctx k' = (r2, k2) \<longrightarrow>
          calls_of k2 = calls_of k' \<or>
          (\<exists>pack. calls_of k2 = calls_of k' @
             [execute (handle k) pack (if workspace k' = [] then NullPtr else WorkspaceData)])"
      by (rule later)
  qed
qed

lemma ex_compile_ok:
  "CompileGraph (ex_vendor n) ex_kernel_inputs = (Inr (), ex_kernel_compiled n)"
  by (simp add: CompileGraph_def ex_vendor_def ex_kernel_inputs_def ex_kernel_compiled_def
      no_error_def record_call_def Let_def resize_def)

lemma ex_kernel_compiled_fields:
  "calls_of (ex_kernel_compiled n) = build_stages 7"
  "workspace (ex_kernel_compiled n) = replicate (nat n) (CHR 0x00)"
  "handle (ex_kernel_compiled n) = 7"
  by (simp_all add: ex_kernel_compiled_def calls_of_def build_stages_def ex_kernel_inputs_def)

theorem CompileGraph_stages_in_order_witness:
  "calls_of (snd (CompileGraph ex_vendor_unsupported ex_kernel_inputs)) =
     [validate, build_operation_graph 7, create_execution_plans [FALLBACK], check_support] \<and>
   fst (CompileGraph ex_vendor_unsupported ex_kernel_inputs) =
     Inl (Error ORT_EP_FAIL ''hipDNN check_support failed: no engine'') \<and>
   fst (CompileGraph (ex_vendor 64) ex_kernel_inputs) = Inr () \<and>
   calls_of (snd (CompileGraph (ex_vendor 64) ex_kernel_inputs)) = build_stages 7 \<and>
   workspace (snd (CompileGraph (ex_vendor 64) ex_kernel_inputs)) = replicate 64 (CHR 0x00) \<and>
   fst (CompileGraph ex_vendor_no_memory ex_kernel_inputs) =
     Inl (Thrown (StdException ''std::bad_alloc'')) \<and>
   workspace (snd (CompileGraph ex_vendor_no_memory ex_kernel_inputs)) = [] \<and>
   fst (CompileGraph (ex_vendor 0) ex_kernel_inputs) = Inr () \<and>
   workspace (snd (CompileGraph (ex_vendor 0) ex_kernel_inputs)) = [] \<and>
   (\<exists>pack. calls_of (snd (Execute (ex_vendor 0) (ex_ctx 2 0)
                            (snd (CompileGraph (ex_vendor 0) ex_kernel_inputs)))) =
            build_stages 7 @ [execute 7 pack NullPtr])"
proof -
  have g: "graph ex_kernel_inputs = Some \<lparr>g_ops = [], g_calls = []\<rparr>"
    by (simp add: ex_kernel_inputs_def)
  have size: "snd (vn_get_workspace_size (ex_vendor n) ops tensors) = n"
      "snd (vn_get_workspace_size ex_vendor_no_memory ops tensors) = 64"
      "snd (vn_get_workspace_size ex_vendor_unsupported ops tensors) = 64"
    for n ops tensors
    by (simp_all add: ex_vendor_no_memory_def ex_vendor_unsupported_def ex_vendor_def)
  have passed:
      "length (takeWhile (\<lambda>c. \<not> is_bad (stage_answer (ex_vendor n) ops tensors c))
         (build_stages h)) = 6"
      "length (takeWhile (\<lambda>c. \<not> is_bad (stage_answer ex_vendor_no_memory ops tensors c))
         (build_stages h)) = 6"
      "length (takeWhile (\<lambda>c. \<not> is_bad (stage_answer ex_vendor_unsupported ops tensors c))
         (build_stages h)) = 3"
    for n ops tensors h
    by (simp_all add: build_stages_def ex_vendor_no_memory_def ex_vendor_unsupported_def
        ex_vendor_def no_error_def)
  have fields: "handle ex_kernel_inputs = 7" "workspace ex_kernel_inputs = []"
      "calls_of ex_kernel_inputs = []"
    by (simp_all add: ex_kernel_inputs_def calls_of_def)
  have pair: "CompileGraph vendor ex_kernel_inputs =
      (fst (CompileGraph vendor ex_kernel_inputs), snd (CompileGraph vendor ex_kernel_inputs))"
    for vendor
    by simp
  have nonneg:
      "0 \<le> snd (vn_get_workspace_size (ex_vendor 64)
         (g_ops \<lparr>g_ops = [], g_calls = []\<rparr>) (store ex_kernel_inputs))"
      "0 \<le> snd (vn_get_workspace_size (ex_vendor 0)
         (g_ops \<lparr>g_ops = [], g_calls = []\<rparr>) (store ex_kernel_inputs))"
      "0 \<le> snd (vn_get_workspace_size ex_vendor_no_memory
         (g_ops \<lparr>g_ops = [], g_calls = []\<rparr>) (store ex_kernel_inputs))"
      "0 \<le> snd (vn_get_workspace_size ex_vendor_unsupported
         (g_ops \<lparr>g_ops = [], g_calls = []\<rparr>) (store ex_kernel_inputs))"
    by (simp_all add: size)
  have unsupported:
      "calls_of (snd (CompileGraph ex_vendor_unsupported ex_kernel_inputs)) =
         [validate, build_operation_graph 7, create_execution_plans [FALLBACK], check_support]"
      "fst (CompileGraph ex_vendor_unsupported ex_kernel_inputs) =
         Inl (Error ORT_EP_FAIL ''hipDNN check_support failed: no engine'')"
    using CompileGraph_stages_in_order [OF g pair [of ex_vendor_unsupported] nonneg(4),
        unfolded Let_def size passed]
    by (simp_all add: fields build_stages_def ex_vendor_unsupported_def)
  have allocated:
      "fst (CompileGraph (ex_vendor 64) ex_kernel_inputs) = Inr ()"
      "calls_of (snd (CompileGraph (ex_vendor 64) ex_kernel_inputs)) = build_stages 7"
      "workspace (snd (CompileGraph (ex_vendor 64) ex_kernel_inputs)) = replicate 64 (CHR 0x00)"
    using CompileGraph_stages_in_order [OF g pair [of "ex_vendor 64"] nonneg(1),
        unfolded Let_def size passed]
    by (simp_all add: fields build_stages_def ex_vendor_def)
  have no_memory:
      "fst (CompileGraph ex_vendor_no_memory ex_kernel_inputs) =
         Inl (Thrown (StdException ''std::bad_alloc''))"
      "workspace (snd (CompileGraph ex_vendor_no_memory ex_kernel_inputs)) = []"
    using CompileGraph_stages_in_order [OF g pair [of ex_vendor_no_memory] nonneg(3),
        unfolded Let_def size passed]
    by (simp_all add: fields build_stages_def ex_vendor_no_memory_def)
  have zero:
      "fst (CompileGraph (ex_vendor 0) ex_kernel_inputs) = Inr ()"
      "workspace (snd (CompileGraph (ex_vendor 0) ex_kernel_inputs)) = []"
    using CompileGraph_stages_in_order [OF g pair [of "ex_vendor 0"] nonneg(2),
        unfolded Let_def size passed]
    by (simp_all add: fields build_stages_def)
  have grown: "calls_of (snd (Execute (ex_vendor 0) (ex_ctx 2 0) (ex_kernel_compiled 0))) \<noteq>
      calls_of (ex_kernel_compiled 0)"
    by (simp add: Execute_def Execute_try_def ex_ctx_def ex_kernel_inputs_def
        ex_kernel_compiled_def ex_vendor_def no_error_def Let_def calls_of_def record_call_def)
  have run: "Execute (ex_vendor 0) (ex_ctx 2 0) (ex_kernel_compiled 0) =
      (fst (Execute (ex_vendor 0) (ex_ctx 2 0) (ex_kernel_compiled 0)),
       snd (Execute (ex_vendor 0) (ex_ctx 2 0) (ex_kernel_compiled 0)))"
    by simp
  from CompileGraph_stages_in_order [OF g ex_compile_ok [of 0] nonneg(2), unfolded Let_def] run
  have "calls_of (snd (Execute (ex_vendor 0) (ex_ctx 2 0) (ex_kernel_compiled 0))) =
          calls_of (ex_kernel_compiled 0) \<or>
        (\<exists>pack. calls_of (snd (Execute (ex_vendor 0) (ex_ctx 2 0) (ex_kernel_compiled 0))) =
           calls_of (ex_kernel_compiled 0) @
           [execute (handle ex_kernel_inputs) pack
              (if workspace (ex_kernel_compiled 0) = [] then NullPtr else WorkspaceData)])"
    by blast
  with grown have "\<exists>pack. calls_of (snd (Execute (ex_vendor 0) (ex_ctx 2 0)
                            (snd (CompileGraph (ex_vendor 0) ex_kernel_inputs)))) =
            build_stages 7 @ [execute 7 pack NullPtr]"
    by (simp add: ex_compile_ok ex_kernel_compiled_fields) (simp add: ex_kernel_inputs_def)
  with unsupported allocated no_memory zero show ?thesis
    by blast
qed

section \<open>Concrete runs of the translator\<close>

lemma ex_names [simp]:
  "vi_GetName ex_X = Inr ''X''" "vi_GetName ex_W = Inr ''W''" "vi_GetName ex_Y = Inr ''Y''"
  by (simp_all add: ex_X_def ex_W_def ex_Y_def tensor_value_info_def)

lemma ex_types [simp]:
  "GetTensorElementType ex_X = Inr ONNX_TENSOR_ELEMENT_DATA_TYPE_FLOAT"
  "GetTensorElementType ex_W = Inr ONNX_TENSOR_ELEMENT_DATA_TYPE_FLOAT"
  "GetTensorElementType ex_Y = Inr ONNX_TENSOR_ELEMENT_DATA_TYPE_FLOAT"
  "GetTensorShape ex_X = Inr (Some [1, 1, 8, 8])"
  "GetTensorShape ex_W = Inr (Some [1, 1, 3, 3])"
  "GetTensorShape ex_Y = Inr (Some [1, 1, 6, 6])"
  by (simp_all add: ex_X_def ex_W_def ex_Y_def ex_tensor_reads)

lemma ex_conv_reads [simp]:
  "nd_GetInputs ex_conv = Inr [ex_X, ex_W]"
  "nd_GetOutputs ex_conv = Inr [ex_Y]"
  "nd_GetOperatorType ex_conv = Inr ''Conv''"
  "GetIntsAttrOrDefault ex_conv name default_val = default_val"
  by (simp_all add: ex_conv_def conv_node_def GetIntsAttrOrDefault_def attribute_table_def)

lemma ex_inputs_loop:
  "graph_inputs_loop (ex_vendor n) [ex_X, ex_W]
     ((Kernel_new 7)\<lparr>graph := Some \<lparr>g_ops = [], g_calls = []\<rparr>\<rparr>) = (Inr (), ex_kernel_inputs)"
  by (simp add: CreateTensorAttr_def bind_res_def call_def Kernel_new_def ex_kernel_inputs_def
      ex_vendor_def ex_default_attr_def ex_input_attr_def Let_def)

lemma ex_node_body:
  "node_body (ex_vendor n) ex_conv ex_kernel_inputs = (Inr (), ex_kernel_node)"
  by (simp add: node_body_def AddNode_def AddConvNode_def normalize_pads_def
      GetComputeDataType_def ex_kernel_inputs_def ex_kernel_node_def ex_vendor_def
      ex_default_attr_def ex_input_attr_def ex_conv_attrs_def Let_def numeral_2_eq_2)

lemma ex_outputs_loop:
  "graph_outputs_loop [ex_Y] ex_kernel_node = (Inr (), ex_kernel_translated)"
  by (simp add: ex_kernel_inputs_def ex_kernel_node_def ex_kernel_translated_def
      ex_input_attr_def numeral_2_eq_2)

lemma ex_CompileGraph:
  "CompileGraph (ex_vendor n) ex_kernel_translated = (Inr (), ex_kernel_built n)"
  by (simp add: CompileGraph_def ex_vendor_def no_error_def record_call_def
      ex_kernel_translated_def ex_kernel_node_def ex_kernel_inputs_def
      ex_kernel_built_def resize_def Let_def)

lemma ex_BuildAndCompile:
  "BuildAndCompile (ex_vendor n) ex_graph (Kernel_new 7) = (Inr (), ex_kernel_built n)"
  by (simp add: BuildAndCompile_def BuildAndCompile_try_def ex_graph_def ex_inputs_loop
      ex_node_body ex_outputs_loop ex_CompileGraph Let_def
      del: graph_inputs_loop.simps graph_outputs_loop.simps)

text \<open>
  On a host without memory for the workspace, the exception of the allocation is caught
  in \<open>BuildAndCompile\<close> and returned as an error; all six stages have run and the
  workspace is empty.
\<close>

lemma ex_BuildAndCompile_no_memory:
  "BuildAndCompile ex_vendor_no_memory ex_graph (Kernel_new 7) =
     (Inl (Error ORT_EP_FAIL ''Exception building hipDNN graph: std::bad_alloc''),
      ex_kernel_built 0)"
proof -
  have inputs: "graph_inputs_loop ex_vendor_no_memory [ex_X, ex_W]
      ((Kernel_new 7)\<lparr>graph := Some \<lparr>g_ops = [], g_calls = []\<rparr>\<rparr>) = (Inr (), ex_kernel_inputs)"
    by (simp add: CreateTensorAttr_def bind_res_def call_def Kernel_new_def ex_kernel_inputs_def
        ex_vendor_no_memory_def ex_vendor_def ex_default_attr_def ex_input_attr_def Let_def)
  have node: "node_body ex_vendor_no_memory ex_conv ex_kernel_inputs = (Inr (), ex_kernel_node)"
    by (simp add: node_body_def AddNode_def AddConvNode_def normalize_pads_def
        GetComputeDataType_def ex_kernel_inputs_def ex_kernel_node_def ex_vendor_no_memory_def
        ex_vendor_def ex_default_attr_def ex_input_attr_def ex_conv_attrs_def Let_def
        numeral_2_eq_2)
  have compile: "CompileGraph ex_vendor_no_memory ex_kernel_translated =
      (Inl (Thrown (StdException ''std::bad_alloc'')), ex_kernel_built 0)"
    by (simp add: CompileGraph_def ex_vendor_no_memory_def ex_vendor_def no_error_def
        record_call_def ex_kernel_translated_def ex_kernel_node_def ex_kernel_inputs_def
        ex_kernel_built_def resize_def Let_def)
  show ?thesis
    by (simp add: BuildAndCompile_def BuildAndCompile_try_def ex_graph_def inputs node
        ex_outputs_loop compile Let_def
        del: graph_inputs_loop.simps graph_outputs_loop.simps)
qed

section \<open>The compile request\<close>

lemma BuildAndCompile_not_Thrown: "fst (BuildAndCompile vendor g k) \<noteq> Inl (Thrown e)"
  by (auto simp add: BuildAndCompile_def split: prod.splits sum.splits failure.splits)

lemma emplace_keeps: "table name = Some old \<Longrightarrow> emplace n new_kernel table name = Some old"
  by (auto simp add: emplace_def split: option.splits)

lemma CompileImpl_loop_append:
  assumes "CompileImpl_loop vendor done ep infos = (Inr (), ep1, infos1)"
  shows "CompileImpl_loop vendor (done @ rest) ep infos = CompileImpl_loop vendor rest ep1 infos1"
  using assms
  by (induction "done" arbitrary: ep infos) (auto split: sum.splits prod.splits)

lemma CompileImpl_loop_handle:
  assumes "CompileImpl_loop vendor subgraphs ep infos = (r, ep1, infos1)"
  shows "hipdnn_handle ep1 = hipdnn_handle ep"
  using assms
  by (induction subgraphs arbitrary: ep infos) (auto split: sum.splits prod.splits)

lemma CompileImpl_success:
  "CompileImpl vendor subgraphs ep = (Inr (), ep1, infos1) \<longleftrightarrow>
   CompileImpl_loop vendor subgraphs ep [] = (Inr (), ep1, infos1)"
  by (auto simp add: CompileImpl_def split: prod.splits sum.splits)

lemma CompileImpl_stops:
  assumes done_ok: "CompileImpl vendor done ep = (Inr (), ep1, infos1)"
    and fails: "CompileImpl_body vendor (hipdnn_handle ep) subgraph = Inl f"
  shows "CompileImpl vendor (done @ subgraph # rest) ep =
           (Inl (status_of_exception f), ep1, infos1)"
proof -
  from done_ok have loop: "CompileImpl_loop vendor done ep [] = (Inr (), ep1, infos1)"
    by (simp add: CompileImpl_success)
  from CompileImpl_loop_handle [OF loop] fails
  have "CompileImpl_loop vendor (subgraph # rest) ep1 infos1 = (Inl f, ep1, infos1)"
    by simp
  with CompileImpl_loop_append [OF loop, of "subgraph # rest"] show ?thesis
    by (simp add: CompileImpl_def)
qed

text \<open>
  C10. A compile request for a subgraph without nodes fails with the error
  "Empty graph provided for compilation": alone or first in a request it leaves the
  provider as it was and hands back no compute info; after subgraphs that compiled, the
  request fails with that error and leaves what those subgraphs registered. No Kernel is
  registered for the empty subgraph and the request does not succeed.
\<close>

theorem empty_graph_fails_compile:
  assumes "gr_GetNodes g = Inr []"
  shows "CompileImpl vendor ((g, fused_node) # rest) ep =
           (Inl (Error ORT_EP_FAIL ''Empty graph provided for compilation''), ep, []) \<and>
         (CompileImpl vendor done ep = (Inr (), ep1, infos1) \<longrightarrow>
            CompileImpl vendor (done @ (g, fused_node) # rest) ep =
              (Inl (Error ORT_EP_FAIL ''Empty graph provided for compilation''), ep1, infos1))"
proof -
  have body: "CompileImpl_body vendor h (g, fused_node) =
      Inl (Error ORT_EP_FAIL ''Empty graph provided for compilation'')" for h
    using assms by (simp add: CompileImpl_body_def)
  have "CompileImpl vendor [] ep = (Inr (), ep, [])"
    by (simp add: CompileImpl_def)
  from CompileImpl_stops [OF this body, of rest] CompileImpl_stops [OF _ body, of "done" ep ep1 infos1 rest]
  show ?thesis
    by simp
qed

lemma ex_graph_reads [simp]:
  "gr_GetNodes ex_graph = Inr [ex_conv]"
  "gr_GetNodes ex_graph_missing = Inr [ex_conv]"
  "gr_GetNodes ex_graph_empty = Inr []"
  "nd_GetName (ex_fused name) = Inr name"
  "hipdnn_handle ex_ep = 7"
  "kernels ex_ep = Map.empty"
  by (simp_all add: ex_graph_def ex_graph_missing_def ex_graph_empty_def ex_fused_def
      conv_node_def ex_ep_def)

lemma ex_CompileImpl_body:
  "CompileImpl_body (ex_vendor n) 7 (ex_graph, ex_fused name) = Inr (name, ex_kernel_built n)"
  by (simp add: CompileImpl_body_def ex_BuildAndCompile)

lemma ex_CompileImpl_first:
  "CompileImpl (ex_vendor n) [(ex_graph, ex_fused ''conv0'')] ex_ep =
     (Inr (), ex_ep\<lparr>kernels := [''conv0'' \<mapsto> ex_kernel_built n]\<rparr>, [NodeComputeInfo])"
  by (simp add: CompileImpl_def ex_CompileImpl_body emplace_def)

theorem empty_graph_fails_compile_witness:
  "CompileImpl (ex_vendor 64) [(ex_graph_empty, ex_fused ''conv0'')] ex_ep =
     (Inl (Error ORT_EP_FAIL ''Empty graph provided for compilation''), ex_ep, []) \<and>
   fst (CompileImpl (ex_vendor 64)
          [(ex_graph, ex_fused ''conv0''), (ex_graph_empty, ex_fused ''conv1'')] ex_ep) =
     Inl (Error ORT_EP_FAIL ''Empty graph provided for compilation'') \<and>
   kernels (fst (snd (CompileImpl (ex_vendor 64)
          [(ex_graph, ex_fused ''conv0''), (ex_graph_empty, ex_fused ''conv1'')] ex_ep))) ''conv1'' =
     None"
proof -
  have empty: "gr_GetNodes ex_graph_empty = Inr []"
    by simp
  from empty_graph_fails_compile [OF empty, of "ex_vendor 64" "ex_fused ''conv0''" "[]" ex_ep]
    empty_graph_fails_compile [OF empty, of "ex_vendor 64" "ex_fused ''conv1''" "[]" ex_ep
      "[(ex_graph, ex_fused ''conv0'')]" "ex_ep\<lparr>kernels := [''conv0'' \<mapsto> ex_kernel_built 64]\<rparr>"
      "[NodeComputeInfo]"] ex_CompileImpl_first [of 64]
  show ?thesis
    by simp
qed

lemma CompileImpl_body_Inr:
  assumes "CompileImpl_body vendor h (g, fused_node) = Inr (name, new_kernel)"
  shows "nd_GetName fused_node = Inr name \<and>
         new_kernel = snd (BuildAndCompile vendor g (Kernel_new h))"
  using assms
  by (auto simp add: CompileImpl_body_def split: sum.splits if_splits prod.splits)

lemma CompileImpl_loop_table:
  assumes "CompileImpl_loop vendor subgraphs ep infos = (Inr (), ep1, infos1)"
  shows "kernels ep1 name =
           (case kernels ep name of
              Some old \<Rightarrow> Some old
            | None \<Rightarrow> registered_by vendor (hipdnn_handle ep) subgraphs name) \<and>
         length infos1 = length infos + length subgraphs"
  using assms
proof (induction subgraphs arbitrary: ep infos)
  case Nil
  then show ?case
    by (auto split: option.splits)
next
  case (Cons subgraph rest)
  obtain g fused_node where subgraph: "subgraph = (g, fused_node)"
    by (cases subgraph)
  from Cons.prems obtain n new_kernel where
    body: "CompileImpl_body vendor (hipdnn_handle ep) (g, fused_node) = Inr (n, new_kernel)"
    and loop: "CompileImpl_loop vendor rest
                 (ep\<lparr>kernels := emplace n new_kernel (kernels ep)\<rparr>)
                 (infos @ [NodeComputeInfo]) = (Inr (), ep1, infos1)"
    unfolding subgraph by (auto split: sum.splits prod.splits)
  from CompileImpl_body_Inr [OF body]
  have name_of: "nd_GetName fused_node = Inr n"
    and built: "new_kernel = snd (BuildAndCompile vendor g (Kernel_new (hipdnn_handle ep)))"
    by simp_all
  from Cons.IH [OF loop]
  have step: "kernels ep1 name =
      (case emplace n new_kernel (kernels ep) name of
         Some old \<Rightarrow> Some old
       | None \<Rightarrow> registered_by vendor (hipdnn_handle ep) rest name)"
    and count: "length infos1 = length infos + length (subgraph # rest)"
    by (simp_all cong: option.case_cong)
  have "kernels ep1 name =
      (case kernels ep name of
         Some old \<Rightarrow> Some old
       | None \<Rightarrow> registered_by vendor (hipdnn_handle ep) ((g, fused_node) # rest) name)"
  proof (cases "kernels ep name")
    case (Some old)
    then have "emplace n new_kernel (kernels ep) name = Some old"
      by (rule emplace_keeps)
    with step Some show ?thesis
      by simp
  next
    case None
    show ?thesis
    proof (cases "name = n")
      case True
      with None step name_of built show ?thesis
        by (simp add: emplace_def)
    next
      case False
      with None step name_of show ?thesis
        by (auto simp add: emplace_def split: option.splits)
    qed
  qed
  with count show ?case
    unfolding subgraph by simp
qed

lemma registered_by_None:
  "registered_by vendor h subgraphs name = None \<longleftrightarrow>
   (\<forall>(g0, n0) \<in> set subgraphs. nd_GetName n0 \<noteq> Inr name)"
  by (induction subgraphs) (auto split: if_splits)

lemma CompileImpl_loop_names:
  assumes "CompileImpl_loop vendor subgraphs ep infos = (Inr (), ep1, infos1)"
  shows "\<forall>(g0, n0) \<in> set subgraphs. \<exists>name. nd_GetName n0 = Inr name"
  using assms
proof (induction subgraphs arbitrary: ep infos)
  case Nil
  then show ?case by simp
next
  case (Cons subgraph rest)
  obtain g fused_node where subgraph: "subgraph = (g, fused_node)"
    by (cases subgraph)
  from Cons.prems obtain n new_kernel where
    body: "CompileImpl_body vendor (hipdnn_handle ep) (g, fused_node) = Inr (n, new_kernel)"
    and loop: "CompileImpl_loop vendor rest
                 (ep\<lparr>kernels := emplace n new_kernel (kernels ep)\<rparr>)
                 (infos @ [NodeComputeInfo]) = (Inr (), ep1, infos1)"
    unfolding subgraph by (auto split: sum.splits prod.splits)
  from CompileImpl_body_Inr [OF body] Cons.IH [OF loop] show ?case
    unfolding subgraph by simp
qed

lemma CompileImpl_loop_unchanged:
  assumes loop: "CompileImpl_loop vendor subgraphs ep infos = (Inr (), ep1, infos1)"
  shows "kernels ep1 = kernels ep \<longleftrightarrow>
         (\<forall>(g0, n0) \<in> set subgraphs. \<exists>name. nd_GetName n0 = Inr name \<and> kernels ep name \<noteq> None)"
proof
  assume same: "kernels ep1 = kernels ep"
  show "\<forall>(g0, n0) \<in> set subgraphs. \<exists>name. nd_GetName n0 = Inr name \<and> kernels ep name \<noteq> None"
  proof (intro ballI, clarify)
    fix g0 n0
    assume member: "(g0, n0) \<in> set subgraphs"
    with CompileImpl_loop_names [OF loop] obtain name where name: "nd_GetName n0 = Inr name"
      by blast
    have "kernels ep name \<noteq> None"
    proof
      assume none: "kernels ep name = None"
      with CompileImpl_loop_table [OF loop, of name] same
      have "registered_by vendor (hipdnn_handle ep) subgraphs name = None"
        by simp
      with member name show False
        by (auto simp add: registered_by_None)
    qed
    with name show "\<exists>name. nd_GetName n0 = Inr name \<and> kernels ep name \<noteq> None"
      by blast
  qed
next
  assume taken: "\<forall>(g0, n0) \<in> set subgraphs.
      \<exists>name. nd_GetName n0 = Inr name \<and> kernels ep name \<noteq> None"
  show "kernels ep1 = kernels ep"
  proof
    fix name
    show "kernels ep1 name = kernels ep name"
    proof (cases "kernels ep name")
      case (Some old)
      with CompileImpl_loop_table [OF loop, of name] show ?thesis
        by simp
    next
      case None
      with taken have "\<forall>(g0, n0) \<in> set subgraphs. nd_GetName n0 \<noteq> Inr name"
        by fastforce
      then have "registered_by vendor (hipdnn_handle ep) subgraphs name = None"
        by (simp add: registered_by_None)
      with CompileImpl_loop_table [OF loop, of name] None show ?thesis
        by simp
    qed
  qed
qed

lemma ex_BuildAndCompile_missing:
  "fst (BuildAndCompile (ex_vendor n) ex_graph_missing (Kernel_new 7)) =
     Inl (Error ORT_EP_FAIL ''Input not found in symbol table: W'')"
  by (simp add: BuildAndCompile_def BuildAndCompile_try_def ex_graph_missing_def
      CreateTensorAttr_def bind_res_def call_def Kernel_new_def node_body_def Let_def)

text \<open>
  C1, as the code has it. When \<open>BuildAndCompile\<close> fails on a subgraph of a compile
  request, the call is aborted there and returns that error; the provider and the compute
  infos are left exactly as a successful call over the subgraphs before the failing one
  leaves them. Nothing is rolled back and nothing is registered for the failing subgraph
  or a later one: a name that was registered before the call keeps its Kernel, and any
  other name has the Kernel built from the first of the earlier subgraphs whose fused node
  bears it, or none if there is no such subgraph. One compute info was handed back for
  each earlier subgraph. The table equals the table before the call exactly when the
  name of every earlier subgraph was registered before the call, so in particular when
  the failing subgraph is the first of the request.
\<close>

theorem compile_failure_keeps_earlier_kernels:
  assumes done_ok: "CompileImpl vendor done ep = (Inr (), ep1, infos1)"
    and nodes: "gr_GetNodes g = Inr nodes" "nodes \<noteq> []"
    and fails: "BuildAndCompile vendor g (Kernel_new (hipdnn_handle ep)) = (Inl f, kf)"
  shows "CompileImpl vendor (done @ (g, fused_node) # rest) ep = (Inl f, ep1, infos1) \<and>
         (\<forall>name. GetKernel ep1 name =
            (case GetKernel ep name of
               Some old \<Rightarrow> Some old
             | None \<Rightarrow> registered_by vendor (hipdnn_handle ep) done name)) \<and>
         hipdnn_handle ep1 = hipdnn_handle ep \<and>
         length infos1 = length done \<and>
         (kernels ep1 = kernels ep) =
           (\<forall>(g0, n0) \<in> set done.
              \<exists>name. nd_GetName n0 = Inr name \<and> GetKernel ep name \<noteq> None) \<and>
         (done = [] \<longrightarrow> ep1 = ep)"
proof -
  from done_ok have loop: "CompileImpl_loop vendor done ep [] = (Inr (), ep1, infos1)"
    by (simp add: CompileImpl_success)
  from fails BuildAndCompile_not_Thrown [of vendor g "Kernel_new (hipdnn_handle ep)"]
  have "status_of_exception f = f"
    by (cases f) auto
  moreover from nodes fails have "CompileImpl_body vendor (hipdnn_handle ep) (g, fused_node) = Inl f"
    by (simp add: CompileImpl_body_def)
  ultimately have "CompileImpl vendor (done @ (g, fused_node) # rest) ep = (Inl f, ep1, infos1)"
    using CompileImpl_stops [OF done_ok, of "(g, fused_node)" f rest] by simp
  moreover have "\<forall>name. kernels ep1 name =
      (case kernels ep name of
         Some old \<Rightarrow> Some old
       | None \<Rightarrow> registered_by vendor (hipdnn_handle ep) done name)"
    using CompileImpl_loop_table [OF loop] by blast
  moreover have "hipdnn_handle ep1 = hipdnn_handle ep"
    by (rule CompileImpl_loop_handle [OF loop])
  moreover have "length infos1 = length done"
    using CompileImpl_loop_table [OF loop] by simp
  moreover have "(kernels ep1 = kernels ep) =
      (\<forall>(g0, n0) \<in> set done. \<exists>name. nd_GetName n0 = Inr name \<and> kernels ep name \<noteq> None)"
    by (rule CompileImpl_loop_unchanged [OF loop])
  moreover have "done = [] \<longrightarrow> ep1 = ep"
    using loop by auto
  ultimately show ?thesis
    unfolding GetKernel_def by blast
qed

theorem compile_failure_keeps_earlier_kernels_witness:
  "CompileImpl (ex_vendor 64)
     ([(ex_graph, ex_fused ''conv0'')] @ (ex_graph_missing, ex_fused ''conv1'') # [])  ex_ep =
     (Inl (Error ORT_EP_FAIL ''Input not found in symbol table: W''),
      ex_ep\<lparr>kernels := [''conv0'' \<mapsto> ex_kernel_built 64]\<rparr>, [NodeComputeInfo]) \<and>
   CompileImpl (ex_vendor 64) ([] @ (ex_graph_missing, ex_fused ''conv1'') # []) ex_ep =
     (Inl (Error ORT_EP_FAIL ''Input not found in symbol table: W''), ex_ep, []) \<and>
   CompileImpl (ex_vendor 64)
     ([(ex_graph, ex_fused ''conv0'')] @ (ex_graph_missing, ex_fused ''conv1'') # [])
     ex_ep_registered =
     (Inl (Error ORT_EP_FAIL ''Input not found in symbol table: W''), ex_ep_registered,
      [NodeComputeInfo]) \<and>
   GetKernel ex_ep_registered ''conv0'' = Some (ex_kernel_built 0)"
proof -
  have handles: "hipdnn_handle ex_ep_registered = 7"
    by (simp add: ex_ep_registered_def)
  have fails: "BuildAndCompile (ex_vendor 64) ex_graph_missing (Kernel_new (hipdnn_handle ex_ep)) =
      (Inl (Error ORT_EP_FAIL ''Input not found in symbol table: W''),
       snd (BuildAndCompile (ex_vendor 64) ex_graph_missing (Kernel_new (hipdnn_handle ex_ep))))"
    using ex_BuildAndCompile_missing [of 64]
    by (simp add: prod_eq_iff)
  have nodes: "gr_GetNodes ex_graph_missing = Inr [ex_conv]" "[ex_conv] \<noteq> []"
    by simp_all
  have none: "CompileImpl (ex_vendor 64) [] ex_ep = (Inr (), ex_ep, [])"
    by (simp add: CompileImpl_def)
  have taken: "CompileImpl (ex_vendor 64) [(ex_graph, ex_fused ''conv0'')] ex_ep_registered =
      (Inr (), ex_ep_registered, [NodeComputeInfo])"
    by (simp add: CompileImpl_def ex_CompileImpl_body emplace_def ex_ep_registered_def)
  have "GetKernel ex_ep_registered ''conv0'' = Some (ex_kernel_built 0)"
    by (simp add: GetKernel_def ex_ep_registered_def)
  with compile_failure_keeps_earlier_kernels [OF ex_CompileImpl_first nodes fails]
    compile_failure_keeps_earlier_kernels [OF none nodes fails]
    compile_failure_keeps_earlier_kernels [OF taken nodes fails [unfolded ex_graph_reads(5),
      folded handles]]
  show ?thesis
    by blast
qed

text \<open>
  The wording of the specification for C1 (the table after a failed call equals the table
  before it) does not hold of the code: in a request of two subgraphs of which the second
  does not translate, the Kernel of the first stays registered.
\<close>

theorem partial_compile_counterexample:
  "fst (BuildAndCompile (ex_vendor 64) ex_graph_missing (Kernel_new (hipdnn_handle ex_ep))) =
     Inl (Error ORT_EP_FAIL ''Input not found in symbol table: W'') \<and>
   fst (CompileImpl (ex_vendor 64)
          [(ex_graph, ex_fused ''conv0''), (ex_graph_missing, ex_fused ''conv1'')] ex_ep) =
     Inl (Error ORT_EP_FAIL ''Input not found in symbol table: W'') \<and>
   GetKernel ex_ep ''conv0'' = None \<and>
   GetKernel (fst (snd (CompileImpl (ex_vendor 64)
          [(ex_graph, ex_fused ''conv0''), (ex_graph_missing, ex_fused ''conv1'')] ex_ep)))
     ''conv0'' = Some (ex_kernel_built 64) \<and>
   kernels (fst (snd (CompileImpl (ex_vendor 64)
          [(ex_graph, ex_fused ''conv0''), (ex_graph_missing, ex_fused ''conv1'')] ex_ep))) \<noteq>
     kernels ex_ep"
proof -
  have body: "CompileImpl_body (ex_vendor 64) 7 (ex_graph_missing, ex_fused ''conv1'') =
      Inl (Error ORT_EP_FAIL ''Input not found in symbol table: W'')"
    using ex_BuildAndCompile_missing [of 64]
    by (cases "BuildAndCompile (ex_vendor 64) ex_graph_missing (Kernel_new 7)")
      (simp add: CompileImpl_body_def)
  have run: "CompileImpl (ex_vendor 64)
      [(ex_graph, ex_fused ''conv0''), (ex_graph_missing, ex_fused ''conv1'')] ex_ep =
      (Inl (Error ORT_EP_FAIL ''Input not found in symbol table: W''),
       ex_ep\<lparr>kernels := [''conv0'' \<mapsto> ex_kernel_built 64]\<rparr>, [NodeComputeInfo])"
    by (simp add: CompileImpl_def ex_CompileImpl_body body emplace_def)
  have "[''conv0'' \<mapsto> ex_kernel_built 64] \<noteq> Map.empty"
    by simp
  with run ex_BuildAndCompile_missing [of 64] show ?thesis
    by (simp add: GetKernel_def)
qed

section \<open>Translation: what each loop does when it succeeds\<close>

lemma BuildAndCompile_success:
  assumes "BuildAndCompile vendor g k = (Inr (), k')"
  shows "\<exists>graph_inputs graph_outputs nodes k1 k2 k3.
           gr_GetInputs g = Inr graph_inputs \<and> gr_GetOutputs g = Inr graph_outputs \<and>
           gr_GetNodes g = Inr nodes \<and>
           graph_inputs_loop vendor graph_inputs (k\<lparr>graph := Some \<lparr>g_ops = [], g_calls = []\<rparr>\<rparr>) =
             (Inr (), k1) \<and>
           nodes_loop vendor nodes k1 = (Inr (), k2) \<and>
           graph_outputs_loop graph_outputs k2 = (Inr (), k3) \<and>
           CompileGraph vendor k3 = (Inr (), k')"
proof -
  from assms have body: "BuildAndCompile_try vendor g k = (Inr (), k')"
    by (auto simp add: BuildAndCompile_def split: prod.splits sum.splits failure.splits)
  then show ?thesis
    unfolding BuildAndCompile_try_def Let_def
    by (auto split: sum.splits prod.splits)
qed

lemma CreateTensorAttr_Inr:
  assumes "CreateTensorAttr vendor value_info uid = Inr attr"
  shows "ta_uid attr = uid \<and> vi_GetName value_info = Inr (ta_name attr) \<and>
         GetTensorShape value_info = Inr (Some (ta_dim attr))"
  using assms
  by (auto simp add: CreateTensorAttr_def bind_res_def call_def Let_def
      split: sum.splits if_splits)

lemma graph_inputs_loop_success:
  assumes "graph_inputs_loop vendor graph_inputs k = (Inr (), k1)"
  shows "\<exists>new. length new = length graph_inputs \<and> store k1 = store k @ new \<and>
           map ta_uid new = [next_uid k..next_uid k + int (length graph_inputs) - 1] \<and>
           map (\<lambda>a. Inr (ta_name a)) new = map vi_GetName graph_inputs \<and>
           input_uids k1 = input_uids k @ map ta_uid new \<and>
           next_uid k1 = next_uid k + int (length graph_inputs) \<and>
           graph k1 = graph k \<and> workspace k1 = workspace k \<and> handle k1 = handle k \<and>
           output_uids k1 = output_uids k \<and> output_shapes k1 = output_shapes k"
  using assms
proof (induction graph_inputs arbitrary: k)
  case Nil
  then show ?case by simp
next
  case (Cons input rest)
  from Cons.prems obtain attr name where
    attr: "CreateTensorAttr vendor input (next_uid k) = Inr attr"
    and name: "vi_GetName input = Inr name"
    and loop: "graph_inputs_loop vendor rest
        (k\<lparr>next_uid := next_uid k + 1,
           store := store k @ [attr\<lparr>ta_is_virtual := False\<rparr>],
           symbol_table := (symbol_table k)(name \<mapsto> length (store k)),
           input_uids := input_uids k @ [ta_uid attr]\<rparr>) = (Inr (), k1)"
    by (auto simp add: Let_def split: sum.splits)
  from Cons.IH [OF loop] obtain new where new:
    "length new = length rest"
    "store k1 = (store k @ [attr\<lparr>ta_is_virtual := False\<rparr>]) @ new"
    "map ta_uid new = [next_uid k + 1..next_uid k + 1 + int (length rest) - 1]"
    "map (\<lambda>a. Inr (ta_name a)) new = map vi_GetName rest"
    "input_uids k1 = (input_uids k @ [ta_uid attr]) @ map ta_uid new"
    "next_uid k1 = next_uid k + 1 + int (length rest)"
    "graph k1 = graph k" "workspace k1 = workspace k" "handle k1 = handle k"
    "output_uids k1 = output_uids k" "output_shapes k1 = output_shapes k"
    by auto
  from CreateTensorAttr_Inr [OF attr] name have attr_facts:
    "ta_uid attr = next_uid k" "ta_name attr = name"
    by auto
  have "[next_uid k..next_uid k + int (length (input # rest)) - 1] =
        next_uid k # [next_uid k + 1..next_uid k + 1 + int (length rest) - 1]"
    by (simp add: upto_rec1 add.commute add.left_commute)
  with new attr_facts name show ?case
    by (intro exI [of _ "attr\<lparr>ta_is_virtual := False\<rparr> # new"]) simp
qed

lemma AddNode_success:
  assumes "AddNode vendor node input_attrs k = (Inr output_attrs, k1)"
  shows "\<exists>g op y. graph k = Some g \<and> output_attrs = [length (store k)] \<and>
           k1 = k\<lparr>graph := Some (g\<lparr>g_ops := g_ops g @ [op]\<rparr>), store := store k @ [y]\<rparr>"
  using assms
  by (auto simp add: AddNode_def AddConvNode_def Let_def
      split: sum.splits if_splits option.splits prod.splits)

lemma node_outputs_loop_single:
  assumes "node_outputs_loop [a] node_outputs k1 = (Inr (), k')"
    and "length node_outputs = 1"
  shows "\<exists>out name dtype shape.
           node_outputs = [out] \<and> vi_GetName out = Inr name \<and>
           GetTensorShape out = Inr (Some shape) \<and>
           k' = k1\<lparr>store := (store k1)[a := (store k1 ! a)
                              \<lparr>ta_uid := next_uid k1, ta_name := name, ta_data_type := dtype,
                               ta_dim := shape, ta_stride := ComputeStrides shape\<rparr>],
                   next_uid := next_uid k1 + 1,
                   symbol_table := (symbol_table k1)(name \<mapsto> a)\<rparr>"
proof -
  from assms(2) obtain out where out: "node_outputs = [out]"
    by (cases node_outputs) auto
  with assms(1) show ?thesis
    by (auto split: sum.splits option.splits)
qed

lemma node_body_success:
  assumes "node_body vendor node k = (Inr (), k')"
  shows "\<exists>g ops out y name.
           graph k = Some g \<and> graph k' = Some (g\<lparr>g_ops := ops\<rparr>) \<and>
           nd_GetOutputs node = Inr [out] \<and> vi_GetName out = Inr name \<and>
           store k' = store k @ [y] \<and> ta_uid y = next_uid k \<and> ta_name y = name \<and>
           GetTensorShape out = Inr (Some (ta_dim y)) \<and>
           next_uid k' = next_uid k + 1 \<and>
           symbol_table k' = (symbol_table k)(name \<mapsto> length (store k)) \<and>
           input_uids k' = input_uids k \<and> output_uids k' = output_uids k \<and>
           output_shapes k' = output_shapes k \<and> workspace k' = workspace k \<and>
           handle k' = handle k"
proof -
  from assms obtain node_inputs input_attrs output_attrs k1 node_outputs where
    add: "AddNode vendor node input_attrs k = (Inr output_attrs, k1)"
    and outs: "nd_GetOutputs node = Inr node_outputs"
    and len: "length output_attrs = length node_outputs"
    and tag: "node_outputs_loop output_attrs node_outputs k1 = (Inr (), k')"
    by (auto simp add: node_body_def split: sum.splits prod.splits if_splits)
  from AddNode_success [OF add] obtain g op y where
    g: "graph k = Some g" and attrs: "output_attrs = [length (store k)]"
    and k1: "k1 = k\<lparr>graph := Some (g\<lparr>g_ops := g_ops g @ [op]\<rparr>), store := store k @ [y]\<rparr>"
    by blast
  from len attrs have "length node_outputs = 1"
    by simp
  from node_outputs_loop_single [OF tag [unfolded attrs] this] obtain out name dtype shape where
    out: "node_outputs = [out]" "vi_GetName out = Inr name" "GetTensorShape out = Inr (Some shape)"
    and k': "k' = k1\<lparr>store := (store k1)[length (store k) := (store k1 ! length (store k))
                              \<lparr>ta_uid := next_uid k1, ta_name := name, ta_data_type := dtype,
                               ta_dim := shape, ta_stride := ComputeStrides shape\<rparr>],
                   next_uid := next_uid k1 + 1,
                   symbol_table := (symbol_table k1)(name \<mapsto> length (store k))\<rparr>"
    by blast
  from g outs out k1 k' show ?thesis
    by (intro exI [of _ g] exI [of _ "g_ops g @ [op]"] exI [of _ out]
        exI [of _ "y\<lparr>ta_uid := next_uid k, ta_name := name, ta_data_type := dtype,
                     ta_dim := shape, ta_stride := ComputeStrides shape\<rparr>"] exI [of _ name])
      simp
qed

lemma nodes_loop_success:
  assumes "nodes_loop vendor nodes k = (Inr (), k2)"
  shows "\<exists>new. length new = length nodes \<and> store k2 = store k @ new \<and>
           map ta_uid new = [next_uid k..next_uid k + int (length nodes) - 1] \<and>
           next_uid k2 = next_uid k + int (length nodes) \<and>
           sum_list (map node_output_count nodes) = length nodes \<and>
           input_uids k2 = input_uids k \<and> output_uids k2 = output_uids k \<and>
           output_shapes k2 = output_shapes k \<and> workspace k2 = workspace k \<and>
           handle k2 = handle k \<and> calls_of k2 = calls_of k"
  using assms
proof (induction nodes arbitrary: k)
  case Nil
  then show ?case by simp
next
  case (Cons node rest)
  from Cons.prems obtain k1 where
    body: "node_body vendor node k = (Inr (), k1)"
    and loop: "nodes_loop vendor rest k1 = (Inr (), k2)"
    by (auto split: sum.splits prod.splits)
  from node_body_success [OF body] obtain g ops out y where first:
    "graph k = Some g" "graph k1 = Some (g\<lparr>g_ops := ops\<rparr>)" "nd_GetOutputs node = Inr [out]"
    "store k1 = store k @ [y]" "ta_uid y = next_uid k" "next_uid k1 = next_uid k + 1"
    "input_uids k1 = input_uids k" "output_uids k1 = output_uids k"
    "output_shapes k1 = output_shapes k" "workspace k1 = workspace k" "handle k1 = handle k"
    by blast
  from Cons.IH [OF loop] obtain new where new:
    "length new = length rest" "store k2 = store k1 @ new"
    "map ta_uid new = [next_uid k1..next_uid k1 + int (length rest) - 1]"
    "next_uid k2 = next_uid k1 + int (length rest)"
    "sum_list (map node_output_count rest) = length rest"
    "input_uids k2 = input_uids k1" "output_uids k2 = output_uids k1"
    "output_shapes k2 = output_shapes k1" "workspace k2 = workspace k1"
    "handle k2 = handle k1" "calls_of k2 = calls_of k1"
    by blast
  have "[next_uid k..next_uid k + int (length (node # rest)) - 1] =
        next_uid k # [next_uid k + 1..next_uid k + 1 + int (length rest) - 1]"
    by (simp add: upto_rec1 add.commute add.left_commute)
  moreover from first have "node_output_count node = 1"
    by (simp add: node_output_count_def)
  ultimately show ?case
    using first new
    by (intro exI [of _ "y # new"]) (simp add: calls_of_def)
qed

lemma map_update_same: "f y = f (xs ! a) \<Longrightarrow> map f (xs[a := y]) = map f xs"
proof (rule nth_equalityI)
  show "length (map f (xs[a := y])) = length (map f xs)"
    by simp
next
  fix i
  assume same: "f y = f (xs ! a)" and "i < length (map f (xs[a := y]))"
  then have "i < length xs"
    by simp
  with same show "map f (xs[a := y]) ! i = map f xs ! i"
    by (cases "i = a") simp_all
qed

lemma graph_outputs_loop_keeps:
  assumes "graph_outputs_loop graph_outputs k = (Inr (), k3)"
  shows "map ta_uid (store k3) = map ta_uid (store k) \<and>
         map ta_name (store k3) = map ta_name (store k) \<and>
         next_uid k3 = next_uid k \<and> input_uids k3 = input_uids k \<and>
         symbol_table k3 = symbol_table k \<and> graph k3 = graph k \<and>
         workspace k3 = workspace k \<and> handle k3 = handle k"
  using assms
proof (induction graph_outputs arbitrary: k)
  case Nil
  then show ?case by simp
next
  case (Cons out rest)
  from Cons.prems obtain name attr shape where
    "vi_GetName out = Inr name" "symbol_table k name = Some attr"
    and loop: "graph_outputs_loop rest
        (k\<lparr>store := (store k)[attr := (store k ! attr)\<lparr>ta_is_virtual := False\<rparr>],
           output_uids := output_uids k @ [ta_uid (store k ! attr)],
           output_shapes := output_shapes k @ [shape]\<rparr>) = (Inr (), k3)"
    by (auto simp add: Let_def split: sum.splits option.splits)
  from Cons.IH [OF loop] show ?case
    by (simp add: map_update_same)
qed

section \<open>UIDs\<close>

lemma upto_append: "0 \<le> a \<Longrightarrow> 0 \<le> b \<Longrightarrow> [1..a + b] = [1..a] @ [a + 1..a + b]"
proof (cases "a = 0")
  case True
  then show ?thesis by simp
next
  case False
  assume "0 \<le> a" "0 \<le> b"
  with False upto_split2 [of 1 a "a + b"] show ?thesis
    by simp
qed

lemma uids_after_translation:
  assumes "BuildAndCompile vendor g (Kernel_new h) = (Inr (), k')"
  shows "assigned_uids k' = [1..int (tensor_count g)] \<and>
         next_uid k' = int (tensor_count g) + 1"
proof -
  from BuildAndCompile_success [OF assms] obtain graph_inputs graph_outputs nodes k1 k2 k3 where
    reads: "gr_GetInputs g = Inr graph_inputs" "gr_GetNodes g = Inr nodes"
    and l1: "graph_inputs_loop vendor graph_inputs
               ((Kernel_new h)\<lparr>graph := Some \<lparr>g_ops = [], g_calls = []\<rparr>\<rparr>) = (Inr (), k1)"
    and l2: "nodes_loop vendor nodes k1 = (Inr (), k2)"
    and l3: "graph_outputs_loop graph_outputs k2 = (Inr (), k3)"
    and l4: "CompileGraph vendor k3 = (Inr (), k')"
    by blast
  from graph_inputs_loop_success [OF l1] obtain new1 where new1:
    "store k1 = new1" "map ta_uid new1 = [1..int (length graph_inputs)]"
    "next_uid k1 = 1 + int (length graph_inputs)"
    by (auto simp add: Kernel_new_def)
  from nodes_loop_success [OF l2] obtain new2 where new2:
    "store k2 = store k1 @ new2"
    "map ta_uid new2 = [next_uid k1..next_uid k1 + int (length nodes) - 1]"
    "next_uid k2 = next_uid k1 + int (length nodes)"
    "sum_list (map node_output_count nodes) = length nodes"
    by blast
  from reads new2(4) have count: "tensor_count g = length graph_inputs + length nodes"
    by (simp add: tensor_count_def)
  have "[1..int (length graph_inputs) + int (length nodes)] =
        [1..int (length graph_inputs)] @
        [int (length graph_inputs) + 1..int (length graph_inputs) + int (length nodes)]"
    by (rule upto_append) simp_all
  with new1 new2 count have "map ta_uid (store k2) = [1..int (tensor_count g)]"
    by (simp add: add.commute)
  with graph_outputs_loop_keeps [OF l3] CompileGraph_keeps [OF l4] new1 new2 count
  show ?thesis
    by (simp add: assigned_uids_def)
qed

text \<open>
  C4. The UID counter of a new Kernel starts at 1. After \<open>BuildAndCompile\<close> succeeds
  on a subgraph with N tensor values (graph inputs plus node outputs), the tensor
  attribute objects of the Kernel carry, in creation order, exactly the UIDs 1, 2, ..., N:
  N of them, pairwise distinct, strictly increasing, all at least 1 (and at most N, so
  within the 64-bit range for every graph that fits in memory), and the counter stands
  at N + 1.
\<close>

theorem uids_unique_and_increasing:
  assumes "BuildAndCompile vendor g (Kernel_new h) = (Inr (), k')"
  shows "next_uid (Kernel_new h) = 1 \<and>
         assigned_uids k' = [1..int (tensor_count g)] \<and>
         length (assigned_uids k') = tensor_count g \<and>
         distinct (assigned_uids k') \<and>
         sorted_wrt (<) (assigned_uids k') \<and>
         (\<forall>uid \<in> set (assigned_uids k'). 1 \<le> uid \<and> uid \<le> int (tensor_count g)) \<and>
         next_uid k' = int (tensor_count g) + 1"
proof -
  from uids_after_translation [OF assms] have uids:
    "assigned_uids k' = [1..int (tensor_count g)]" "next_uid k' = int (tensor_count g) + 1"
    by simp_all
  have "sorted_wrt (<) [1..int (tensor_count g)]"
    by (simp add: strict_sorted_iff)
  with uids show ?thesis
    by (simp add: Kernel_new_def)
qed

theorem uids_unique_and_increasing_witness:
  "tensor_count ex_graph = 3 \<and>
   assigned_uids (snd (BuildAndCompile (ex_vendor 64) ex_graph (Kernel_new 7))) = [1, 2, 3] \<and>
   next_uid (snd (BuildAndCompile (ex_vendor 64) ex_graph (Kernel_new 7))) = 4"
proof -
  have count: "tensor_count ex_graph = 3"
    by (simp add: tensor_count_def ex_graph_def node_output_count_def)
  have "[1..3] = [1, 2, 3::int]"
    by (simp add: upto_rec1)
  with uids_unique_and_increasing [OF ex_BuildAndCompile [of 64]] count show ?thesis
    by (simp add: ex_BuildAndCompile)
qed

section \<open>Definition before use\<close>

lemma graph_inputs_loop_calls:
  "graph (snd (graph_inputs_loop vendor graph_inputs k)) = graph k"
  by (induction graph_inputs arbitrary: k) (auto simp add: Let_def split: sum.splits)

lemma node_outputs_loop_calls:
  "graph (snd (node_outputs_loop output_attrs node_outputs k)) = graph k"
  by (induction output_attrs node_outputs k rule: node_outputs_loop.induct)
    (auto split: sum.splits option.splits)

lemma AddNode_calls_snd: "calls_of (snd (AddNode vendor node input_attrs k)) = calls_of k"
  by (auto simp add: AddNode_def AddConvNode_def Let_def calls_of_def
      split: sum.splits if_splits option.splits prod.splits)

lemma AddNode_calls:
  "AddNode vendor node input_attrs k = (r, k1) \<Longrightarrow> calls_of k1 = calls_of k"
  using AddNode_calls_snd [of vendor node input_attrs k] by simp

lemma node_outputs_loop_calls_of:
  "node_outputs_loop output_attrs node_outputs k1 = (r, k2) \<Longrightarrow> calls_of k2 = calls_of k1"
  using node_outputs_loop_calls [of output_attrs node_outputs k1]
  by (simp add: calls_of_def)

lemma node_body_calls:
  assumes "node_body vendor node k = (r, k')"
  shows "calls_of k' = calls_of k"
proof (cases "nd_GetInputs node")
  case (Inl e)
  with assms show ?thesis
    by (simp add: node_body_def)
next
  case ins: (Inr node_inputs)
  show ?thesis
  proof (cases "lookup_inputs (symbol_table k) node_inputs []")
    case (Inl f)
    with assms ins show ?thesis
      by (simp add: node_body_def)
  next
    case found: (Inr input_attrs)
    obtain r1 k1 where add: "AddNode vendor node input_attrs k = (r1, k1)"
      by (cases "AddNode vendor node input_attrs k")
    from AddNode_calls [OF add] have k1: "calls_of k1 = calls_of k" .
    show ?thesis
    proof (cases r1)
      case (Inl f)
      with assms ins found add k1 show ?thesis
        by (simp add: node_body_def)
    next
      case added: (Inr output_attrs)
      show ?thesis
      proof (cases "nd_GetOutputs node")
        case (Inl e)
        with assms ins found add added k1 show ?thesis
          by (simp add: node_body_def)
      next
        case outs: (Inr node_outputs)
        show ?thesis
        proof (cases "length output_attrs = length node_outputs")
          case True
          with assms ins found add added outs
          have "node_outputs_loop output_attrs node_outputs k1 = (r, k')"
            by (simp add: node_body_def)
          from node_outputs_loop_calls_of [OF this] k1 show ?thesis
            by simp
        next
          case False
          with assms ins found add added outs k1 show ?thesis
            by (cases "nd_GetName node") (simp_all add: node_body_def)
        qed
      qed
    qed
  qed
qed

lemma nodes_loop_calls:
  "nodes_loop vendor nodes k = (r, k') \<Longrightarrow> calls_of k' = calls_of k"
proof (induction nodes arbitrary: k)
  case Nil
  then show ?case by simp
next
  case (Cons node rest)
  obtain r1 k1 where body: "node_body vendor node k = (r1, k1)"
    by (cases "node_body vendor node k")
  from node_body_calls [OF body] have "calls_of k1 = calls_of k" .
  with Cons.prems body Cons.IH [of k1] show ?case
    by (cases r1) auto
qed

lemma graph_inputs_loop_names:
  assumes "graph_inputs_loop vendor graph_inputs k = (Inr (), k1)"
  shows "dom (symbol_table k1) \<subseteq> dom (symbol_table k) \<union> set (names_of graph_inputs)"
  using assms
proof (induction graph_inputs arbitrary: k)
  case Nil
  then show ?case by simp
next
  case (Cons input rest)
  from Cons.prems obtain attr name where
    name: "vi_GetName input = Inr name"
    and loop: "graph_inputs_loop vendor rest
        (k\<lparr>next_uid := next_uid k + 1,
           store := store k @ [attr\<lparr>ta_is_virtual := False\<rparr>],
           symbol_table := (symbol_table k)(name \<mapsto> length (store k)),
           input_uids := input_uids k @ [ta_uid attr]\<rparr>) = (Inr (), k1)"
    by (auto simp add: Let_def split: sum.splits)
  from Cons.IH [OF loop] name show ?case
    by (auto simp add: names_of_def)
qed

lemma lookup_inputs_success:
  assumes "lookup_inputs table node_inputs input_attrs = Inr found"
  shows "set (names_of node_inputs) \<subseteq> dom table"
  using assms
  by (induction node_inputs arbitrary: input_attrs)
    (auto simp add: names_of_def split: sum.splits option.splits)

lemma lookup_inputs_missing:
  assumes "\<forall>u \<in> set before. \<exists>n. vi_GetName u = Inr n \<and> table n \<noteq> None"
    and "vi_GetName v = Inr name" and "table name = None"
  shows "lookup_inputs table (before @ v # after) input_attrs =
           Inl (Error ORT_EP_FAIL (''Input not found in symbol table: '' @ name))"
  using assms
  by (induction before arbitrary: input_attrs) auto

lemma node_body_names:
  assumes "node_body vendor node k = (Inr (), k')"
  shows "set (node_input_names node) \<subseteq> dom (symbol_table k) \<and>
         dom (symbol_table k') \<subseteq> dom (symbol_table k) \<union> set (node_output_names node)"
proof -
  from assms obtain node_inputs input_attrs where
    "nd_GetInputs node = Inr node_inputs"
    "lookup_inputs (symbol_table k) node_inputs [] = Inr input_attrs"
    by (auto simp add: node_body_def split: sum.splits)
  with lookup_inputs_success [of "symbol_table k" node_inputs "[]" input_attrs]
  have "set (node_input_names node) \<subseteq> dom (symbol_table k)"
    by (simp add: node_input_names_def)
  moreover from node_body_success [OF assms] obtain out name where
    "nd_GetOutputs node = Inr [out]" "vi_GetName out = Inr name"
    "symbol_table k' = (symbol_table k)(name \<mapsto> length (store k))"
    by blast
  then have "dom (symbol_table k') \<subseteq> dom (symbol_table k) \<union> set (node_output_names node)"
    by (auto simp add: node_output_names_def names_of_def)
  ultimately show ?thesis
    by simp
qed

lemma nodes_loop_undefined_name:
  assumes "uses_undefined_name defined nodes" and "dom (symbol_table k) \<subseteq> set defined"
  shows "fst (nodes_loop vendor nodes k) \<noteq> Inr ()"
  using assms
proof (induction nodes arbitrary: k defined)
  case Nil
  then show ?case by simp
next
  case (Cons node rest)
  show ?case
  proof (cases "node_body vendor node k")
    case (Pair r k1)
    show ?thesis
    proof (cases r)
      case (Inl f)
      with Pair show ?thesis by simp
    next
      case (Inr u)
      with Pair have ok: "node_body vendor node k = (Inr (), k1)"
        by simp
      from node_body_names [OF ok] Cons.prems(2) have
        inputs: "set (node_input_names node) \<subseteq> set defined"
        by blast
      from node_body_names [OF ok] Cons.prems(2) have
        table: "dom (symbol_table k1) \<subseteq> set (defined @ node_output_names node)"
        by (simp add: subset_iff) blast
      from inputs Cons.prems(1) have "uses_undefined_name (defined @ node_output_names node) rest"
        by (auto simp add: list_ex_iff)
      from Cons.IH [OF this table] ok show ?thesis
        by simp
    qed
  qed
qed

lemma nodes_loop_append:
  assumes "nodes_loop vendor before k1 = (Inr (), k2)"
  shows "nodes_loop vendor (before @ rest) k1 = nodes_loop vendor rest k2"
  using assms
  by (induction before arbitrary: k1) (auto split: sum.splits prod.splits)

text \<open>
  C7. The inputs of a node are looked up in the symbol table before the node is added,
  in one pass over the nodes in graph order. When the lookup reaches an input name that is
  not in the table, the node is not translated: the loop body returns the error
  "Input not found in symbol table: <name>" and leaves the Kernel as it was, and
  \<open>BuildAndCompile\<close> returns that error with the Kernel as the earlier nodes left
  it. When some node of a subgraph declares an input name that is neither a declared graph
  input nor the output of an earlier node, \<open>BuildAndCompile\<close> on a new Kernel does
  not succeed and no vendor build stage is run: it returns an error status, unless the
  translation of an earlier node has already left defined behaviour (the unchecked read of
  a strides or dilations attribute with fewer than two elements).
\<close>

theorem undefined_input_fails_translation:
  assumes "gr_GetInputs g = Inr graph_inputs" and "gr_GetNodes g = Inr nodes"
    and "uses_undefined_name (names_of graph_inputs) nodes"
    and "BuildAndCompile vendor g (Kernel_new h) = (r, k')"
  shows "((\<exists>code message. r = Inl (Error code message)) \<or> r = Inl Undefined) \<and>
         calls_of k' = [] \<and>
         (\<forall>node k before v after name.
            nd_GetInputs node = Inr (before @ v # after) \<and>
            (\<forall>u \<in> set before. \<exists>n. vi_GetName u = Inr n \<and> symbol_table k n \<noteq> None) \<and>
            vi_GetName v = Inr name \<and> symbol_table k name = None \<longrightarrow>
            node_body vendor node k =
              (Inl (Error ORT_EP_FAIL (''Input not found in symbol table: '' @ name)), k)) \<and>
         (\<forall>graph_outputs earlier node later k1 k2 before v after name.
            gr_GetOutputs g = Inr graph_outputs \<and> nodes = earlier @ node # later \<and>
            graph_inputs_loop vendor graph_inputs
              ((Kernel_new h)\<lparr>graph := Some \<lparr>g_ops = [], g_calls = []\<rparr>\<rparr>) = (Inr (), k1) \<and>
            nodes_loop vendor earlier k1 = (Inr (), k2) \<and>
            nd_GetInputs node = Inr (before @ v # after) \<and>
            (\<forall>u \<in> set before. \<exists>n. vi_GetName u = Inr n \<and> symbol_table k2 n \<noteq> None) \<and>
            vi_GetName v = Inr name \<and> symbol_table k2 name = None \<longrightarrow>
            r = Inl (Error ORT_EP_FAIL (''Input not found in symbol table: '' @ name)) \<and>
            k' = k2)"
proof -
  let ?k0 = "(Kernel_new h)\<lparr>graph := Some \<lparr>g_ops = [], g_calls = []\<rparr>\<rparr>"
  have k0: "calls_of ?k0 = []" "symbol_table ?k0 = Map.empty"
    by (simp_all add: calls_of_def Kernel_new_def)
  obtain r0 where body: "BuildAndCompile_try vendor g (Kernel_new h) = (r0, k')"
    and r: "r = (case r0 of Inl (Thrown e) \<Rightarrow>
                   Inl (Error ORT_EP_FAIL (''Exception building hipDNN graph: '' @ what e))
                 | _ \<Rightarrow> r0)"
    using assms(4)
    by (auto simp add: BuildAndCompile_def split: prod.splits sum.splits failure.splits)
  have early: "\<exists>f. r0 = Inl f" and no_calls: "calls_of k' = []"
  proof -
    have "(\<exists>f. r0 = Inl f) \<and> calls_of k' = []"
    proof (cases "gr_GetOutputs g")
      case (Inl e)
      with body assms(1) have "(r0, k') = (Inl (Thrown e), ?k0)"
        by (simp add: BuildAndCompile_try_def Let_def)
      with k0 show ?thesis
        by simp
    next
      case outs: (Inr graph_outputs)
      obtain r1 k1 where l1: "graph_inputs_loop vendor graph_inputs ?k0 = (r1, k1)"
        by (cases "graph_inputs_loop vendor graph_inputs ?k0")
      with graph_inputs_loop_calls [of vendor graph_inputs ?k0] k0 have c1: "calls_of k1 = []"
        by (simp add: calls_of_def)
      show ?thesis
      proof (cases r1)
        case (Inl f)
        with body assms(1) outs l1 have "(r0, k') = (Inl f, k1)"
          by (simp add: BuildAndCompile_try_def Let_def)
        with c1 show ?thesis
          by simp
      next
        case (Inr u)
        with l1 have ok1: "graph_inputs_loop vendor graph_inputs ?k0 = (Inr (), k1)"
          by simp
        from graph_inputs_loop_names [OF ok1] k0 have
          "dom (symbol_table k1) \<subseteq> set (names_of graph_inputs)"
          by simp
        from nodes_loop_undefined_name [OF assms(3) this, of vendor]
        obtain f k2 where l2: "nodes_loop vendor nodes k1 = (Inl f, k2)"
          by (cases "nodes_loop vendor nodes k1"; cases "fst (nodes_loop vendor nodes k1)") auto
        with nodes_loop_calls [of vendor nodes k1] c1 have c2: "calls_of k2 = []"
          by simp
        from body assms(1,2) outs ok1 l2 have "(r0, k') = (Inl f, k2)"
          by (simp add: BuildAndCompile_try_def Let_def)
        with c2 show ?thesis
          by simp
      qed
    qed
    then show "\<exists>f. r0 = Inl f" and "calls_of k' = []"
      by simp_all
  qed
  from early obtain f where f: "r0 = Inl f"
    by blast
  have at_node: "node_body vendor node k =
      (Inl (Error ORT_EP_FAIL (''Input not found in symbol table: '' @ name)), k)"
    if "nd_GetInputs node = Inr (before @ v # after)"
      and "\<forall>u \<in> set before. \<exists>n. vi_GetName u = Inr n \<and> symbol_table k n \<noteq> None"
      and "vi_GetName v = Inr name" and "symbol_table k name = None"
    for node k before v after name
    using that lookup_inputs_missing [of before "symbol_table k" v name after "[]"]
    by (simp add: node_body_def)
  have reached: "r = Inl (Error ORT_EP_FAIL (''Input not found in symbol table: '' @ name)) \<and>
      k' = k2"
    if outs: "gr_GetOutputs g = Inr graph_outputs" and decomp: "nodes = earlier @ node # later"
      and l1: "graph_inputs_loop vendor graph_inputs ?k0 = (Inr (), k1)"
      and l2: "nodes_loop vendor earlier k1 = (Inr (), k2)"
      and node: "nd_GetInputs node = Inr (before @ v # after)"
        "\<forall>u \<in> set before. \<exists>n. vi_GetName u = Inr n \<and> symbol_table k2 n \<noteq> None"
        "vi_GetName v = Inr name" "symbol_table k2 name = None"
    for graph_outputs earlier node later k1 k2 before v after name
  proof -
    from at_node [OF node] nodes_loop_append [OF l2, of "node # later"] decomp
    have "nodes_loop vendor nodes k1 =
        (Inl (Error ORT_EP_FAIL (''Input not found in symbol table: '' @ name)), k2)"
      by simp
    with body assms(1,2) outs l1
    have "(r0, k') = (Inl (Error ORT_EP_FAIL (''Input not found in symbol table: '' @ name)), k2)"
      by (simp add: BuildAndCompile_try_def Let_def)
    with r show ?thesis
      by simp
  qed
  show ?thesis
  proof (intro conjI)
    show "(\<exists>code message. r = Inl (Error code message)) \<or> r = Inl Undefined"
      using r f by (cases f) simp_all
    show "calls_of k' = []"
      by (rule no_calls)
    show "\<forall>node k before v after name.
        nd_GetInputs node = Inr (before @ v # after) \<and>
        (\<forall>u \<in> set before. \<exists>n. vi_GetName u = Inr n \<and> symbol_table k n \<noteq> None) \<and>
        vi_GetName v = Inr name \<and> symbol_table k name = None \<longrightarrow>
        node_body vendor node k =
          (Inl (Error ORT_EP_FAIL (''Input not found in symbol table: '' @ name)), k)"
      using at_node by blast
    show "\<forall>graph_outputs earlier node later k1 k2 before v after name.
        gr_GetOutputs g = Inr graph_outputs \<and> nodes = earlier @ node # later \<and>
        graph_inputs_loop vendor graph_inputs ?k0 = (Inr (), k1) \<and>
        nodes_loop vendor earlier k1 = (Inr (), k2) \<and>
        nd_GetInputs node = Inr (before @ v # after) \<and>
        (\<forall>u \<in> set before. \<exists>n. vi_GetName u = Inr n \<and> symbol_table k2 n \<noteq> None) \<and>
        vi_GetName v = Inr name \<and> symbol_table k2 name = None \<longrightarrow>
        r = Inl (Error ORT_EP_FAIL (''Input not found in symbol table: '' @ name)) \<and>
        k' = k2"
      using reached by blast
  qed
qed

theorem undefined_input_fails_translation_witness:
  "uses_undefined_name (names_of [ex_X]) [ex_conv] \<and>
   fst (BuildAndCompile (ex_vendor 64) ex_graph_missing (Kernel_new 7)) =
     Inl (Error ORT_EP_FAIL ''Input not found in symbol table: W'') \<and>
   calls_of (snd (BuildAndCompile (ex_vendor 64) ex_graph_missing (Kernel_new 7))) = []"
proof -
  have undefined_name: "uses_undefined_name (names_of [ex_X]) [ex_conv]"
    by (simp add: names_of_def node_input_names_def)
  have reads: "gr_GetInputs ex_graph_missing = Inr [ex_X]"
    "gr_GetNodes ex_graph_missing = Inr [ex_conv]"
    by (simp_all add: ex_graph_missing_def)
  have run: "BuildAndCompile (ex_vendor 64) ex_graph_missing (Kernel_new 7) =
      (fst (BuildAndCompile (ex_vendor 64) ex_graph_missing (Kernel_new 7)),
       snd (BuildAndCompile (ex_vendor 64) ex_graph_missing (Kernel_new 7)))"
    by simp
  from undefined_input_fails_translation [OF reads undefined_name run]
    ex_BuildAndCompile_missing [of 64] undefined_name
  show ?thesis
    by simp
qed

section \<open>Order contracts\<close>

lemma table_wf_new: "table_wf ((Kernel_new h)\<lparr>graph := gr\<rparr>)"
  by (simp add: table_wf_def Kernel_new_def)

lemma table_wf_step:
  assumes "table_wf k" and "ta_name y = name"
    and "store k' = store k @ [y]"
    and "symbol_table k' = (symbol_table k)(name \<mapsto> length (store k))"
  shows "table_wf k'"
  unfolding table_wf_def
proof (intro allI impI)
  fix n a
  assume entry: "symbol_table k' n = Some a"
  show "a < length (store k') \<and> ta_name (store k' ! a) = n"
  proof (cases "n = name")
    case True
    with entry assms(4) have "a = length (store k)"
      by simp
    with True assms(2,3) show ?thesis
      by simp
  next
    case False
    with entry assms(4) have "symbol_table k n = Some a"
      by simp
    with assms(1) have "a < length (store k)" "ta_name (store k ! a) = n"
      by (simp_all add: table_wf_def)
    with assms(3) show ?thesis
      by (simp add: nth_append)
  qed
qed

lemma graph_inputs_loop_table_wf:
  assumes "graph_inputs_loop vendor graph_inputs k = (Inr (), k1)" and "table_wf k"
  shows "table_wf k1"
  using assms
proof (induction graph_inputs arbitrary: k)
  case Nil
  then show ?case by simp
next
  case (Cons input rest)
  from Cons.prems(1) obtain attr name where
    attr: "CreateTensorAttr vendor input (next_uid k) = Inr attr"
    and name: "vi_GetName input = Inr name"
    and loop: "graph_inputs_loop vendor rest
        (k\<lparr>next_uid := next_uid k + 1,
           store := store k @ [attr\<lparr>ta_is_virtual := False\<rparr>],
           symbol_table := (symbol_table k)(name \<mapsto> length (store k)),
           input_uids := input_uids k @ [ta_uid attr]\<rparr>) = (Inr (), k1)"
    by (auto simp add: Let_def split: sum.splits)
  from CreateTensorAttr_Inr [OF attr] name have "ta_name (attr\<lparr>ta_is_virtual := False\<rparr>) = name"
    by simp
  from table_wf_step [OF Cons.prems(2) this] have
    "table_wf (k\<lparr>next_uid := next_uid k + 1,
           store := store k @ [attr\<lparr>ta_is_virtual := False\<rparr>],
           symbol_table := (symbol_table k)(name \<mapsto> length (store k)),
           input_uids := input_uids k @ [ta_uid attr]\<rparr>)"
    by simp
  from Cons.IH [OF loop this] show ?case .
qed

lemma node_body_table_wf:
  assumes "node_body vendor node k = (Inr (), k')" and "table_wf k"
  shows "table_wf k'"
proof -
  from node_body_success [OF assms(1)] obtain y name where
    "store k' = store k @ [y]" "ta_name y = name"
    "symbol_table k' = (symbol_table k)(name \<mapsto> length (store k))"
    by blast
  with table_wf_step [OF assms(2), of y name k'] show ?thesis
    by simp
qed

lemma nodes_loop_table_wf:
  assumes "nodes_loop vendor nodes k = (Inr (), k2)" and "table_wf k"
  shows "table_wf k2"
  using assms
proof (induction nodes arbitrary: k)
  case Nil
  then show ?case by simp
next
  case (Cons node rest)
  from Cons.prems(1) obtain k1 where
    body: "node_body vendor node k = (Inr (), k1)"
    and loop: "nodes_loop vendor rest k1 = (Inr (), k2)"
    by (auto split: sum.splits prod.splits)
  from Cons.IH [OF loop node_body_table_wf [OF body Cons.prems(2)]] show ?case .
qed

lemma nth_of_map_eq:
  assumes "map f xs = map f ys" and "i < length xs"
  shows "f (xs ! i) = f (ys ! i)"
proof -
  from assms(1) have len: "length xs = length ys"
    using map_eq_imp_length_eq by blast
  from assms(1) have "map f xs ! i = map f ys ! i"
    by simp
  with assms(2) len show ?thesis
    by simp
qed

lemma graph_outputs_loop_outputs:
  assumes "graph_outputs_loop graph_outputs k = (Inr (), k3)" and "table_wf k"
  shows "\<exists>attrs shapes.
           length attrs = length graph_outputs \<and> length shapes = length graph_outputs \<and>
           output_uids k3 = output_uids k @ map (\<lambda>a. ta_uid (store k ! a)) attrs \<and>
           output_shapes k3 = output_shapes k @ shapes \<and>
           (\<forall>i<length graph_outputs. \<exists>name.
              vi_GetName (graph_outputs ! i) = Inr name \<and>
              symbol_table k name = Some (attrs ! i) \<and>
              GetTensorShape (graph_outputs ! i) = Inr (Some (shapes ! i)))"
  using assms
proof (induction graph_outputs arbitrary: k)
  case Nil
  then show ?case by simp
next
  case (Cons out rest)
  let ?mid = "\<lambda>attr shape.
      k\<lparr>store := (store k)[attr := (store k ! attr)\<lparr>ta_is_virtual := False\<rparr>],
        output_uids := output_uids k @ [ta_uid (store k ! attr)],
        output_shapes := output_shapes k @ [shape]\<rparr>"
  from Cons.prems(1) obtain name attr shape where
    first: "vi_GetName out = Inr name" "symbol_table k name = Some attr"
      "GetTensorShape out = Inr (Some shape)"
    and loop: "graph_outputs_loop rest (?mid attr shape) = (Inr (), k3)"
    by (auto simp add: Let_def split: sum.splits option.splits)
  have uids: "map ta_uid (store (?mid attr shape)) = map ta_uid (store k)"
    and names: "map ta_name (store (?mid attr shape)) = map ta_name (store k)"
    by (simp_all add: map_update_same)
  have wf: "table_wf (?mid attr shape)"
    unfolding table_wf_def
  proof (intro allI impI)
    fix n a
    assume "symbol_table (?mid attr shape) n = Some a"
    with Cons.prems(2) have a: "a < length (store k)" "ta_name (store k ! a) = n"
      by (simp_all add: table_wf_def)
    with nth_of_map_eq [OF names, of a]
    show "a < length (store (?mid attr shape)) \<and> ta_name (store (?mid attr shape) ! a) = n"
      by simp
  qed
  from Cons.IH [OF loop wf] obtain attrs shapes where rest:
    "length attrs = length rest" "length shapes = length rest"
    "output_uids k3 = (output_uids k @ [ta_uid (store k ! attr)]) @
       map (\<lambda>a. ta_uid (store (?mid attr shape) ! a)) attrs"
    "output_shapes k3 = (output_shapes k @ [shape]) @ shapes"
    "\<forall>i<length rest. \<exists>name.
        vi_GetName (rest ! i) = Inr name \<and> symbol_table k name = Some (attrs ! i) \<and>
        GetTensorShape (rest ! i) = Inr (Some (shapes ! i))"
    by auto
  have same: "map (\<lambda>a. ta_uid (store (?mid attr shape) ! a)) attrs =
      map (\<lambda>a. ta_uid (store k ! a)) attrs"
  proof (rule nth_equalityI)
    show "length (map (\<lambda>a. ta_uid (store (?mid attr shape) ! a)) attrs) =
        length (map (\<lambda>a. ta_uid (store k ! a)) attrs)"
      by simp
  next
    fix i
    assume "i < length (map (\<lambda>a. ta_uid (store (?mid attr shape) ! a)) attrs)"
    then have i: "i < length rest"
      using rest(1) by simp
    with rest(5) obtain n where "symbol_table k n = Some (attrs ! i)"
      by blast
    with Cons.prems(2) have "attrs ! i < length (store (?mid attr shape))"
      by (simp add: table_wf_def)
    from nth_of_map_eq [OF uids this] i rest(1)
    show "map (\<lambda>a. ta_uid (store (?mid attr shape) ! a)) attrs ! i =
        map (\<lambda>a. ta_uid (store k ! a)) attrs ! i"
      by simp
  qed
  have each: "\<forall>i<length (out # rest). \<exists>name.
        vi_GetName ((out # rest) ! i) = Inr name \<and>
        symbol_table k name = Some ((attr # attrs) ! i) \<and>
        GetTensorShape ((out # rest) ! i) = Inr (Some ((shape # shapes) ! i))"
  proof (intro allI impI)
    fix i
    assume "i < length (out # rest)"
    with first rest(5) show "\<exists>name.
        vi_GetName ((out # rest) ! i) = Inr name \<and>
        symbol_table k name = Some ((attr # attrs) ! i) \<and>
        GetTensorShape ((out # rest) ! i) = Inr (Some ((shape # shapes) ! i))"
      by (cases i) simp_all
  qed
  from rest(1-4) same each show ?case
    by (intro exI [of _ "attr # attrs"] exI [of _ "shape # shapes"]) simp
qed

lemma bindings_Nil [simp]: "bindings [] ptrs pack = pack"
  by (simp add: bindings_def)

lemma bindings_Cons [simp]:
  "bindings (uid # uids) (p # ptrs) pack = bindings uids ptrs (pack(uid \<mapsto> p))"
  by (simp add: bindings_def)

lemma bindings_other:
  "uid \<notin> set uids \<Longrightarrow> bindings uids ptrs pack uid = pack uid"
proof (induction uids arbitrary: ptrs pack)
  case Nil
  then show ?case by simp
next
  case (Cons u us)
  then show ?case
    by (cases ptrs) (simp_all add: bindings_def)
qed

lemma bindings_nth:
  assumes "j < length uids" and "length ptrs = length uids"
    and "uids ! j \<notin> set (drop (Suc j) uids)"
  shows "bindings uids ptrs pack (uids ! j) = Some (ptrs ! j)"
  using assms
proof (induction uids arbitrary: ptrs pack j)
  case Nil
  then show ?case by simp
next
  case (Cons u us)
  from Cons.prems(2) obtain p ps where ptrs: "ptrs = p # ps" "length ps = length us"
    by (cases ptrs) auto
  show ?case
  proof (cases j)
    case 0
    with Cons.prems(3) have "u \<notin> set us"
      by simp
    with ptrs 0 show ?thesis
      by (simp add: bindings_other)
  next
    case (Suc i)
    with Cons.prems have "i < length us" "us ! i \<notin> set (drop (Suc i) us)"
      by simp_all
    from Cons.IH [OF this(1) ptrs(2) this(2)] ptrs Suc show ?thesis
      by simp
  qed
qed

lemma bind_inputs_loop_success:
  assumes "bind_inputs_loop ctx uids i pack = Inr pack'"
  shows "\<exists>ptrs. length ptrs = length uids \<and>
           (\<forall>j<length uids. kc_GetInput ctx (i + j) = Inr (ptrs ! j)) \<and>
           pack' = bindings uids ptrs pack"
  using assms
proof (induction uids arbitrary: i pack)
  case Nil
  then show ?case by simp
next
  case (Cons uid rest)
  from Cons.prems obtain p where
    p: "kc_GetInput ctx i = Inr p"
    and loop: "bind_inputs_loop ctx rest (Suc i) (pack(uid \<mapsto> p)) = Inr pack'"
    by (auto split: sum.splits)
  from Cons.IH [OF loop] obtain ptrs where ptrs:
    "length ptrs = length rest"
    "\<forall>j<length rest. kc_GetInput ctx (Suc i + j) = Inr (ptrs ! j)"
    "pack' = bindings rest ptrs (pack(uid \<mapsto> p))"
    by blast
  have "\<forall>j<length (uid # rest). kc_GetInput ctx (i + j) = Inr ((p # ptrs) ! j)"
  proof (intro allI impI)
    fix j
    assume "j < length (uid # rest)"
    with p ptrs(2) show "kc_GetInput ctx (i + j) = Inr ((p # ptrs) ! j)"
      by (cases j) simp_all
  qed
  with ptrs show ?case
    by (intro exI [of _ "p # ptrs"]) simp
qed

lemma bind_outputs_loop_success:
  assumes "bind_outputs_loop ctx uids shapes i pack = Inr pack'"
  shows "\<exists>ptrs. length ptrs = length uids \<and>
           (\<forall>j<length uids. kc_GetOutput ctx (i + j) (shapes ! j) = Inr (ptrs ! j)) \<and>
           pack' = bindings uids ptrs pack"
  using assms
proof (induction uids arbitrary: shapes i pack)
  case Nil
  then show ?case by simp
next
  case (Cons uid rest)
  from Cons.prems obtain shape shapes' where shapes: "shapes = shape # shapes'"
    by (cases shapes) auto
  with Cons.prems obtain p where
    p: "kc_GetOutput ctx i shape = Inr p"
    and loop: "bind_outputs_loop ctx rest shapes' (Suc i) (pack(uid \<mapsto> p)) = Inr pack'"
    by (auto split: sum.splits)
  from Cons.IH [OF loop] obtain ptrs where ptrs:
    "length ptrs = length rest"
    "\<forall>j<length rest. kc_GetOutput ctx (Suc i + j) (shapes' ! j) = Inr (ptrs ! j)"
    "pack' = bindings rest ptrs (pack(uid \<mapsto> p))"
    by blast
  have "\<forall>j<length (uid # rest). kc_GetOutput ctx (i + j) (shapes ! j) = Inr ((p # ptrs) ! j)"
  proof (intro allI impI)
    fix j
    assume "j < length (uid # rest)"
    with p ptrs(2) shapes show "kc_GetOutput ctx (i + j) (shapes ! j) = Inr ((p # ptrs) ! j)"
      by (cases j) simp_all
  qed
  with ptrs show ?case
    by (intro exI [of _ "p # ptrs"]) simp
qed

lemma Execute_success:
  assumes "Execute vendor ctx k = (Inr (), k2)"
  shows "\<exists>in_ptrs out_ptrs.
           length in_ptrs = length (input_uids k) \<and> length out_ptrs = length (output_uids k) \<and>
           (\<forall>i<length (input_uids k). kc_GetInput ctx i = Inr (in_ptrs ! i)) \<and>
           (\<forall>i<length (output_uids k).
              kc_GetOutput ctx i (output_shapes k ! i) = Inr (out_ptrs ! i)) \<and>
           calls_of k2 = calls_of k @
             [execute (handle k)
                (bindings (output_uids k) out_ptrs (bindings (input_uids k) in_ptrs Map.empty))
                (if workspace k = [] then NullPtr else WorkspaceData)]"
proof -
  from assms have body: "Execute_try vendor ctx k = (Inr (), k2)"
    by (auto simp add: Execute_def split: prod.splits sum.splits failure.splits exn.splits)
  then obtain pack_in pack g where
    ins: "bind_inputs_loop ctx (input_uids k) 0 Map.empty = Inr pack_in"
    and outs: "bind_outputs_loop ctx (output_uids k) (output_shapes k) 0 pack_in = Inr pack"
    and g: "graph k = Some g"
    and k2: "k2 = record_call (execute (handle k) pack
                     (if workspace k = [] then NullPtr else WorkspaceData)) k"
    by (auto simp add: Execute_try_def Let_def split: sum.splits if_splits option.splits)
  from bind_inputs_loop_success [OF ins] obtain in_ptrs where in_ptrs:
    "length in_ptrs = length (input_uids k)"
    "\<forall>j<length (input_uids k). kc_GetInput ctx j = Inr (in_ptrs ! j)"
    "pack_in = bindings (input_uids k) in_ptrs Map.empty"
    by auto
  from bind_outputs_loop_success [OF outs] obtain out_ptrs where out_ptrs:
    "length out_ptrs = length (output_uids k)"
    "\<forall>j<length (output_uids k). kc_GetOutput ctx j (output_shapes k ! j) = Inr (out_ptrs ! j)"
    "pack = bindings (output_uids k) out_ptrs pack_in"
    by auto
  from g k2 have "calls_of k2 = calls_of k @
      [execute (handle k) pack (if workspace k = [] then NullPtr else WorkspaceData)]"
    by simp
  with in_ptrs out_ptrs show ?thesis
    by blast
qed

lemma distinct_nth_notin_drop:
  assumes "distinct xs" and "i < length xs"
  shows "xs ! i \<notin> set (drop (Suc i) xs)"
proof -
  from assms(2) have "xs = take i xs @ xs ! i # drop (Suc i) xs"
    by (rule id_take_nth_drop)
  with assms(1) have "distinct (take i xs @ xs ! i # drop (Suc i) xs)"
    by simp
  then show ?thesis
    by simp
qed

lemma translation_order:
  assumes built: "BuildAndCompile vendor g (Kernel_new h) = (Inr (), k')"
    and ins: "gr_GetInputs g = Inr graph_inputs"
    and outs: "gr_GetOutputs g = Inr graph_outputs"
  shows "length (input_uids k') = length graph_inputs \<and>
         distinct (input_uids k') \<and> handle k' = h \<and>
         (\<forall>i<length graph_inputs.
            ta_uid (store k' ! i) = input_uids k' ! i \<and>
            vi_GetName (graph_inputs ! i) = Inr (ta_name (store k' ! i))) \<and>
         length (output_uids k') = length graph_outputs \<and>
         length (output_shapes k') = length graph_outputs \<and>
         (\<forall>i<length graph_outputs. \<exists>a<length (store k').
            vi_GetName (graph_outputs ! i) = Inr (ta_name (store k' ! a)) \<and>
            symbol_table k' (ta_name (store k' ! a)) = Some a \<and>
            output_uids k' ! i = ta_uid (store k' ! a) \<and>
            GetTensorShape (graph_outputs ! i) = Inr (Some (output_shapes k' ! i)))"
proof -
  let ?k0 = "(Kernel_new h)\<lparr>graph := Some \<lparr>g_ops = [], g_calls = []\<rparr>\<rparr>"
  from BuildAndCompile_success [OF built] ins outs obtain nodes k1 k2 k3 where
    l1: "graph_inputs_loop vendor graph_inputs ?k0 = (Inr (), k1)"
    and l2: "nodes_loop vendor nodes k1 = (Inr (), k2)"
    and l3: "graph_outputs_loop graph_outputs k2 = (Inr (), k3)"
    and l4: "CompileGraph vendor k3 = (Inr (), k')"
    by auto
  from graph_inputs_loop_success [OF l1] obtain new1 where new1:
    "length new1 = length graph_inputs" "store k1 = new1"
    "map ta_uid new1 = [1..int (length graph_inputs)]"
    "map (\<lambda>a. Inr (ta_name a)) new1 = map vi_GetName graph_inputs"
    "input_uids k1 = map ta_uid new1" "handle k1 = h"
    "output_uids k1 = []" "output_shapes k1 = []"
    by (auto simp add: Kernel_new_def)
  from nodes_loop_success [OF l2] obtain new2 where new2:
    "store k2 = store k1 @ new2" "input_uids k2 = input_uids k1"
    "output_uids k2 = output_uids k1" "output_shapes k2 = output_shapes k1"
    "handle k2 = handle k1"
    by blast
  have wf2: "table_wf k2"
    using nodes_loop_table_wf [OF l2 graph_inputs_loop_table_wf [OF l1 table_wf_new]] .
  from graph_outputs_loop_keeps [OF l3] have keeps3:
    "map ta_uid (store k3) = map ta_uid (store k2)"
    "map ta_name (store k3) = map ta_name (store k2)"
    "input_uids k3 = input_uids k2" "symbol_table k3 = symbol_table k2" "handle k3 = handle k2"
    by simp_all
  from keeps3(1) have len3: "length (store k3) = length (store k2)"
    using map_eq_imp_length_eq by blast
  from graph_outputs_loop_outputs [OF l3 wf2] new2 new1 obtain attrs shapes where outputs:
    "length attrs = length graph_outputs" "length shapes = length graph_outputs"
    "output_uids k3 = map (\<lambda>a. ta_uid (store k2 ! a)) attrs"
    "output_shapes k3 = shapes"
    "\<forall>i<length graph_outputs. \<exists>name.
        vi_GetName (graph_outputs ! i) = Inr name \<and>
        symbol_table k2 name = Some (attrs ! i) \<and>
        GetTensorShape (graph_outputs ! i) = Inr (Some (shapes ! i))"
    by auto
  from CompileGraph_keeps [OF l4] have keeps4:
    "store k' = store k3" "input_uids k' = input_uids k3" "output_uids k' = output_uids k3"
    "output_shapes k' = output_shapes k3" "symbol_table k' = symbol_table k3"
    "handle k' = handle k3"
    by simp_all
  have input_uids: "input_uids k' = map ta_uid new1"
    using keeps4 keeps3 new2 new1 by simp
  have "distinct (input_uids k')"
    using input_uids new1(3) by simp
  moreover have "length (input_uids k') = length graph_inputs"
    using input_uids new1(1) by simp
  moreover have "handle k' = h"
    using keeps4 keeps3 new2 new1 by simp
  moreover have "\<forall>i<length graph_inputs.
      ta_uid (store k' ! i) = input_uids k' ! i \<and>
      vi_GetName (graph_inputs ! i) = Inr (ta_name (store k' ! i))"
  proof (intro allI impI)
    fix i
    assume i: "i < length graph_inputs"
    with new1 new2 len3 have i3: "i < length (store k3)"
      by simp
    from i new1 new2 have at2: "store k2 ! i = new1 ! i"
      by (simp add: nth_append)
    from nth_of_map_eq [OF keeps3(1) i3] at2 have uid: "ta_uid (store k3 ! i) = ta_uid (new1 ! i)"
      by simp
    from nth_of_map_eq [OF keeps3(2) i3] at2 have name: "ta_name (store k3 ! i) = ta_name (new1 ! i)"
      by simp
    from new1(4) have "map (\<lambda>a. Inr (ta_name a)) new1 ! i = map vi_GetName graph_inputs ! i"
      by simp
    with i new1(1) have "vi_GetName (graph_inputs ! i) = Inr (ta_name (new1 ! i))"
      by simp
    with uid name i new1(1) input_uids keeps4(1)
    show "ta_uid (store k' ! i) = input_uids k' ! i \<and>
        vi_GetName (graph_inputs ! i) = Inr (ta_name (store k' ! i))"
      by simp
  qed
  moreover have "length (output_uids k') = length graph_outputs"
    "length (output_shapes k') = length graph_outputs"
    using keeps4 outputs by simp_all
  moreover have "\<forall>i<length graph_outputs. \<exists>a<length (store k').
      vi_GetName (graph_outputs ! i) = Inr (ta_name (store k' ! a)) \<and>
      symbol_table k' (ta_name (store k' ! a)) = Some a \<and>
      output_uids k' ! i = ta_uid (store k' ! a) \<and>
      GetTensorShape (graph_outputs ! i) = Inr (Some (output_shapes k' ! i))"
  proof (intro allI impI)
    fix i
    assume i: "i < length graph_outputs"
    with outputs(5) obtain name where name:
      "vi_GetName (graph_outputs ! i) = Inr name"
      "symbol_table k2 name = Some (attrs ! i)"
      "GetTensorShape (graph_outputs ! i) = Inr (Some (shapes ! i))"
      by blast
    from wf2 name(2) have a2: "attrs ! i < length (store k2)"
      "ta_name (store k2 ! (attrs ! i)) = name"
      by (simp_all add: table_wf_def)
    with len3 have a3: "attrs ! i < length (store k3)"
      by simp
    from nth_of_map_eq [OF keeps3(1) a3] nth_of_map_eq [OF keeps3(2) a3] a2
    have at3: "ta_uid (store k3 ! (attrs ! i)) = ta_uid (store k2 ! (attrs ! i))"
      "ta_name (store k3 ! (attrs ! i)) = name"
      by simp_all
    from i outputs have "output_uids k3 ! i = ta_uid (store k2 ! (attrs ! i))"
      by simp
    with at3 a3 name keeps3(4) keeps4 outputs(4)
    have "attrs ! i < length (store k') \<and>
        vi_GetName (graph_outputs ! i) = Inr (ta_name (store k' ! (attrs ! i))) \<and>
        symbol_table k' (ta_name (store k' ! (attrs ! i))) = Some (attrs ! i) \<and>
        output_uids k' ! i = ta_uid (store k' ! (attrs ! i)) \<and>
        GetTensorShape (graph_outputs ! i) = Inr (Some (output_shapes k' ! i))"
      by simp
    then show "\<exists>a<length (store k').
        vi_GetName (graph_outputs ! i) = Inr (ta_name (store k' ! a)) \<and>
        symbol_table k' (ta_name (store k' ! a)) = Some a \<and>
        output_uids k' ! i = ta_uid (store k' ! a) \<and>
        GetTensorShape (graph_outputs ! i) = Inr (Some (output_shapes k' ! i))"
      by blast
  qed
  ultimately show ?thesis
    by blast
qed

text \<open>
  C3. After \<open>BuildAndCompile\<close> succeeds on a new Kernel, the input-UID list is in the
  order of the declared graph inputs: its i-th entry is the UID of the attribute object
  that carries the name of the i-th declared input. The output-UID list and the list of
  output shapes are in the order of the declared graph outputs: the i-th UID is that of
  the attribute object the symbol table holds under the name of the i-th declared output,
  the i-th shape is the shape of that output. A successful \<open>Execute\<close> hands the vendor the
  variant pack that results from binding, in order, the i-th supplied input pointer to
  the i-th input UID and then the i-th materialised output buffer (requested with the
  i-th recorded shape) to the i-th output UID. In that pack an input UID maps to its
  input pointer unless it is also an output UID, and an output UID maps to its output
  buffer unless the same UID recurs later in the output list.
\<close>

theorem order_contracts:
  assumes built: "BuildAndCompile vendor g (Kernel_new h) = (Inr (), k')"
    and ins: "gr_GetInputs g = Inr graph_inputs"
    and outs: "gr_GetOutputs g = Inr graph_outputs"
  shows "length (input_uids k') = length graph_inputs \<and>
         (\<forall>i<length graph_inputs.
            ta_uid (store k' ! i) = input_uids k' ! i \<and>
            vi_GetName (graph_inputs ! i) = Inr (ta_name (store k' ! i))) \<and>
         length (output_uids k') = length graph_outputs \<and>
         length (output_shapes k') = length graph_outputs \<and>
         (\<forall>i<length graph_outputs. \<exists>a<length (store k').
            vi_GetName (graph_outputs ! i) = Inr (ta_name (store k' ! a)) \<and>
            symbol_table k' (ta_name (store k' ! a)) = Some a \<and>
            output_uids k' ! i = ta_uid (store k' ! a) \<and>
            GetTensorShape (graph_outputs ! i) = Inr (Some (output_shapes k' ! i))) \<and>
         (\<forall>vendor2 ctx k2.
            Execute vendor2 ctx k' = (Inr (), k2) \<longrightarrow>
            (\<exists>in_ptrs out_ptrs pack.
               length in_ptrs = length graph_inputs \<and>
               length out_ptrs = length graph_outputs \<and>
               (\<forall>i<length graph_inputs. kc_GetInput ctx i = Inr (in_ptrs ! i)) \<and>
               (\<forall>i<length graph_outputs.
                  kc_GetOutput ctx i (output_shapes k' ! i) = Inr (out_ptrs ! i)) \<and>
               pack = bindings (output_uids k') out_ptrs
                        (bindings (input_uids k') in_ptrs Map.empty) \<and>
               calls_of k2 = calls_of k' @
                 [execute h pack (if workspace k' = [] then NullPtr else WorkspaceData)] \<and>
               (\<forall>i<length graph_inputs.
                  input_uids k' ! i \<notin> set (output_uids k') \<longrightarrow>
                  pack (input_uids k' ! i) = Some (in_ptrs ! i)) \<and>
               (\<forall>i<length graph_outputs.
                  output_uids k' ! i \<notin> set (drop (Suc i) (output_uids k')) \<longrightarrow>
                  pack (output_uids k' ! i) = Some (out_ptrs ! i))))"
proof -
  note order = translation_order [OF built ins outs]
  from order have lens: "length (input_uids k') = length graph_inputs"
    "length (output_uids k') = length graph_outputs" "distinct (input_uids k')" "handle k' = h"
    by simp_all
  have execute_binds: "\<exists>in_ptrs out_ptrs pack.
      length in_ptrs = length graph_inputs \<and>
      length out_ptrs = length graph_outputs \<and>
      (\<forall>i<length graph_inputs. kc_GetInput ctx i = Inr (in_ptrs ! i)) \<and>
      (\<forall>i<length graph_outputs.
         kc_GetOutput ctx i (output_shapes k' ! i) = Inr (out_ptrs ! i)) \<and>
      pack = bindings (output_uids k') out_ptrs (bindings (input_uids k') in_ptrs Map.empty) \<and>
      calls_of k2 = calls_of k' @
        [execute h pack (if workspace k' = [] then NullPtr else WorkspaceData)] \<and>
      (\<forall>i<length graph_inputs.
         input_uids k' ! i \<notin> set (output_uids k') \<longrightarrow>
         pack (input_uids k' ! i) = Some (in_ptrs ! i)) \<and>
      (\<forall>i<length graph_outputs.
         output_uids k' ! i \<notin> set (drop (Suc i) (output_uids k')) \<longrightarrow>
         pack (output_uids k' ! i) = Some (out_ptrs ! i))"
    if run: "Execute vendor2 ctx k' = (Inr (), k2)" for vendor2 ctx k2
  proof -
    from Execute_success [OF run] lens obtain in_ptrs out_ptrs where ptrs:
      "length in_ptrs = length graph_inputs" "length out_ptrs = length graph_outputs"
      "\<forall>i<length graph_inputs. kc_GetInput ctx i = Inr (in_ptrs ! i)"
      "\<forall>i<length graph_outputs. kc_GetOutput ctx i (output_shapes k' ! i) = Inr (out_ptrs ! i)"
      "calls_of k2 = calls_of k' @
         [execute h
            (bindings (output_uids k') out_ptrs (bindings (input_uids k') in_ptrs Map.empty))
            (if workspace k' = [] then NullPtr else WorkspaceData)]"
      by auto
    let ?pack = "bindings (output_uids k') out_ptrs (bindings (input_uids k') in_ptrs Map.empty)"
    have inputs_bound: "\<forall>i<length graph_inputs.
        input_uids k' ! i \<notin> set (output_uids k') \<longrightarrow>
        ?pack (input_uids k' ! i) = Some (in_ptrs ! i)"
    proof (intro allI impI)
      fix i
      assume i: "i < length graph_inputs"
        and other: "input_uids k' ! i \<notin> set (output_uids k')"
      from i lens have i': "i < length (input_uids k')"
        by simp
      from bindings_nth [OF i' _ distinct_nth_notin_drop [OF lens(3) i'], of in_ptrs Map.empty]
        ptrs(1) lens(1)
      have "bindings (input_uids k') in_ptrs Map.empty (input_uids k' ! i) = Some (in_ptrs ! i)"
        by simp
      with bindings_other [OF other] show "?pack (input_uids k' ! i) = Some (in_ptrs ! i)"
        by simp
    qed
    have outputs_bound: "\<forall>i<length graph_outputs.
        output_uids k' ! i \<notin> set (drop (Suc i) (output_uids k')) \<longrightarrow>
        ?pack (output_uids k' ! i) = Some (out_ptrs ! i)"
    proof (intro allI impI)
      fix i
      assume i: "i < length graph_outputs"
        and last: "output_uids k' ! i \<notin> set (drop (Suc i) (output_uids k'))"
      from i lens have i': "i < length (output_uids k')"
        by simp
      from bindings_nth [OF i' _ last, of out_ptrs] ptrs(2) lens(2)
      show "?pack (output_uids k' ! i) = Some (out_ptrs ! i)"
        by simp
    qed
    from ptrs inputs_bound outputs_bound show ?thesis
      by blast
  qed
  from order execute_binds show ?thesis
    by blast
qed

theorem order_contracts_witness:
  "input_uids (snd (BuildAndCompile (ex_vendor 64) ex_graph (Kernel_new 7))) = [1, 2] \<and>
   output_uids (snd (BuildAndCompile (ex_vendor 64) ex_graph (Kernel_new 7))) = [3] \<and>
   output_shapes (snd (BuildAndCompile (ex_vendor 64) ex_graph (Kernel_new 7))) =
     [[1, 1, 6, 6]] \<and>
   (\<exists>pack.
      calls_of (snd (Execute (ex_vendor 64) (ex_ctx 2 1)
                  (snd (BuildAndCompile (ex_vendor 64) ex_graph (Kernel_new 7))))) =
        build_stages 7 @ [execute 7 pack WorkspaceData] \<and>
      pack 1 = Some (TensorData 0) \<and> pack 2 = Some (TensorData 1) \<and>
      pack 3 = Some (TensorData 100))"
proof -
  let ?K = "ex_kernel_built 64"
  have reads: "gr_GetInputs ex_graph = Inr [ex_X, ex_W]" "gr_GetOutputs ex_graph = Inr [ex_Y]"
    by (simp_all add: ex_graph_def)
  have fields: "input_uids ?K = [1, 2]" "output_uids ?K = [3]"
    "output_shapes ?K = [[1, 1, 6, 6]]" "workspace ?K \<noteq> []" "calls_of ?K = build_stages 7"
    by (simp_all add: ex_kernel_built_def ex_kernel_translated_def ex_kernel_node_def
        ex_kernel_inputs_def calls_of_def build_stages_def)
  have "fst (Execute (ex_vendor 64) (ex_ctx 2 1) ?K) = Inr ()"
    by (simp add: Execute_def Execute_try_def fields ex_ctx_def Let_def)
      (simp add: ex_kernel_built_def ex_vendor_def no_error_def)
  then have run: "Execute (ex_vendor 64) (ex_ctx 2 1) ?K =
      (Inr (), snd (Execute (ex_vendor 64) (ex_ctx 2 1) ?K))"
    by (simp add: prod_eq_iff)
  from order_contracts [OF ex_BuildAndCompile [of 64] reads] run
  obtain in_ptrs out_ptrs pack where
    a: "\<forall>i<length [ex_X, ex_W]. kc_GetInput (ex_ctx 2 1) i = Inr (in_ptrs ! i)"
    and b: "\<forall>i<length [ex_Y]. kc_GetOutput (ex_ctx 2 1) i (output_shapes ?K ! i) =
              Inr (out_ptrs ! i)"
    and c: "calls_of (snd (Execute (ex_vendor 64) (ex_ctx 2 1) ?K)) = calls_of ?K @
              [execute 7 pack (if workspace ?K = [] then NullPtr else WorkspaceData)]"
    and d: "\<forall>i<length [ex_X, ex_W].
              input_uids ?K ! i \<notin> set (output_uids ?K) \<longrightarrow>
              pack (input_uids ?K ! i) = Some (in_ptrs ! i)"
    and e: "\<forall>i<length [ex_Y].
              output_uids ?K ! i \<notin> set (drop (Suc i) (output_uids ?K)) \<longrightarrow>
              pack (output_uids ?K ! i) = Some (out_ptrs ! i)"
    by blast
  from a [rule_format, of 0] a [rule_format, of 1] b [rule_format, of 0]
  have ptrs: "in_ptrs ! 0 = TensorData 0" "in_ptrs ! 1 = TensorData 1"
    "out_ptrs ! 0 = TensorData 100"
    by (simp_all add: ex_ctx_def)
  from d [rule_format, of 0] d [rule_format, of 1] e [rule_format, of 0] ptrs fields
  have "pack 1 = Some (TensorData 0)" "pack 2 = Some (TensorData 1)"
    "pack 3 = Some (TensorData 100)"
    by simp_all
  with c fields show ?thesis
    by (simp add: ex_BuildAndCompile)
qed

end
